theory Spec2Isabelle
  imports Complex_Main "HOL-Library.Word"
begin

unbundle bit_operations_syntax

section \<open>JavaScript numbers\<close>

text \<open>
  The engine computes with JavaScript numbers. The embedding takes a number to be either
  \<open>NaN\<close> or a real: \<open>NaN\<close> is what \<open>parseInt\<close> returns on a string without digits and
  what every arithmetic operation returns on a \<open>NaN\<close> operand, and it makes every
  comparison false. Rounding of IEEE doubles, signed zero and the infinities are not
  part of the number model; a division by zero, which the source never performs on
  numbers of its own, is taken to \<open>NaN\<close>.
\<close>

datatype number = NaN | Num real

instantiation number :: "{zero, one, plus, minus, uminus, times, inverse, abs, ord}"
begin

definition zero_number :: number where "zero_number = Num 0"

definition one_number :: number where "one_number = Num 1"

fun plus_number :: "number \<Rightarrow> number \<Rightarrow> number" where
  "plus_number (Num x) (Num y) = Num (x + y)"
| "plus_number _ _ = NaN"

fun minus_number :: "number \<Rightarrow> number \<Rightarrow> number" where
  "minus_number (Num x) (Num y) = Num (x - y)"
| "minus_number _ _ = NaN"

fun uminus_number :: "number \<Rightarrow> number" where
  "uminus_number (Num x) = Num (- x)"
| "uminus_number NaN = NaN"

fun times_number :: "number \<Rightarrow> number \<Rightarrow> number" where
  "times_number (Num x) (Num y) = Num (x * y)"
| "times_number _ _ = NaN"

fun divide_number :: "number \<Rightarrow> number \<Rightarrow> number" where
  "divide_number (Num x) (Num y) = (if y = 0 then NaN else Num (x / y))"
| "divide_number _ _ = NaN"

fun inverse_number :: "number \<Rightarrow> number" where
  "inverse_number (Num x) = (if x = 0 then NaN else Num (1 / x))"
| "inverse_number NaN = NaN"

fun abs_number :: "number \<Rightarrow> number" where
  "abs_number (Num x) = Num \<bar>x\<bar>"
| "abs_number NaN = NaN"

fun less_number :: "number \<Rightarrow> number \<Rightarrow> bool" where
  "less_number (Num x) (Num y) = (x < y)"
| "less_number _ _ = False"

fun less_eq_number :: "number \<Rightarrow> number \<Rightarrow> bool" where
  "less_eq_number (Num x) (Num y) = (x \<le> y)"
| "less_eq_number _ _ = False"

instance ..

end

instance number :: semigroup_add
proof
  fix x y z :: number
  show "x + y + z = x + (y + z)"
    by (cases x; cases y; cases z) simp_all
qed

instance number :: numeral ..

instance number :: power ..

text \<open>\<open>Math.min\<close>, \<open>Math.max\<close>, \<open>Math.floor\<close>, \<open>Math.round\<close> (half up), \<open>Math.sqrt\<close>,
  \<open>Math.cbrt\<close>, \<open>Math.cos\<close>, \<open>Math.sin\<close>, \<open>Math.atan2\<close>, \<open>Math.exp\<close>.\<close>

fun Math_min :: "number \<Rightarrow> number \<Rightarrow> number" where
  "Math_min (Num x) (Num y) = Num (min x y)"
| "Math_min _ _ = NaN"

fun Math_max :: "number \<Rightarrow> number \<Rightarrow> number" where
  "Math_max (Num x) (Num y) = Num (max x y)"
| "Math_max _ _ = NaN"

fun Math_floor :: "number \<Rightarrow> number" where
  "Math_floor (Num x) = Num (of_int \<lfloor>x\<rfloor>)"
| "Math_floor NaN = NaN"

fun Math_round :: "number \<Rightarrow> number" where
  "Math_round (Num x) = Num (of_int \<lfloor>x + 1 / 2\<rfloor>)"
| "Math_round NaN = NaN"

fun Math_sqrt :: "number \<Rightarrow> number" where
  "Math_sqrt (Num x) = (if x < 0 then NaN else Num (sqrt x))"
| "Math_sqrt NaN = NaN"

fun Math_cbrt :: "number \<Rightarrow> number" where
  "Math_cbrt (Num x) = Num (root 3 x)"
| "Math_cbrt NaN = NaN"

fun Math_cos :: "number \<Rightarrow> number" where
  "Math_cos (Num x) = Num (cos x)"
| "Math_cos NaN = NaN"

fun Math_sin :: "number \<Rightarrow> number" where
  "Math_sin (Num x) = Num (sin x)"
| "Math_sin NaN = NaN"

fun Math_exp :: "number \<Rightarrow> number" where
  "Math_exp (Num x) = Num (exp x)"
| "Math_exp NaN = NaN"

definition atan2 :: "real \<Rightarrow> real \<Rightarrow> real" where
  "atan2 y x =
     (if 0 < x then arctan (y / x)
      else if x < 0 then (if 0 \<le> y then arctan (y / x) + pi else arctan (y / x) - pi)
      else if 0 < y then pi / 2
      else if y < 0 then - (pi / 2)
      else 0)"

fun Math_atan2 :: "number \<Rightarrow> number \<Rightarrow> number" where
  "Math_atan2 (Num y) (Num x) = Num (atan2 y x)"
| "Math_atan2 _ _ = NaN"

definition Math_PI :: number where
  "Math_PI = Num pi"

text \<open>\<open>Math.pow\<close>, at the two exponents of the source (2.4 and 1 / 2.4): a negative base
  with an exponent that is not an integer gives \<open>NaN\<close>.\<close>

fun Math_pow :: "number \<Rightarrow> number \<Rightarrow> number" where
  "Math_pow (Num x) (Num y) = (if x < 0 then NaN else Num (x powr y))"
| "Math_pow _ _ = NaN"

text \<open>The remainder operator \<open>%\<close>: the quotient is truncated towards zero, so the result
  has the sign of the dividend.\<close>

definition trunc :: "real \<Rightarrow> int" where
  "trunc q = (if q < 0 then \<lceil>q\<rceil> else \<lfloor>q\<rfloor>)"

fun js_rem :: "number \<Rightarrow> number \<Rightarrow> number" where
  "js_rem (Num x) (Num y) = (if y = 0 then NaN else Num (x - y * of_int (trunc (x / y))))"
| "js_rem _ _ = NaN"

text \<open>\<open>xs.reduce((m, x) => Math.min(m, x), Infinity)\<close> and \<open>Math.min(...xs)\<close> on a list
  that is not empty: the initial \<open>Infinity\<close> disappears at the first element. The value
  at the empty list is a filler that is never read: the function is applied to the nine
  and eight contrast checks and the six semantic pairs, and to the per-mode lists only
  after the list of CVD modes has been found not empty.\<close>

fun Math_min_list :: "number list \<Rightarrow> number" where
  "Math_min_list [] = NaN"
| "Math_min_list (x # xs) = foldl Math_min x xs"

definition isNum :: "number \<Rightarrow> bool" where
  "isNum x = (case x of NaN \<Rightarrow> False | Num _ \<Rightarrow> True)"

section \<open>Deterministic RNG (xorshift)\<close>

text \<open>The state is an unsigned 32-bit integer (\<open>seed >>> 0\<close>). The three steps of
  \<open>next\<close> work on the 32-bit pattern: \<open><<\<close> drops the bits shifted out, \<open>>>>\<close> is the
  logical shift.\<close>

record RNG =
  state :: "32 word"

definition RNG_new :: "int \<Rightarrow> RNG" where
  "RNG_new seed = \<lparr>state = word_of_int seed\<rparr>"

definition xorshift :: "32 word \<Rightarrow> 32 word" where
  "xorshift x0 =
     (let x1 = x0 XOR push_bit 13 x0;
          x2 = x1 XOR drop_bit 17 x1;
          x3 = x2 XOR push_bit 5 x2
      in x3)"

text \<open>\<open>next\<close> advances the state and returns \<open>state / 0xffffffff\<close>.\<close>

definition RNG_next :: "RNG \<Rightarrow> real \<times> RNG" where
  "RNG_next rng =
     (let s = xorshift (state rng)
      in (real (unat s) / 4294967295, rng\<lparr>state := s\<rparr>))"

text \<open>\<open>int(lo, hi) = Math.floor(next() * (hi - lo + 1)) + lo\<close>.\<close>

definition RNG_int :: "int \<Rightarrow> int \<Rightarrow> RNG \<Rightarrow> int \<times> RNG" where
  "RNG_int lo hi rng =
     (let (u, rng') = RNG_next rng
      in (\<lfloor>u * real_of_int (hi - lo + 1)\<rfloor> + lo, rng'))"

text \<open>\<open>float(lo, hi) = next() * (hi - lo) + lo\<close>.\<close>

definition RNG_float :: "real \<Rightarrow> real \<Rightarrow> RNG \<Rightarrow> real \<times> RNG" where
  "RNG_float lo hi rng =
     (let (u, rng') = RNG_next rng
      in (u * (hi - lo) + lo, rng'))"

text \<open>\<open>pick(arr) = arr[int(0, arr.length - 1)]\<close>: an index outside the array reads
  \<open>undefined\<close>, which is \<open>None\<close> here.\<close>

definition RNG_pick :: "'a list \<Rightarrow> RNG \<Rightarrow> 'a option \<times> RNG" where
  "RNG_pick arr rng =
     (let (i, rng') = RNG_int 0 (int (length arr) - 1) rng
      in (if 0 \<le> i \<and> i < int (length arr) then Some (arr ! nat i) else None, rng'))"

section \<open>Helpers\<close>

definition clamp :: "number \<Rightarrow> number \<Rightarrow> number \<Rightarrow> number" where
  "clamp x lo hi = Math_min hi (Math_max lo x)"

definition mod360 :: "number \<Rightarrow> number" where
  "mod360 h = (let x = js_rem h 360 in if x < 0 then x + 360 else x)"

definition hueDistance :: "number \<Rightarrow> number \<Rightarrow> number" where
  "hueDistance a b = (let d = \<bar>mod360 a - mod360 b\<bar> in Math_min d (360 - d))"

section \<open>Strings\<close>

text \<open>A string is a list of characters with codes below 256. \<open>trim\<close> removes white
  space at both ends; the white space of JavaScript below 256 is the tab, the line feed,
  the vertical tab, the form feed, the carriage return, the space and the no-break space
  U+00A0. \<open>toUpperCase\<close> maps \<open>a\<close>..\<open>z\<close> to \<open>A\<close>..\<open>Z\<close> and is that of JavaScript on
  ASCII text. \<open>slice\<close> is \<open>s.slice(i, j)\<close> for \<open>0 \<le> i \<le> j\<close>, and \<open>padStart2\<close> is
  \<open>s.padStart(2, "0")\<close>.\<close>

definition isWhiteSpace :: "char \<Rightarrow> bool" where
  "isWhiteSpace c =
     (c \<in> set [CHR 0x09, CHR 0x0A, CHR 0x0B, CHR 0x0C, CHR 0x0D, CHR 0x20, CHR 0xA0])"

definition trim :: "string \<Rightarrow> string" where
  "trim s = rev (dropWhile isWhiteSpace (rev (dropWhile isWhiteSpace s)))"

definition upperChar :: "char \<Rightarrow> char" where
  "upperChar c =
     (let n = (of_char c :: nat) in if 97 \<le> n \<and> n \<le> 122 then char_of (n - 32) else c)"

definition toUpperCase :: "string \<Rightarrow> string" where
  "toUpperCase s = map upperChar s"

definition slice :: "nat \<Rightarrow> nat \<Rightarrow> string \<Rightarrow> string" where
  "slice i j s = take (j - i) (drop i s)"

definition padStart2 :: "string \<Rightarrow> string" where
  "padStart2 s = replicate (2 - length s) (CHR ''0'') @ s"

definition startsWithHash :: "string \<Rightarrow> bool" where
  "startsWithHash s = (case s of [] \<Rightarrow> False | c # _ \<Rightarrow> c = CHR ''#'')"

text \<open>\<open>h.replace(/^#/, "")\<close> removes one leading \<open>#\<close>.\<close>

definition stripHash :: "string \<Rightarrow> string" where
  "stripHash s = (if startsWithHash s then tl s else s)"

text \<open>\<open>parseInt(s, 16)\<close>: leading white space is skipped, then an optional sign, then an
  optional \<open>0x\<close> or \<open>0X\<close>; the longest run of hexadecimal digits that follows is the
  value, and when that run is empty the result is \<open>NaN\<close>.\<close>

definition hexDigitVal :: "char \<Rightarrow> nat option" where
  "hexDigitVal c =
     (let n = (of_char c :: nat)
      in if 48 \<le> n \<and> n \<le> 57 then Some (n - 48)
         else if 65 \<le> n \<and> n \<le> 70 then Some (n - 55)
         else if 97 \<le> n \<and> n \<le> 102 then Some (n - 87)
         else None)"

definition isHexDigit :: "char \<Rightarrow> bool" where
  "isHexDigit c = (hexDigitVal c \<noteq> None)"

definition digitsValue :: "string \<Rightarrow> nat" where
  "digitsValue ds = foldl (\<lambda>acc c. 16 * acc + (case hexDigitVal c of Some v \<Rightarrow> v | None \<Rightarrow> 0)) 0 ds"

definition parseInt16 :: "string \<Rightarrow> number" where
  "parseInt16 s =
     (let s1 = dropWhile isWhiteSpace s;
          neg = (case s1 of [] \<Rightarrow> False | c # _ \<Rightarrow> c = CHR ''-'');
          s2 = (case s1 of [] \<Rightarrow> [] | c # t \<Rightarrow> if c = CHR ''-'' \<or> c = CHR ''+'' then t else s1);
          s3 = (if take 2 s2 = ''0x'' \<or> take 2 s2 = ''0X'' then drop 2 s2 else s2);
          ds = takeWhile isHexDigit s3
      in if ds = [] then NaN
         else if neg then Num (- real (digitsValue ds))
         else Num (real (digitsValue ds)))"

text \<open>\<open>n.toString(16)\<close> for the result of \<open>Math.round\<close>: \<open>NaN\<close> prints as \<open>"NaN"\<close>, an
  integer as its hexadecimal digits in lower case.\<close>

definition digitChar :: "nat \<Rightarrow> char" where
  "digitChar d = ''0123456789abcdef'' ! (d mod 16)"

fun hexDigits :: "nat \<Rightarrow> string" where
  "hexDigits n = (if n < 16 then [digitChar n] else hexDigits (n div 16) @ [digitChar (n mod 16)])"

declare hexDigits.simps [simp del]

fun toString16 :: "number \<Rightarrow> string" where
  "toString16 NaN = ''NaN''"
| "toString16 (Num x) =
     (if x < 0 then ''-'' @ hexDigits (nat \<lfloor>- x\<rfloor>) else hexDigits (nat \<lfloor>x\<rfloor>))"

section \<open>Color conversions: sRGB, linear RGB, OKLab, OKLCH\<close>

text \<open>The errors the source throws: \<open>Error("Invalid hex: ...")\<close> with the offending
  string, the TypeError of an index into \<open>undefined\<close>, and the error of the entry point
  on a missing \<open>primaryHex\<close>. \<open>OutsideModel\<close> is not an error of the source: the model
  returns it where the source goes on with \<open>Infinity\<close>, which the number model lacks.\<close>

datatype error = InvalidHex string | TypeError | PrimaryHexRequired | OutsideModel

text \<open>Sequencing of computations that may throw.\<close>

definition bindE :: "error + 'a \<Rightarrow> ('a \<Rightarrow> error + 'b) \<Rightarrow> error + 'b" where
  "bindE m f = (case m of Inl e \<Rightarrow> Inl e | Inr x \<Rightarrow> f x)"

fun mapE :: "('a \<Rightarrow> error + 'b) \<Rightarrow> 'a list \<Rightarrow> error + 'b list" where
  "mapE f [] = Inr []"
| "mapE f (x # xs) = bindE (f x) (\<lambda>y. bindE (mapE f xs) (\<lambda>ys. Inr (y # ys)))"

record rgb =
  rgb_r :: number
  rgb_g :: number
  rgb_b :: number

record oklab =
  lab_L :: number
  lab_a :: number
  lab_b :: number

record oklch =
  lch_L :: number
  lch_C :: number
  lch_H :: number

definition hexToRgb :: "string \<Rightarrow> error + rgb" where
  "hexToRgb hex =
     (let h = stripHash (trim hex)
      in if length h \<noteq> 6 then Inl (InvalidHex hex)
         else Inr \<lparr>rgb_r = parseInt16 (slice 0 2 h) / 255,
                   rgb_g = parseInt16 (slice 2 4 h) / 255,
                   rgb_b = parseInt16 (slice 4 6 h) / 255\<rparr>)"

definition rgbToHex :: "rgb \<Rightarrow> string" where
  "rgbToHex c =
     (let r = clamp (rgb_r c) 0 1;
          g = clamp (rgb_g c) 0 1;
          b = clamp (rgb_b c) 0 1;
          ri = Math_round (r * 255);
          gi = Math_round (g * 255);
          bi = Math_round (b * 255)
      in toUpperCase (''#'' @ padStart2 (toString16 ri) @ padStart2 (toString16 gi)
                          @ padStart2 (toString16 bi)))"

definition srgbToLinear :: "number \<Rightarrow> number" where
  "srgbToLinear c = (if c \<le> 0.04045 then c / 12.92 else Math_pow ((c + 0.055) / 1.055) 2.4)"

definition linearToSrgb :: "number \<Rightarrow> number" where
  "linearToSrgb c = (if c \<le> 0.0031308 then 12.92 * c else 1.055 * Math_pow c (1 / 2.4) - 0.055)"

definition rgbToLinearRgb :: "rgb \<Rightarrow> rgb" where
  "rgbToLinearRgb c =
     \<lparr>rgb_r = srgbToLinear (rgb_r c), rgb_g = srgbToLinear (rgb_g c), rgb_b = srgbToLinear (rgb_b c)\<rparr>"

definition linearRgbToRgb :: "rgb \<Rightarrow> rgb" where
  "linearRgbToRgb c =
     \<lparr>rgb_r = linearToSrgb (rgb_r c), rgb_g = linearToSrgb (rgb_g c), rgb_b = linearToSrgb (rgb_b c)\<rparr>"

definition linearRgbToOklab :: "rgb \<Rightarrow> oklab" where
  "linearRgbToOklab c =
     (let r = rgb_r c; g = rgb_g c; b = rgb_b c;
          l = 0.4122214708 * r + 0.5363325363 * g + 0.0514459929 * b;
          m = 0.2119034982 * r + 0.6806995451 * g + 0.1073969566 * b;
          s = 0.0883024619 * r + 0.2817188376 * g + 0.6299787005 * b;
          l' = Math_cbrt l;
          m' = Math_cbrt m;
          s' = Math_cbrt s
      in \<lparr>lab_L = 0.2104542553 * l' + 0.793617785 * m' - 0.0040720468 * s',
          lab_a = 1.9779984951 * l' - 2.428592205 * m' + 0.4505937099 * s',
          lab_b = 0.0259040371 * l' + 0.7827717662 * m' - 0.808675766 * s'\<rparr>)"

definition oklabToLinearRgb :: "oklab \<Rightarrow> rgb" where
  "oklabToLinearRgb lab =
     (let L = lab_L lab; a = lab_a lab; b = lab_b lab;
          l' = L + 0.3963377774 * a + 0.2158037573 * b;
          m' = L - 0.1055613458 * a - 0.0638541728 * b;
          s' = L - 0.0894841775 * a - 1.291485548 * b;
          l = l' * l' * l';
          m = m' * m' * m';
          s = s' * s' * s'
      in \<lparr>rgb_r = 4.0767416621 * l - 3.3077115913 * m + 0.2309699292 * s,
          rgb_g = - 1.2684380046 * l + 2.6097574011 * m - 0.3413193965 * s,
          rgb_b = - 0.0041960863 * l - 0.7034186147 * m + 1.707614701 * s\<rparr>)"

definition oklabToOklch :: "oklab \<Rightarrow> oklch" where
  "oklabToOklch lab =
     \<lparr>lch_L = lab_L lab,
      lch_C = Math_sqrt (lab_a lab * lab_a lab + lab_b lab * lab_b lab),
      lch_H = mod360 ((Math_atan2 (lab_b lab) (lab_a lab) * 180) / Math_PI)\<rparr>"

definition oklchToOklab :: "oklch \<Rightarrow> oklab" where
  "oklchToOklab lch =
     \<lparr>lab_L = lch_L lch,
      lab_a = lch_C lch * Math_cos ((lch_H lch * Math_PI) / 180),
      lab_b = lch_C lch * Math_sin ((lch_H lch * Math_PI) / 180)\<rparr>"

definition hexToOklch :: "string \<Rightarrow> error + oklch" where
  "hexToOklch hex =
     bindE (hexToRgb hex) (\<lambda>c. Inr (oklabToOklch (linearRgbToOklab (rgbToLinearRgb c))))"

record hex_gamut =
  hex :: string
  inGamut :: bool

definition oklchToHex :: "oklch \<Rightarrow> hex_gamut" where
  "oklchToHex lch =
     (let c = linearRgbToRgb (oklabToLinearRgb (oklchToOklab lch))
      in \<lparr>hex = rgbToHex c,
          inGamut = (0 \<le> rgb_r c \<and> rgb_r c \<le> 1 \<and> 0 \<le> rgb_g c \<and> rgb_g c \<le> 1
                     \<and> 0 \<le> rgb_b c \<and> rgb_b c \<le> 1)\<rparr>)"

section \<open>WCAG contrast\<close>

definition relativeLuminance :: "rgb \<Rightarrow> number" where
  "relativeLuminance c =
     (let r = srgbToLinear (rgb_r c);
          g = srgbToLinear (rgb_g c);
          b = srgbToLinear (rgb_b c)
      in 0.2126 * r + 0.7152 * g + 0.0722 * b)"

definition contrastRatio :: "string \<Rightarrow> string \<Rightarrow> error + number" where
  "contrastRatio fgHex bgHex =
     bindE (hexToRgb fgHex) (\<lambda>fg.
     bindE (hexToRgb bgHex) (\<lambda>bg.
       let L1 = relativeLuminance fg;
           L2 = relativeLuminance bg;
           lighter = Math_max L1 L2;
           darker = Math_min L1 L2
       in Inr ((lighter + 0.05) / (darker + 0.05))))"

record thresholds =
  tc_normal :: number
  tc_large :: number

definition targetContrast :: "string \<Rightarrow> thresholds" where
  "targetContrast target =
     \<lparr>tc_normal = (if target = ''AAA'' then 7.0 else 4.5),
      tc_large = (if target = ''AAA'' then 4.5 else 3.0)\<rparr>"

section \<open>CVD simulation\<close>

definition CVD_MATS :: "string \<Rightarrow> number list list option" where
  "CVD_MATS m =
     (if m = ''protan'' then
        Some [[0.56667, 0.43333, 0.0], [0.55833, 0.44167, 0.0], [0.0, 0.24167, 0.75833]]
      else if m = ''deutan'' then
        Some [[0.625, 0.375, 0.0], [0.7, 0.3, 0.0], [0.0, 0.3, 0.7]]
      else if m = ''tritan'' then
        Some [[0.95, 0.05, 0.0], [0.0, 0.43333, 0.56667], [0.0, 0.475, 0.525]]
      else None)"

text \<open>For a mode without a matrix the source parses the color first and then fails on
  \<open>mat[0]\<close> with a TypeError.\<close>

definition applyCvd :: "string \<Rightarrow> string \<Rightarrow> error + string" where
  "applyCvd h m =
     (if m = ''none'' then Inr (toUpperCase h)
      else bindE (hexToRgb h) (\<lambda>c.
        case CVD_MATS m of
          None \<Rightarrow> Inl TypeError
        | Some mat \<Rightarrow>
            let r = clamp (mat ! 0 ! 0 * rgb_r c + mat ! 0 ! 1 * rgb_g c + mat ! 0 ! 2 * rgb_b c) 0 1;
                g = clamp (mat ! 1 ! 0 * rgb_r c + mat ! 1 ! 1 * rgb_g c + mat ! 1 ! 2 * rgb_b c) 0 1;
                b = clamp (mat ! 2 ! 0 * rgb_r c + mat ! 2 ! 1 * rgb_g c + mat ! 2 ! 2 * rgb_b c) 0 1
            in Inr (rgbToHex \<lparr>rgb_r = r, rgb_g = g, rgb_b = b\<rparr>)))"

section \<open>Distance in OKLab\<close>

definition deltaEoklab :: "string \<Rightarrow> string \<Rightarrow> error + number" where
  "deltaEoklab hex1 hex2 =
     bindE (hexToOklch hex1) (\<lambda>lch1.
     bindE (hexToOklch hex2) (\<lambda>lch2.
       let lab1 = oklchToOklab lch1;
           lab2 = oklchToOklab lch2;
           dL = lab_L lab1 - lab_L lab2;
           da = lab_a lab1 - lab_a lab2;
           db = lab_b lab1 - lab_b lab2
       in Inr (Math_sqrt (dL * dL + da * da + db * db))))"

section \<open>Token parameter model\<close>

record weights =
  w_contrast :: number
  w_toneSystem :: number
  w_emphasis :: number
  w_harmony :: number
  w_cvdRobust :: number
  w_semanticSeparation :: number
  w_gamutPenalty :: number
  w_stateContrast :: number

text \<open>The caller's overrides: a weight that is absent from the object is \<open>None\<close>.\<close>

record weight_overrides =
  o_contrast :: "number option"
  o_toneSystem :: "number option"
  o_emphasis :: "number option"
  o_harmony :: "number option"
  o_cvdRobust :: "number option"
  o_semanticSeparation :: "number option"
  o_gamutPenalty :: "number option"
  o_stateContrast :: "number option"

definition override :: "number \<Rightarrow> number option \<Rightarrow> number" where
  "override d v = (case v of None \<Rightarrow> d | Some x \<Rightarrow> x)"

definition baseWeights :: weights where
  "baseWeights =
     \<lparr>w_contrast = 3.2, w_toneSystem = 1.1, w_emphasis = 1.3, w_harmony = 0.7,
      w_cvdRobust = 1.4, w_semanticSeparation = 1.0, w_gamutPenalty = 2.0,
      w_stateContrast = 1.4\<rparr>"

definition defaultWeights :: "weight_overrides option \<Rightarrow> weights" where
  "defaultWeights overrides =
     (case overrides of
        None \<Rightarrow> baseWeights
      | Some ov \<Rightarrow>
          \<lparr>w_contrast = override (w_contrast baseWeights) (o_contrast ov),
           w_toneSystem = override (w_toneSystem baseWeights) (o_toneSystem ov),
           w_emphasis = override (w_emphasis baseWeights) (o_emphasis ov),
           w_harmony = override (w_harmony baseWeights) (o_harmony ov),
           w_cvdRobust = override (w_cvdRobust baseWeights) (o_cvdRobust ov),
           w_semanticSeparation = override (w_semanticSeparation baseWeights) (o_semanticSeparation ov),
           w_gamutPenalty = override (w_gamutPenalty baseWeights) (o_gamutPenalty ov),
           w_stateContrast = override (w_stateContrast baseWeights) (o_stateContrast ov)\<rparr>)"

definition lch :: "number \<Rightarrow> number \<Rightarrow> number \<Rightarrow> oklch" where
  "lch L C H = \<lparr>lch_L = clamp L 0 1, lch_C = Math_max 0 C, lch_H = mod360 H\<rparr>"

datatype mode = Light | Dark

definition pickTextOn :: "string \<Rightarrow> error + string" where
  "pickTextOn fillHex =
     bindE (hexToRgb fillHex) (\<lambda>c.
       let lum = relativeLuminance c
       in Inr (if 0.5 < lum then ''#000000'' else ''#FFFFFF''))"

record fill_states =
  fs_hover :: string
  fs_pressed :: string
  fs_disabled :: string

definition deriveFillStates :: "string \<Rightarrow> mode \<Rightarrow> error + fill_states" where
  "deriveFillStates baseHex mode =
     bindE (hexToOklch baseHex) (\<lambda>base.
       let dir = (if mode = Light then - 1 else 1);
           hoverL = clamp (lch_L base + dir * 0.04) 0 1;
           pressedL = clamp (lch_L base + dir * 0.08) 0 1;
           disabledL = clamp (if mode = Light then 0.85 else 0.25) 0 1;
           disabledC = Math_min (lch_C base) 0.02
       in Inr \<lparr>fs_hover = hex (oklchToHex (lch hoverL (lch_C base) (lch_H base))),
               fs_pressed = hex (oklchToHex (lch pressedL (lch_C base) (lch_H base))),
               fs_disabled = hex (oklchToHex (lch disabledL disabledC (lch_H base)))\<rparr>)"

definition deriveSubtleBg :: "string \<Rightarrow> string \<Rightarrow> mode \<Rightarrow> error + string" where
  "deriveSubtleBg baseHex bgHex mode =
     bindE (hexToOklch baseHex) (\<lambda>base.
     bindE (hexToOklch bgHex) (\<lambda>bg.
       let targetL = clamp (if mode = Light then Math_max (lch_L bg - 0.05) 0.88
                            else Math_min (lch_L bg + 0.1) 0.22) 0 1;
           C = Math_min 0.05 (Math_max 0.02 (lch_C base * 0.35))
       in Inr (hex (oklchToHex (lch targetL C (lch_H base))))))"

definition deriveBorderFrom :: "string \<Rightarrow> mode \<Rightarrow> number \<Rightarrow> number \<Rightarrow> error + string" where
  "deriveBorderFrom bgOrSurfaceHex mode deltaL hue =
     bindE (hexToOklch bgOrSurfaceHex) (\<lambda>ref.
       let L = clamp (lch_L ref + (if mode = Light then - deltaL else deltaL)) 0 1;
           C = Math_min 0.02 (Math_max 0.004 (lch_C ref))
       in Inr (hex (oklchToHex (lch L C hue))))"

definition deriveFocusRing :: "string \<Rightarrow> mode \<Rightarrow> number \<Rightarrow> number \<Rightarrow> error + string" where
  "deriveFocusRing fromHex mode cBoost targetL =
     bindE (hexToOklch fromHex) (\<lambda>src.
       let C = clamp (lch_C src + cBoost) 0.08 0.26;
           L = clamp targetL 0.25 0.85
       in Inr (hex (oklchToHex (lch L C (lch_H src)))))"

definition normalizeHex :: "string \<Rightarrow> string" where
  "normalizeHex h0 =
     (let h = toUpperCase (trim h0)
      in if \<not> startsWithHash h then toUpperCase (''#'' @ h) else h)"

section \<open>Token builder\<close>

text \<open>The parameter vector. \<open>focusFrom\<close> is \<open>"primary"\<close>, \<open>"accent"\<close> or, when \<open>pick\<close>
  read outside its array, \<open>undefined\<close> (\<open>None\<close>).\<close>

record params =
  seedHue :: number
  neutralHue :: number
  neutralC :: number
  bgL :: number
  surfaceDeltaL :: number
  surface2DeltaL :: number
  textPrimaryL :: number
  textSecondaryL :: number
  textTertiaryL :: number
  secondaryHue :: number
  secondaryC :: number
  secondaryL :: number
  accentHue :: number
  accentC :: number
  accentL :: number
  successHue :: number
  warningHue :: number
  dangerHue :: number
  infoHue :: number
  semanticC :: number
  successL :: number
  warningL :: number
  dangerL :: number
  infoL :: number
  borderDeltaL :: number
  dividerDeltaL :: number
  focusFrom :: "string option"
  focusCBoost :: number
  focusL :: number

record button =
  btn_bg :: string
  btn_text :: string
  btn_hoverBg :: string
  btn_pressedBg :: string
  btn_disabledBg :: string
  btn_disabledText :: string

record semantic_states =
  sem_base :: string
  sem_onBaseText :: string
  sem_subtleBg :: string
  sem_subtleText :: string
  sem_border :: string
  sem_hover :: string
  sem_pressed :: string

record semantic =
  success :: semantic_states
  warning :: semantic_states
  danger :: semantic_states
  info :: semantic_states

record tokens =
  tk_mode :: mode
  background :: string
  surface :: string
  surface2 :: string
  textPrimary :: string
  textSecondary :: string
  textTertiary :: string
  primary :: string
  primaryText :: string
  secondary :: string
  secondaryText :: string
  accent :: string
  accentText :: string
  border :: string
  divider :: string
  focusRing :: string
  buttonPrimary :: button
  buttonSecondary :: button
  semantic :: semantic

record linfo =
  L_background :: number
  L_surface :: number
  L_surface2 :: number
  L_textPrimary :: number
  L_textSecondary :: number
  L_textTertiary :: number
  L_primary :: number
  L_secondary :: number
  L_accent :: number

record built =
  b_tokens :: tokens
  gamutCount :: nat
  Linfo :: linfo

definition buildSemanticStates :: "string \<Rightarrow> string \<Rightarrow> mode \<Rightarrow> error + semantic_states" where
  "buildSemanticStates baseHex bgHex mode =
     (let base = normalizeHex baseHex
      in bindE (pickTextOn base) (\<lambda>onBaseText.
         bindE (deriveSubtleBg base bgHex mode) (\<lambda>subtleBg.
         let subtleText = normalizeHex base
         in bindE (hexToOklch base) (\<lambda>baseLch.
            bindE (deriveBorderFrom subtleBg mode 0.04 (lch_H baseLch)) (\<lambda>border'.
            bindE (deriveFillStates base mode) (\<lambda>states.
              Inr \<lparr>sem_base = base,
                   sem_onBaseText = onBaseText,
                   sem_subtleBg = subtleBg,
                   sem_subtleText = subtleText,
                   sem_border = border',
                   sem_hover = fs_hover states,
                   sem_pressed = fs_pressed states\<rparr>))))))"

definition buildTokens :: "params \<Rightarrow> mode \<Rightarrow> string \<Rightarrow> error + built" where
  "buildTokens p mode primaryHexFixed =
     (let bg = oklchToHex (lch (bgL p) (neutralC p) (neutralHue p));
          surface' = oklchToHex
            (lch (clamp (bgL p + (if mode = Light then - surfaceDeltaL p else surfaceDeltaL p)) 0 1)
                 (neutralC p * 1.05) (neutralHue p));
          surface2' = oklchToHex
            (lch (clamp (bgL p + (if mode = Light then - surface2DeltaL p else surface2DeltaL p)) 0 1)
                 (neutralC p * 1.1) (neutralHue p));
          textPrimary' = oklchToHex (lch (textPrimaryL p) (neutralC p * 0.12) (neutralHue p));
          textSecondary' = oklchToHex (lch (textSecondaryL p) (neutralC p * 0.14) (neutralHue p));
          textTertiary' = oklchToHex (lch (textTertiaryL p) (neutralC p * 0.16) (neutralHue p));
          secondary' = oklchToHex (lch (secondaryL p) (secondaryC p) (secondaryHue p));
          accent' = oklchToHex (lch (accentL p) (accentC p) (accentHue p));
          primaryHex = normalizeHex primaryHexFixed
      in bindE (hexToOklch primaryHex) (\<lambda>primaryLch.
         bindE (deriveBorderFrom (hex surface') mode (borderDeltaL p) (neutralHue p)) (\<lambda>border'.
         bindE (deriveBorderFrom (hex surface2') mode (dividerDeltaL p) (neutralHue p)) (\<lambda>divider'.
         let focusSourceHex = (if focusFrom p = Some ''primary'' then primaryHex else hex accent')
         in bindE (deriveFocusRing focusSourceHex mode (focusCBoost p) (focusL p)) (\<lambda>focusRing'.
            bindE (pickTextOn primaryHex) (\<lambda>primaryText'.
            bindE (deriveFillStates primaryHex mode) (\<lambda>primaryStates.
            let primaryDisabledText = (if mode = Light then ''#9AA0A6'' else ''#6B7280'')
            in bindE (pickTextOn (hex secondary')) (\<lambda>secondaryTextOn.
               bindE (deriveFillStates (hex secondary') mode) (\<lambda>secondaryStates.
               let secondaryDisabledText = primaryDisabledText;
                   buttonPrimary' =
                     \<lparr>btn_bg = primaryHex,
                      btn_text = primaryText',
                      btn_hoverBg = fs_hover primaryStates,
                      btn_pressedBg = fs_pressed primaryStates,
                      btn_disabledBg = fs_disabled primaryStates,
                      btn_disabledText = secondaryDisabledText\<rparr>;
                   buttonSecondary' =
                     \<lparr>btn_bg = hex secondary',
                      btn_text = secondaryTextOn,
                      btn_hoverBg = fs_hover secondaryStates,
                      btn_pressedBg = fs_pressed secondaryStates,
                      btn_disabledBg = fs_disabled secondaryStates,
                      btn_disabledText = secondaryDisabledText\<rparr>;
                   successBase = oklchToHex (lch (successL p) (semanticC p) (successHue p));
                   warningBase = oklchToHex (lch (warningL p) (semanticC p) (warningHue p));
                   dangerBase = oklchToHex (lch (dangerL p) (semanticC p) (dangerHue p));
                   infoBase = oklchToHex (lch (infoL p) (semanticC p) (infoHue p));
                   semList = [bg, surface', surface2', textPrimary', textSecondary', textTertiary',
                              secondary', accent', successBase, warningBase, dangerBase, infoBase];
                   gamutCount' = length (filter (\<lambda>e. \<not> inGamut e) semList)
               in bindE (buildSemanticStates (hex successBase) (hex bg) mode) (\<lambda>semSuccess.
                  bindE (buildSemanticStates (hex warningBase) (hex bg) mode) (\<lambda>semWarning.
                  bindE (buildSemanticStates (hex dangerBase) (hex bg) mode) (\<lambda>semDanger.
                  bindE (buildSemanticStates (hex infoBase) (hex bg) mode) (\<lambda>semInfo.
                  let sem = \<lparr>success = semSuccess, warning = semWarning,
                             danger = semDanger, info = semInfo\<rparr>;
                      secondaryText' = secondaryTextOn
                  in bindE (pickTextOn (hex accent')) (\<lambda>accentText'.
                     Inr \<lparr>b_tokens =
                            \<lparr>tk_mode = mode,
                             background = hex bg,
                             surface = hex surface',
                             surface2 = hex surface2',
                             textPrimary = hex textPrimary',
                             textSecondary = hex textSecondary',
                             textTertiary = hex textTertiary',
                             primary = primaryHex,
                             primaryText = primaryText',
                             secondary = hex secondary',
                             secondaryText = secondaryText',
                             accent = hex accent',
                             accentText = accentText',
                             border = border',
                             divider = divider',
                             focusRing = focusRing',
                             buttonPrimary = buttonPrimary',
                             buttonSecondary = buttonSecondary',
                             semantic = sem\<rparr>,
                          gamutCount = gamutCount',
                          Linfo =
                            \<lparr>L_background = bgL p,
                             L_surface = clamp (bgL p + (if mode = Light then - surfaceDeltaL p
                                                          else surfaceDeltaL p)) 0 1,
                             L_surface2 = clamp (bgL p + (if mode = Light then - surface2DeltaL p
                                                           else surface2DeltaL p)) 0 1,
                             L_textPrimary = textPrimaryL p,
                             L_textSecondary = textSecondaryL p,
                             L_textTertiary = textTertiaryL p,
                             L_primary = lch_L primaryLch,
                             L_secondary = secondaryL p,
                             L_accent = accentL p\<rparr>\<rparr>))))))))))))))"

section \<open>Scoring\<close>

record check =
  chk_pair :: string
  chk_ratio :: number
  chk_pass :: bool
  chk_mode :: string

record contrast_report =
  cr_target :: string
  cr_normalTextMin :: number
  cr_largeTextMin :: number
  cr_checks :: "check list"
  cr_passAll :: bool
  cr_worstRatio :: number

record states_report =
  sr_checks :: "check list"
  sr_passAll :: bool
  sr_worstRatio :: number

text \<open>The closure \<open>add\<close> of both contrast scorers.\<close>

definition addCheck :: "string \<Rightarrow> string \<times> string \<times> string \<times> number \<Rightarrow> error + check" where
  "addCheck cvdMode a =
     (case a of (pair, fg, bg, minRatio) \<Rightarrow>
        bindE (applyCvd fg cvdMode) (\<lambda>fg'.
        bindE (applyCvd bg cvdMode) (\<lambda>bg'.
        bindE (contrastRatio fg' bg') (\<lambda>ratio.
          Inr \<lparr>chk_pair = pair, chk_ratio = ratio, chk_pass = (minRatio \<le> ratio),
               chk_mode = cvdMode\<rparr>))))"

definition scoreContrastBase :: "tokens \<Rightarrow> string \<Rightarrow> string \<Rightarrow> error + contrast_report" where
  "scoreContrastBase t target cvdMode =
     (let normal = tc_normal (targetContrast target);
          large = tc_large (targetContrast target)
      in bindE (mapE (addCheck cvdMode)
           [(''textPrimary/background (normal)'', textPrimary t, background t, normal),
            (''textPrimary/surface (normal)'', textPrimary t, surface t, normal),
            (''textSecondary/background (normal)'', textSecondary t, background t, normal),
            (''textSecondary/surface (normal)'', textSecondary t, surface t, normal),
            (''textTertiary/surface (normal)'', textTertiary t, surface t, large),
            (''primaryText/primary (normal)'', primaryText t, primary t, normal),
            (''secondaryText/secondary (normal)'', secondaryText t, secondary t, normal),
            (''accentText/accent (normal)'', accentText t, accent t, normal),
            (''textPrimary/background (large)'', textPrimary t, background t, large)])
         (\<lambda>checks.
           Inr \<lparr>cr_target = target, cr_normalTextMin = normal, cr_largeTextMin = large,
                cr_checks = checks,
                cr_passAll = list_all chk_pass checks,
                cr_worstRatio = Math_min_list (map chk_ratio checks)\<rparr>))"

definition scoreContrastStates :: "tokens \<Rightarrow> string \<Rightarrow> string \<Rightarrow> error + states_report" where
  "scoreContrastStates t target cvdMode =
     (let normal = tc_normal (targetContrast target)
      in bindE (mapE (addCheck cvdMode)
           [(''btnPrimary/text:hoverBg'', btn_text (buttonPrimary t), btn_hoverBg (buttonPrimary t), normal),
            (''btnPrimary/text:pressedBg'', btn_text (buttonPrimary t), btn_pressedBg (buttonPrimary t), normal),
            (''btnSecondary/text:hoverBg'', btn_text (buttonSecondary t), btn_hoverBg (buttonSecondary t), normal),
            (''btnSecondary/text:pressedBg'', btn_text (buttonSecondary t), btn_pressedBg (buttonSecondary t), normal),
            (''semantic.success/subtleText:subtleBg'', sem_subtleText (success (semantic t)),
               sem_subtleBg (success (semantic t)), normal),
            (''semantic.warning/subtleText:subtleBg'', sem_subtleText (warning (semantic t)),
               sem_subtleBg (warning (semantic t)), normal),
            (''semantic.danger/subtleText:subtleBg'', sem_subtleText (danger (semantic t)),
               sem_subtleBg (danger (semantic t)), normal),
            (''semantic.info/subtleText:subtleBg'', sem_subtleText (info (semantic t)),
               sem_subtleBg (info (semantic t)), normal)])
         (\<lambda>checks.
           Inr \<lparr>sr_checks = checks,
                sr_passAll = list_all chk_pass checks,
                sr_worstRatio = Math_min_list (map chk_ratio checks)\<rparr>))"

text \<open>The notes of the tone report are Korean sentences in the source, one per rule;
  here each is named after its rule.\<close>

datatype tone_note =
    LightBackground | LightSurface | LightSurface2
  | LightTextPrimary | LightTextSecondary | LightTextTertiary
  | DarkBackground | DarkSurface | DarkSurface2
  | DarkTextPrimary | DarkTextSecondary | DarkTextTertiary

record tone_report =
  tone_mode :: mode
  tone_L :: linfo
  tone_ok :: bool
  tone_notes :: "tone_note list"

definition note_if :: "bool \<Rightarrow> tone_note \<Rightarrow> tone_note list" where
  "note_if c n = (if c then [n] else [])"

definition scoreToneSystem :: "mode \<Rightarrow> linfo \<Rightarrow> tone_report" where
  "scoreToneSystem mode Li =
     (let bg = L_background Li; sf = L_surface Li; sf2 = L_surface2 Li;
          tp = L_textPrimary Li; ts = L_textSecondary Li; tt = L_textTertiary Li;
          notes =
            (if mode = Light then
               note_if (bg < 0.85) LightBackground
               @ note_if (\<not> (sf < bg \<and> 0.03 \<le> bg - sf \<and> bg - sf \<le> 0.14)) LightSurface
               @ note_if (\<not> (sf2 \<le> sf \<and> 0.01 \<le> sf - sf2 \<and> sf - sf2 \<le> 0.08)) LightSurface2
               @ note_if (0.26 < tp) LightTextPrimary
               @ note_if (\<not> (tp < ts \<and> ts \<le> 0.45)) LightTextSecondary
               @ note_if (\<not> (ts \<le> tt \<and> tt \<le> 0.6)) LightTextTertiary
             else
               note_if (0.18 < bg) DarkBackground
               @ note_if (\<not> (bg < sf \<and> 0.03 \<le> sf - bg \<and> sf - bg \<le> 0.14)) DarkSurface
               @ note_if (\<not> (sf \<le> sf2 \<and> 0.01 \<le> sf2 - sf \<and> sf2 - sf \<le> 0.08)) DarkSurface2
               @ note_if (tp < 0.78) DarkTextPrimary
               @ note_if (\<not> (ts < tp \<and> 0.6 \<le> ts)) DarkTextSecondary
               @ note_if (\<not> (tt \<le> ts \<and> 0.45 \<le> tt)) DarkTextTertiary)
      in \<lparr>tone_mode = mode, tone_L = Li, tone_ok = (notes = []), tone_notes = notes\<rparr>)"

record emphasis_report =
  em_dL :: number
  em_dC :: number
  em_dH :: number
  em_score :: number
  em_ok :: bool

definition scoreEmphasis :: "tokens \<Rightarrow> error + emphasis_report" where
  "scoreEmphasis t =
     bindE (hexToOklch (primary t)) (\<lambda>p.
     bindE (hexToOklch (surface t)) (\<lambda>s.
       let dL = \<bar>lch_L p - lch_L s\<bar>;
           dC = \<bar>lch_C p - lch_C s\<bar>;
           dH = hueDistance (lch_H p) (lch_H s);
           score = clamp ((dL / 0.2) * 0.35 + (dC / 0.14) * 0.55 + (dH / 90) * 0.1) 0 1
       in Inr \<lparr>em_dL = dL, em_dC = dC, em_dH = dH, em_score = score,
               em_ok = (0.1 \<le> dL \<or> 0.1 \<le> dC)\<rparr>))"

datatype relation = Mono | Analogous | Complementary | Split | Triadic | Other

text \<open>\<open>seedHue == null\<close> holds for \<open>undefined\<close>, which is \<open>None\<close> here.\<close>

definition classifyHarmony :: "number option \<Rightarrow> number \<Rightarrow> number \<Rightarrow> relation" where
  "classifyHarmony seedHue' primaryHue accentHue' =
     (if seedHue' = None then
        (let d = hueDistance primaryHue accentHue'
         in if d < 15 then Mono
            else if d < 45 then Analogous
            else if \<bar>d - 180\<bar> < 15 then Complementary
            else if \<bar>d - 150\<bar> < 20 \<or> \<bar>d - 210\<bar> < 20 then Split
            else if \<bar>d - 120\<bar> < 15 then Triadic
            else Other)
      else
        (let d3 = hueDistance primaryHue accentHue'
         in if d3 < 15 then Mono
            else if d3 < 45 then Analogous
            else if \<bar>d3 - 180\<bar> < 20 then Complementary
            else if \<bar>d3 - 150\<bar> < 25 \<or> \<bar>d3 - 210\<bar> < 25 then Split
            else if \<bar>d3 - 120\<bar> < 20 then Triadic
            else Other))"

fun scoreMap :: "relation \<Rightarrow> number" where
  "scoreMap Mono = 0.9"
| "scoreMap Analogous = 1.0"
| "scoreMap Complementary = 0.9"
| "scoreMap Split = 0.95"
| "scoreMap Triadic = 0.85"
| "scoreMap Other = 0.75"

record harmony_report =
  h_seedHue :: "number option"
  h_primaryHue :: number
  h_accentHue :: number
  h_relation :: relation
  h_score :: number

definition scoreHarmony :: "number option \<Rightarrow> tokens \<Rightarrow> error + harmony_report" where
  "scoreHarmony seedHue' t =
     bindE (hexToOklch (primary t)) (\<lambda>p.
     bindE (hexToOklch (accent t)) (\<lambda>a.
       let rel = classifyHarmony seedHue' (lch_H p) (lch_H a)
       in Inr \<lparr>h_seedHue = seedHue', h_primaryHue = lch_H p, h_accentHue = lch_H a,
               h_relation = rel, h_score = scoreMap rel\<rparr>))"

record pair_dist =
  pd_pair :: string
  pd_dE :: number
  pd_mode :: string

record semantic_report =
  ss_pairs :: "pair_dist list"
  ss_minDE :: number
  ss_ok :: bool

text \<open>The pairs \<open>(i, j)\<close> with \<open>i < j\<close>, in the order of the two nested loops.\<close>

fun rolePairs :: "'a list \<Rightarrow> ('a \<times> 'a) list" where
  "rolePairs [] = []"
| "rolePairs (x # xs) = map (Pair x) xs @ rolePairs xs"

definition scoreSemanticSeparation :: "tokens \<Rightarrow> string \<Rightarrow> error + semantic_report" where
  "scoreSemanticSeparation t cvdMode =
     (let roles = [(''success'', sem_base (success (semantic t))),
                   (''warning'', sem_base (warning (semantic t))),
                   (''danger'', sem_base (danger (semantic t))),
                   (''info'', sem_base (info (semantic t)))]
      in bindE (mapE (\<lambda>((n1, h1), (n2, h2)).
                  bindE (applyCvd h1 cvdMode) (\<lambda>c1.
                  bindE (applyCvd h2 cvdMode) (\<lambda>c2.
                  bindE (deltaEoklab c1 c2) (\<lambda>dE.
                    Inr \<lparr>pd_pair = n1 @ ''-'' @ n2, pd_dE = dE, pd_mode = cvdMode\<rparr>))))
                (rolePairs roles))
         (\<lambda>pairs.
           let minDE = Math_min_list (map pd_dE pairs)
           in Inr \<lparr>ss_pairs = pairs, ss_minDE = minDE, ss_ok = (0.06 \<le> minDE)\<rparr>))"

record primary_dist =
  prd_mode :: string
  prd_dE :: number

record semantic_dist =
  sd_mode :: string
  sd_minPair :: string
  sd_minDE :: number

record cvd_report =
  cvd_modes :: "string list"
  primaryDist :: "primary_dist list"
  semanticDist :: "semantic_dist list"

record penalties =
  outOfGamutCount :: nat
  penalty :: number

record report =
  rep_mode :: mode
  total :: number
  contrast :: contrast_report
  tone :: tone_report
  emphasis :: emphasis_report
  harmony :: harmony_report
  cvd :: cvd_report
  rep_semantic :: semantic_report
  states :: states_report
  rep_penalties :: penalties

text \<open>The loop that finds the closest semantic pair starts from \<open>minDE = Infinity\<close> and
  \<open>minPair = ""\<close> and replaces both whenever \<open>p.dE < minDE\<close>. The accumulator keeps
  \<open>None\<close> for \<open>Infinity\<close>: every number is below it, \<open>NaN\<close> is not.\<close>

fun minPairLoop :: "string \<times> number option \<Rightarrow> pair_dist list \<Rightarrow> string \<times> number option" where
  "minPairLoop acc [] = acc"
| "minPairLoop (minPair, minDE) (p # ps) =
     minPairLoop
       (if (case minDE of None \<Rightarrow> isNum (pd_dE p) | Some m \<Rightarrow> pd_dE p < m)
        then (pd_pair p, Some (pd_dE p)) else (minPair, minDE)) ps"

definition semanticDistOf :: "tokens \<Rightarrow> string \<Rightarrow> error + semantic_dist" where
  "semanticDistOf t m =
     bindE (scoreSemanticSeparation t m) (\<lambda>sem.
       case minPairLoop ([], None) (ss_pairs sem) of
         (minPair, None) \<Rightarrow> Inl OutsideModel
       | (minPair, Some minDE) \<Rightarrow> Inr \<lparr>sd_mode = m, sd_minPair = minPair, sd_minDE = minDE\<rparr>)"

definition primaryDistOf :: "tokens \<Rightarrow> string \<Rightarrow> error + primary_dist" where
  "primaryDistOf t m =
     bindE (applyCvd (primary t) m) (\<lambda>p.
     bindE (applyCvd (surface t) m) (\<lambda>s.
     bindE (deltaEoklab p s) (\<lambda>dE. Inr \<lparr>prd_mode = m, prd_dE = dE\<rparr>)))"

text \<open>With an empty list of CVD modes the source takes \<open>Math.min()\<close>, which is
  \<open>Infinity\<close>.\<close>

definition aggregateScore ::
  "tokens \<Rightarrow> mode \<Rightarrow> string \<Rightarrow> weights \<Rightarrow> nat \<Rightarrow> linfo \<Rightarrow> string list \<Rightarrow> number option
   \<Rightarrow> error + report" where
  "aggregateScore t mode target w gamutCount' Li cvdModes seedHue' =
     (if cvdModes = [] then Inl OutsideModel
      else
        bindE (mapE (scoreContrastBase t target) cvdModes) (\<lambda>contrastReports.
        let worstContrast = Math_min_list (map cr_worstRatio contrastReports);
            passAllAllModes = list_all cr_passAll contrastReports
        in bindE (mapE (scoreContrastStates t target) cvdModes) (\<lambda>stateReports.
        let worstState = Math_min_list (map sr_worstRatio stateReports);
            passAllStates = list_all sr_passAll stateReports;
            tone' = scoreToneSystem mode Li
        in bindE (scoreEmphasis t) (\<lambda>emphasis'.
           bindE (scoreHarmony seedHue' t) (\<lambda>harmony'.
           bindE (mapE (primaryDistOf t) cvdModes) (\<lambda>primaryDist'.
           bindE (mapE (semanticDistOf t) cvdModes) (\<lambda>semanticDist'.
           bindE (scoreSemanticSeparation t ''none'') (\<lambda>semanticNone.
           let normal = tc_normal (targetContrast target);
               contrastScore = clamp ((worstContrast - normal) / (normal * 0.6)) 0 1;
               stateContrastScore = clamp ((worstState - normal) / (normal * 0.6)) 0 1;
               toneScore = (if tone_ok tone' then 1.0 else 0.65);
               emphasisScore = em_score emphasis';
               harmonyScore = clamp (h_score harmony') 0 1;
               primaryDEmin = Math_min_list (map prd_dE primaryDist');
               semDEmin = Math_min_list (map sd_minDE semanticDist');
               cvdPrimaryScore = clamp ((primaryDEmin - 0.05) / 0.1) 0 1;
               cvdSemanticScore = clamp ((semDEmin - 0.05) / 0.1) 0 1;
               cvdScore = 0.55 * cvdPrimaryScore + 0.45 * cvdSemanticScore;
               semanticScore = (if ss_ok semanticNone
                                then clamp ((ss_minDE semanticNone - 0.06) / 0.08) 0 1 else 0);
               outOfGamutCount' = gamutCount';
               penaltyGamut = (if 0 < outOfGamutCount'
                               then clamp (Num (real outOfGamutCount') / 8) 0 1 else 0);
               hardContrastPenalty = (if passAllAllModes then 0 else 0.85);
               hardStatePenalty = (if passAllStates then 0 else 0.65);
               total' =
                 w_contrast w * contrastScore +
                 w_stateContrast w * stateContrastScore +
                 w_toneSystem w * toneScore +
                 w_emphasis w * emphasisScore +
                 w_harmony w * harmonyScore +
                 w_cvdRobust w * cvdScore +
                 w_semanticSeparation w * semanticScore -
                 w_gamutPenalty w * penaltyGamut -
                 4.0 * hardContrastPenalty -
                 2.8 * hardStatePenalty;
               mergedContrast =
                 \<lparr>cr_target = target,
                  cr_normalTextMin = tc_normal (targetContrast target),
                  cr_largeTextMin = tc_large (targetContrast target),
                  cr_checks = concat (map cr_checks contrastReports),
                  cr_passAll = passAllAllModes,
                  cr_worstRatio = worstContrast\<rparr>;
               mergedStates =
                 \<lparr>sr_checks = concat (map sr_checks stateReports),
                  sr_passAll = passAllStates,
                  sr_worstRatio = worstState\<rparr>
           in Inr \<lparr>rep_mode = mode,
                   total = total',
                   contrast = mergedContrast,
                   tone = tone',
                   emphasis = emphasis',
                   harmony = harmony',
                   cvd = \<lparr>cvd_modes = cvdModes, primaryDist = primaryDist',
                          semanticDist = semanticDist'\<rparr>,
                   rep_semantic = semanticNone,
                   states = mergedStates,
                   rep_penalties =
                     \<lparr>outOfGamutCount = outOfGamutCount',
                      penalty = w_gamutPenalty w * penaltyGamut + 4.0 * hardContrastPenalty
                                + 2.8 * hardStatePenalty\<rparr>\<rparr>))))))))"

section \<open>Parameter initialisation and mutation\<close>

text \<open>A string is truthy when it is present and not empty.\<close>

definition truthy :: "string option \<Rightarrow> bool" where
  "truthy s = (case s of None \<Rightarrow> False | Some x \<Rightarrow> x \<noteq> [])"

text \<open>\<open>x + undefined\<close> is \<open>NaN\<close>.\<close>

definition orNaN :: "number option \<Rightarrow> number" where
  "orNaN v = (case v of None \<Rightarrow> NaN | Some x \<Rightarrow> x)"

text \<open>\<open>isLight ? rng.float(a, b) : rng.float(c, d)\<close>: one draw on either side.\<close>

definition floatByMode :: "bool \<Rightarrow> real \<Rightarrow> real \<Rightarrow> real \<Rightarrow> real \<Rightarrow> RNG \<Rightarrow> real \<times> RNG" where
  "floatByMode c a b a' b' rng = (if c then RNG_float a b rng else RNG_float a' b' rng)"

text \<open>A semantic hue: \<open>semanticConventional ? mod360(base + rng.float(-d, d)) :
  rng.float(0, 360)\<close>.\<close>

definition semanticHue :: "bool \<Rightarrow> real \<Rightarrow> real \<Rightarrow> RNG \<Rightarrow> number \<times> RNG" where
  "semanticHue conventional base d rng =
     (if conventional
      then (let (u, rng') = RNG_float (- d) d rng in (mod360 (Num base + Num u), rng'))
      else (let (u, rng') = RNG_float 0 360 rng in (Num u, rng')))"

definition initParams :: "RNG \<Rightarrow> mode \<Rightarrow> string option \<Rightarrow> bool \<Rightarrow> bool \<Rightarrow> params \<times> RNG" where
  "initParams rng0 mode seedHex preferVibrant semanticConventional =
     (let (seedHue0, rng1) = RNG_float 0 360 rng0;
          seedHue' = (case seedHex of
                        None \<Rightarrow> Num seedHue0
                      | Some h \<Rightarrow>
                          if h = [] then Num seedHue0
                          else (case hexToOklch h of
                                  Inr c \<Rightarrow> lch_H c
                                | Inl _ \<Rightarrow> Num seedHue0));
          isLight = (mode = Light);
          (neutralHue', rng2) =
            (if truthy seedHex
             then (let (u, r) = RNG_float (- 10) 10 rng1 in (mod360 (seedHue' + Num u), r))
             else (let (u, r) = RNG_float 0 360 rng1 in (Num u, r)));
          (neutralC', rng3) = RNG_float 0.004 0.028 rng2;
          (bgL', rng4) = floatByMode isLight 0.88 0.98 0.06 0.16 rng3;
          (surfaceDeltaL', rng5) = RNG_float 0.04 0.11 rng4;
          (u6, rng6) = RNG_float 0.01 0.06 rng5;
          surface2DeltaL' = clamp (Num surfaceDeltaL' + Num u6) 0.05 0.18;
          (textPrimaryL', rng7) = floatByMode isLight 0.1 0.23 0.82 0.95 rng6;
          (textSecondaryL', rng8) = floatByMode isLight 0.22 0.4 0.6 0.8 rng7;
          (textTertiaryL', rng9) = floatByMode isLight 0.36 0.58 0.48 0.68 rng8;
          (u10, rng10) = RNG_float (- 25) 25 rng9;
          secondaryHue' = mod360 (seedHue' + Num u10);
          (secondaryC', rng11) = floatByMode preferVibrant 0.05 0.11 0.04 0.09 rng10;
          (secondaryL', rng12) = floatByMode isLight 0.7 0.88 0.18 0.34 rng11;
          (accentStrategy, rng13) = RNG_int 0 3 rng12;
          (accentHue', rng14) =
            (if accentStrategy = 0
               then (let (u, r) = RNG_float (- 12) 12 rng13 in (mod360 (seedHue' + Num u), r))
             else if accentStrategy = 1
               then (let (u, r) = RNG_float 20 45 rng13 in (mod360 (seedHue' + Num u), r))
             else if accentStrategy = 2
               then (let (u, r) = RNG_float (- 12) 12 rng13 in (mod360 (seedHue' + 180 + Num u), r))
             else if accentStrategy = 3
               then (let (v, r) = RNG_pick [150, 210] rng13;
                         (u, r') = RNG_float (- 12) 12 r
                     in (mod360 (seedHue' + orNaN v + Num u), r'))
             else (seedHue', rng13));
          (accentC', rng15) = floatByMode preferVibrant 0.1 0.2 0.08 0.16 rng14;
          (accentL', rng16) = floatByMode isLight 0.45 0.66 0.45 0.72 rng15;
          (successHue', rng17) = semanticHue semanticConventional 145 10 rng16;
          (warningHue', rng18) = semanticHue semanticConventional 85 12 rng17;
          (dangerHue', rng19) = semanticHue semanticConventional 25 12 rng18;
          (infoHue', rng20) = semanticHue semanticConventional 245 12 rng19;
          (semanticC', rng21) = floatByMode preferVibrant 0.12 0.2 0.1 0.18 rng20;
          (successL', rng22) = floatByMode isLight 0.45 0.62 0.45 0.62 rng21;
          (warningL', rng23) = floatByMode isLight 0.55 0.72 0.55 0.74 rng22;
          (dangerL', rng24) = floatByMode isLight 0.45 0.62 0.45 0.62 rng23;
          (infoL', rng25) = floatByMode isLight 0.45 0.62 0.45 0.62 rng24;
          (borderDeltaL', rng26) = RNG_float 0.02 0.06 rng25;
          (dividerDeltaL', rng27) = RNG_float 0.03 0.08 rng26;
          (focusFrom', rng28) = RNG_pick [''primary'', ''accent''] rng27;
          (focusCBoost', rng29) = floatByMode preferVibrant 0.05 0.1 0.04 0.08 rng28;
          (focusL', rng30) = floatByMode isLight 0.45 0.65 0.55 0.75 rng29
      in (\<lparr>seedHue = seedHue',
           neutralHue = neutralHue',
           neutralC = Num neutralC',
           bgL = Num bgL',
           surfaceDeltaL = Num surfaceDeltaL',
           surface2DeltaL = surface2DeltaL',
           textPrimaryL = Num textPrimaryL',
           textSecondaryL = Num textSecondaryL',
           textTertiaryL = Num textTertiaryL',
           secondaryHue = secondaryHue',
           secondaryC = Num secondaryC',
           secondaryL = Num secondaryL',
           accentHue = accentHue',
           accentC = Num accentC',
           accentL = Num accentL',
           successHue = successHue',
           warningHue = warningHue',
           dangerHue = dangerHue',
           infoHue = infoHue',
           semanticC = Num semanticC',
           successL = Num successL',
           warningL = Num warningL',
           dangerL = Num dangerL',
           infoL = Num infoL',
           borderDeltaL = Num borderDeltaL',
           dividerDeltaL = Num dividerDeltaL',
           focusFrom = focusFrom',
           focusCBoost = Num focusCBoost',
           focusL = Num focusL'\<rparr>, rng30))"

text \<open>\<open>jitter(x, amt) = x + rng.float(-amt, amt)\<close>.\<close>

definition jitter :: "number \<Rightarrow> real \<Rightarrow> RNG \<Rightarrow> number \<times> RNG" where
  "jitter x amt rng = (let (u, rng') = RNG_float (- amt) amt rng in (x + Num u, rng'))"

definition mutateParams :: "RNG \<Rightarrow> params \<Rightarrow> params \<times> RNG" where
  "mutateParams rng0 p =
     (let (pick, rng) = RNG_int 0 9 rng0
      in if pick = 0 then
           (let (x1, r1) = jitter (bgL p) 0.03 rng;
                (x2, r2) = jitter (surfaceDeltaL p) 0.02 r1;
                (x3, r3) = jitter (surface2DeltaL p) 0.03 r2
            in (p\<lparr>bgL := clamp x1 0 1,
                  surfaceDeltaL := clamp x2 0.02 0.16,
                  surface2DeltaL := clamp x3 0.03 0.2\<rparr>, r3))
         else if pick = 1 then
           (let (x1, r1) = jitter (textPrimaryL p) 0.04 rng;
                (x2, r2) = jitter (textSecondaryL p) 0.05 r1;
                (x3, r3) = jitter (textTertiaryL p) 0.06 r2
            in (p\<lparr>textPrimaryL := clamp x1 0 1,
                  textSecondaryL := clamp x2 0 1,
                  textTertiaryL := clamp x3 0 1\<rparr>, r3))
         else if pick = 2 then
           (let (x1, r1) = jitter (secondaryHue p) 25 rng;
                (x2, r2) = jitter (secondaryC p) 0.03 r1;
                (x3, r3) = jitter (secondaryL p) 0.06 r2
            in (p\<lparr>secondaryHue := mod360 x1,
                  secondaryC := clamp x2 0.01 0.16,
                  secondaryL := clamp x3 0.12 0.92\<rparr>, r3))
         else if pick = 3 then
           (let (x1, r1) = jitter (accentHue p) 30 rng;
                (x2, r2) = jitter (accentC p) 0.04 r1;
                (x3, r3) = jitter (accentL p) 0.07 r2
            in (p\<lparr>accentHue := mod360 x1,
                  accentC := clamp x2 0.02 0.24,
                  accentL := clamp x3 0.16 0.92\<rparr>, r3))
         else if pick = 4 then
           (let (x1, r1) = jitter (neutralHue p) 15 rng;
                (x2, r2) = jitter (neutralC p) 0.01 r1
            in (p\<lparr>neutralHue := mod360 x1,
                  neutralC := clamp x2 0.002 0.06\<rparr>, r2))
         else if pick = 5 then
           (let (x1, r1) = jitter (semanticC p) 0.03 rng;
                (x2, r2) = jitter (successL p) 0.05 r1;
                (x3, r3) = jitter (warningL p) 0.05 r2;
                (x4, r4) = jitter (dangerL p) 0.05 r3;
                (x5, r5) = jitter (infoL p) 0.05 r4
            in (p\<lparr>semanticC := clamp x1 0.06 0.26,
                  successL := clamp x2 0.2 0.85,
                  warningL := clamp x3 0.2 0.9,
                  dangerL := clamp x4 0.2 0.85,
                  infoL := clamp x5 0.2 0.85\<rparr>, r5))
         else if pick = 6 then
           (let (x1, r1) = jitter (successHue p) 15 rng;
                (x2, r2) = jitter (warningHue p) 15 r1;
                (x3, r3) = jitter (dangerHue p) 15 r2;
                (x4, r4) = jitter (infoHue p) 15 r3
            in (p\<lparr>successHue := mod360 x1,
                  warningHue := mod360 x2,
                  dangerHue := mod360 x3,
                  infoHue := mod360 x4\<rparr>, r4))
         else if pick = 7 then
           (let (x1, r1) = jitter (borderDeltaL p) 0.02 rng;
                (x2, r2) = jitter (dividerDeltaL p) 0.02 r1
            in (p\<lparr>borderDeltaL := clamp x1 0.01 0.1,
                  dividerDeltaL := clamp x2 0.02 0.14\<rparr>, r2))
         else if pick = 8 then
           (let (v, r1) = RNG_pick [''primary'', ''accent''] rng;
                (x2, r2) = jitter (focusCBoost p) 0.03 r1;
                (x3, r3) = jitter (focusL p) 0.08 r2
            in (p\<lparr>focusFrom := v,
                  focusCBoost := clamp x2 0.02 0.16,
                  focusL := clamp x3 0.25 0.85\<rparr>, r3))
         else if pick = 9 then
           (let (x1, r1) = jitter (seedHue p) 15 rng
            in (p\<lparr>seedHue := mod360 x1\<rparr>, r1))
         else (p, rng))"

section \<open>Simulated annealing\<close>

definition accept :: "number \<Rightarrow> number \<Rightarrow> RNG \<Rightarrow> bool \<times> RNG" where
  "accept delta temperature rng =
     (if 0 \<le> delta then (True, rng)
      else (let prob = Math_exp (delta / Math_max 0.000000001 temperature);
                (u, rng') = RNG_next rng
            in (Num u < prob, rng')))"

text \<open>The options of the entry point; an absent option is \<open>None\<close>. \<open>iterations\<close> and
  \<open>randomSeed\<close> are integers.\<close>

record options =
  opt_primaryHex :: "string option"
  opt_primaryDarkHex :: "string option"
  opt_seedHex :: "string option"
  opt_contrastTarget :: "string option"
  opt_iterations :: "int option"
  opt_temperature :: "number option"
  opt_cooling :: "number option"
  opt_preferVibrant :: "bool option"
  opt_semanticConventional :: "bool option"
  opt_cvdModes :: "string list option"
  opt_weights :: "weight_overrides option"
  opt_randomSeed :: "int option"

text \<open>\<open>x ?? d\<close>.\<close>

definition orElse :: "'a option \<Rightarrow> 'a \<Rightarrow> 'a" where
  "orElse x d = (case x of None \<Rightarrow> d | Some v \<Rightarrow> v)"

definition cvdModesOf :: "options \<Rightarrow> string list" where
  "cvdModesOf opts =
     (case opt_cvdModes opts of
        None \<Rightarrow> [''none'', ''protan'', ''deutan'', ''tritan'']
      | Some ms \<Rightarrow> if 0 < length ms then ms else [''none'', ''protan'', ''deutan'', ''tritan''])"

text \<open>The variables of the loop of \<open>optimizeTheme\<close>.\<close>

record search =
  st_rng :: RNG
  curParams :: params
  st_built :: built
  curReport :: report
  curScore :: number
  bestParams :: params
  bestTokens :: tokens
  bestReport :: report
  bestScore :: number
  temperature :: number

text \<open>What the loop reads and never writes.\<close>

record setting =
  se_mode :: mode
  se_primaryHexFixed :: string
  se_contrastTarget :: string
  se_weights :: weights
  se_cvdModes :: "string list"
  se_seedHue :: "number option"
  se_cooling :: number

text \<open>The body of the loop at index \<open>i\<close>.\<close>

definition iteration :: "setting \<Rightarrow> nat \<Rightarrow> search \<Rightarrow> error + search" where
  "iteration se i st =
     (let (nextParams, rng1) = mutateParams (st_rng st) (curParams st)
      in bindE (buildTokens nextParams (se_mode se) (se_primaryHexFixed se)) (\<lambda>nextBuilt.
         bindE (aggregateScore (b_tokens nextBuilt) (se_mode se) (se_contrastTarget se)
                  (se_weights se) (gamutCount nextBuilt) (Linfo nextBuilt) (se_cvdModes se)
                  (se_seedHue se)) (\<lambda>nextReport.
         let nextScore = total nextReport;
             delta = nextScore - curScore st;
             (acc, rng2) = accept delta (temperature st) rng1;
             st1 = (if acc
                    then st\<lparr>st_rng := rng2, curParams := nextParams, st_built := nextBuilt,
                            curReport := nextReport, curScore := nextScore\<rparr>
                    else st\<lparr>st_rng := rng2\<rparr>);
             st2 = (if bestScore st1 < curScore st1
                    then st1\<lparr>bestScore := curScore st1, bestParams := curParams st1,
                             bestTokens := b_tokens (st_built st1), bestReport := curReport st1\<rparr>
                    else st1);
             st3 = st2\<lparr>temperature := temperature st2 * se_cooling se\<rparr>;
             st4 = (if (i + 1) mod 900 = 0
                    then st3\<lparr>temperature := Math_min 1.0 (temperature st3 * 1.18)\<rparr>
                    else st3)
         in Inr st4)))"

text \<open>\<open>for (let i = 0; i < iterations; i++)\<close>: \<open>iterate se n i st\<close> runs the \<open>n\<close> iterations
  with the indices \<open>i, i + 1, ..., i + n - 1\<close>.\<close>

fun iterate :: "setting \<Rightarrow> nat \<Rightarrow> nat \<Rightarrow> search \<Rightarrow> error + search" where
  "iterate se 0 i st = Inr st"
| "iterate se (Suc n) i st = bindE (iteration se i st) (iterate se n (Suc i))"

record outcome =
  out_tokens :: tokens
  out_score :: number
  out_report :: report

text \<open>The state the loop starts from.\<close>

definition initialSearch ::
  "setting \<Rightarrow> number \<Rightarrow> string option \<Rightarrow> bool \<Rightarrow> bool \<Rightarrow> RNG \<Rightarrow> error + search" where
  "initialSearch se temperature0 seedHex preferVibrant semanticConventional rng =
     (let (curParams0, rng1) = initParams rng (se_mode se) seedHex preferVibrant semanticConventional
      in bindE (buildTokens curParams0 (se_mode se) (se_primaryHexFixed se)) (\<lambda>built0.
         bindE (aggregateScore (b_tokens built0) (se_mode se) (se_contrastTarget se)
                  (se_weights se) (gamutCount built0) (Linfo built0) (se_cvdModes se)
                  (se_seedHue se)) (\<lambda>curReport0.
           Inr \<lparr>st_rng = rng1, curParams = curParams0, st_built = built0,
                curReport = curReport0, curScore = total curReport0,
                bestParams = curParams0, bestTokens = b_tokens built0,
                bestReport = curReport0, bestScore = total curReport0,
                temperature = temperature0\<rparr>)))"

definition settingOf :: "mode \<Rightarrow> string \<Rightarrow> options \<Rightarrow> number option \<Rightarrow> setting" where
  "settingOf mode primaryHexFixed opts seedHue' =
     \<lparr>se_mode = mode,
      se_primaryHexFixed = primaryHexFixed,
      se_contrastTarget = orElse (opt_contrastTarget opts) ''AA'',
      se_weights = defaultWeights (opt_weights opts),
      se_cvdModes = cvdModesOf opts,
      se_seedHue = seedHue',
      se_cooling = orElse (opt_cooling opts) 0.985\<rparr>"

text \<open>\<open>optimizeTheme\<close> returns the best candidate; the generator it was given has advanced,
  which the caller sees, so the model returns it as well.\<close>

definition optimizeTheme ::
  "mode \<Rightarrow> string \<Rightarrow> options \<Rightarrow> RNG \<Rightarrow> number option \<Rightarrow> error + outcome \<times> RNG" where
  "optimizeTheme mode primaryHexFixed opts rng seedHue' =
     (let se = settingOf mode primaryHexFixed opts seedHue';
          iterations = orElse (opt_iterations opts) 3500;
          temperature0 = orElse (opt_temperature opts) 1.0;
          preferVibrant = orElse (opt_preferVibrant opts) True;
          semanticConventional = orElse (opt_semanticConventional opts) True
      in bindE (initialSearch se temperature0 (opt_seedHex opts) preferVibrant
                  semanticConventional rng) (\<lambda>st0.
         bindE (iterate se (nat iterations) 0 st0) (\<lambda>st.
           Inr (\<lparr>out_tokens = bestTokens st, out_score = bestScore st,
                 out_report = bestReport st\<rparr>, st_rng st))))"

section \<open>Public API: dual recommend\<close>

definition safeSeedHue :: "string option \<Rightarrow> number option" where
  "safeSeedHue seedHex =
     (case seedHex of
        None \<Rightarrow> None
      | Some h \<Rightarrow>
          if h = [] then None
          else (case hexToOklch h of Inr c \<Rightarrow> Some (lch_H c) | Inl _ \<Rightarrow> None))"

record meta =
  meta_primaryHex :: string
  meta_primaryDarkHex :: string
  meta_contrastTarget :: string
  meta_cvdModes :: "string list"
  meta_randomSeed :: int

record dual =
  light :: outcome
  dark :: outcome
  dual_meta :: meta

text \<open>\<open>Math.random()\<close> is the only input of the entry point besides its options; the
  model takes the value it returns as the argument \<open>random\<close>.\<close>

definition recommendTokensDual :: "real \<Rightarrow> options \<Rightarrow> error + dual" where
  "recommendTokensDual random opts =
     (if \<not> truthy (opt_primaryHex opts) then Inl PrimaryHexRequired
      else
        (let randomSeed = orElse (opt_randomSeed opts) \<lfloor>random * 1000000000\<rfloor>;
             rng = RNG_new randomSeed;
             primaryHex = normalizeHex (orElse (opt_primaryHex opts) []);
             primaryDarkHex =
               normalizeHex (orElse (opt_primaryDarkHex opts) (orElse (opt_primaryHex opts) []));
             cvdModes = cvdModesOf opts;
             seedHue' = safeSeedHue (opt_seedHex opts)
         in bindE (optimizeTheme Light primaryHex opts rng seedHue') (\<lambda>(light', rng1).
            bindE (optimizeTheme Dark primaryDarkHex opts rng1 seedHue') (\<lambda>(dark', rng2).
              Inr \<lparr>light = light', dark = dark',
                   dual_meta =
                     \<lparr>meta_primaryHex = primaryHex,
                      meta_primaryDarkHex = primaryDarkHex,
                      meta_contrastTarget = orElse (opt_contrastTarget opts) ''AA'',
                      meta_cvdModes = cvdModes,
                      meta_randomSeed = randomSeed\<rparr>\<rparr>))))"

section \<open>What mutation may change\<close>

text \<open>\<open>jittered amt lo hi x y\<close>: \<open>y\<close> is \<open>x\<close> moved by at most \<open>amt\<close> and clamped to
  \<open>[lo, hi]\<close>; \<open>hueJittered amt x y\<close>: \<open>y\<close> is \<open>x\<close> moved by at most \<open>amt\<close> and wrapped
  by \<open>mod360\<close>.\<close>

definition jittered :: "real \<Rightarrow> number \<Rightarrow> number \<Rightarrow> number \<Rightarrow> number \<Rightarrow> bool" where
  "jittered amt lo hi x y = (\<exists>j. \<bar>j\<bar> \<le> amt \<and> y = clamp (x + Num j) lo hi)"

definition hueJittered :: "real \<Rightarrow> number \<Rightarrow> number \<Rightarrow> bool" where
  "hueJittered amt x y = (\<exists>j. \<bar>j\<bar> \<le> amt \<and> y = mod360 (x + Num j))"

text \<open>\<open>mutated g p q\<close>: \<open>q\<close> is \<open>p\<close> except in the fields of the parameter group \<open>g\<close>, and
  each field of that group is the jittered field of \<open>p\<close>. The groups are numbered as the
  cases of the switch in \<open>mutateParams\<close>.\<close>

definition mutated :: "nat \<Rightarrow> params \<Rightarrow> params \<Rightarrow> bool" where
  "mutated g p q =
     (if g = 0 then
        q = p\<lparr>bgL := bgL q, surfaceDeltaL := surfaceDeltaL q, surface2DeltaL := surface2DeltaL q\<rparr>
        \<and> jittered 0.03 0 1 (bgL p) (bgL q)
        \<and> jittered 0.02 0.02 0.16 (surfaceDeltaL p) (surfaceDeltaL q)
        \<and> jittered 0.03 0.03 0.2 (surface2DeltaL p) (surface2DeltaL q)
      else if g = 1 then
        q = p\<lparr>textPrimaryL := textPrimaryL q, textSecondaryL := textSecondaryL q,
               textTertiaryL := textTertiaryL q\<rparr>
        \<and> jittered 0.04 0 1 (textPrimaryL p) (textPrimaryL q)
        \<and> jittered 0.05 0 1 (textSecondaryL p) (textSecondaryL q)
        \<and> jittered 0.06 0 1 (textTertiaryL p) (textTertiaryL q)
      else if g = 2 then
        q = p\<lparr>secondaryHue := secondaryHue q, secondaryC := secondaryC q,
               secondaryL := secondaryL q\<rparr>
        \<and> hueJittered 25 (secondaryHue p) (secondaryHue q)
        \<and> jittered 0.03 0.01 0.16 (secondaryC p) (secondaryC q)
        \<and> jittered 0.06 0.12 0.92 (secondaryL p) (secondaryL q)
      else if g = 3 then
        q = p\<lparr>accentHue := accentHue q, accentC := accentC q, accentL := accentL q\<rparr>
        \<and> hueJittered 30 (accentHue p) (accentHue q)
        \<and> jittered 0.04 0.02 0.24 (accentC p) (accentC q)
        \<and> jittered 0.07 0.16 0.92 (accentL p) (accentL q)
      else if g = 4 then
        q = p\<lparr>neutralHue := neutralHue q, neutralC := neutralC q\<rparr>
        \<and> hueJittered 15 (neutralHue p) (neutralHue q)
        \<and> jittered 0.01 0.002 0.06 (neutralC p) (neutralC q)
      else if g = 5 then
        q = p\<lparr>semanticC := semanticC q, successL := successL q, warningL := warningL q,
               dangerL := dangerL q, infoL := infoL q\<rparr>
        \<and> jittered 0.03 0.06 0.26 (semanticC p) (semanticC q)
        \<and> jittered 0.05 0.2 0.85 (successL p) (successL q)
        \<and> jittered 0.05 0.2 0.9 (warningL p) (warningL q)
        \<and> jittered 0.05 0.2 0.85 (dangerL p) (dangerL q)
        \<and> jittered 0.05 0.2 0.85 (infoL p) (infoL q)
      else if g = 6 then
        q = p\<lparr>successHue := successHue q, warningHue := warningHue q,
               dangerHue := dangerHue q, infoHue := infoHue q\<rparr>
        \<and> hueJittered 15 (successHue p) (successHue q)
        \<and> hueJittered 15 (warningHue p) (warningHue q)
        \<and> hueJittered 15 (dangerHue p) (dangerHue q)
        \<and> hueJittered 15 (infoHue p) (infoHue q)
      else if g = 7 then
        q = p\<lparr>borderDeltaL := borderDeltaL q, dividerDeltaL := dividerDeltaL q\<rparr>
        \<and> jittered 0.02 0.01 0.1 (borderDeltaL p) (borderDeltaL q)
        \<and> jittered 0.02 0.02 0.14 (dividerDeltaL p) (dividerDeltaL q)
      else if g = 8 then
        q = p\<lparr>focusFrom := focusFrom q, focusCBoost := focusCBoost q, focusL := focusL q\<rparr>
        \<and> focusFrom q \<in> {Some ''primary'', Some ''accent''}
        \<and> jittered 0.03 0.02 0.16 (focusCBoost p) (focusCBoost q)
        \<and> jittered 0.08 0.25 0.85 (focusL p) (focusL q)
      else
        g = 9
        \<and> q = p\<lparr>seedHue := seedHue q\<rparr>
        \<and> hueJittered 15 (seedHue p) (seedHue q))"

section \<open>Well-formed colors and parameters\<close>

text \<open>A color field is well formed when it is \<open>#\<close> followed by exactly six hexadecimal
  digits. An input color is well formed when, trimmed and without its optional leading
  \<open>#\<close>, it is six hexadecimal digits.\<close>

definition isHexColor :: "string \<Rightarrow> bool" where
  "isHexColor s =
     (case s of [] \<Rightarrow> False | c # t \<Rightarrow> c = CHR ''#'' \<and> length t = 6 \<and> list_all isHexDigit t)"

definition validHexInput :: "string \<Rightarrow> bool" where
  "validHexInput h = (let t = stripHash (trim h) in length t = 6 \<and> list_all isHexDigit t)"

definition rgbFinite :: "rgb \<Rightarrow> bool" where
  "rgbFinite c = (isNum (rgb_r c) \<and> isNum (rgb_g c) \<and> isNum (rgb_b c))"

definition labFinite :: "oklab \<Rightarrow> bool" where
  "labFinite c = (isNum (lab_L c) \<and> isNum (lab_a c) \<and> isNum (lab_b c))"

definition lchFinite :: "oklch \<Rightarrow> bool" where
  "lchFinite c = (isNum (lch_L c) \<and> isNum (lch_C c) \<and> isNum (lch_H c))"

text \<open>The byte and the two characters that \<open>rgbToHex\<close> writes for one channel.\<close>

definition channelByte :: "real \<Rightarrow> nat" where
  "channelByte x = nat \<lfloor>min 1 (max 0 x) * 255 + 1 / 2\<rfloor>"

definition channelHex :: "number \<Rightarrow> string" where
  "channelHex x = toUpperCase (padStart2 (toString16 (Math_round (clamp x 0 1 * 255))))"

definition buttonValid :: "button \<Rightarrow> bool" where
  "buttonValid b =
     (isHexColor (btn_bg b) \<and> isHexColor (btn_text b) \<and> isHexColor (btn_hoverBg b)
      \<and> isHexColor (btn_pressedBg b) \<and> isHexColor (btn_disabledBg b)
      \<and> isHexColor (btn_disabledText b))"

definition semanticStatesValid :: "semantic_states \<Rightarrow> bool" where
  "semanticStatesValid s =
     (isHexColor (sem_base s) \<and> isHexColor (sem_onBaseText s) \<and> isHexColor (sem_subtleBg s)
      \<and> isHexColor (sem_subtleText s) \<and> isHexColor (sem_border s) \<and> isHexColor (sem_hover s)
      \<and> isHexColor (sem_pressed s))"

text \<open>Every color-valued field of a token set, the nested groups included.\<close>

definition tokensValid :: "tokens \<Rightarrow> bool" where
  "tokensValid t =
     (isHexColor (background t) \<and> isHexColor (surface t) \<and> isHexColor (surface2 t)
      \<and> isHexColor (textPrimary t) \<and> isHexColor (textSecondary t) \<and> isHexColor (textTertiary t)
      \<and> isHexColor (primary t) \<and> isHexColor (primaryText t)
      \<and> isHexColor (secondary t) \<and> isHexColor (secondaryText t)
      \<and> isHexColor (accent t) \<and> isHexColor (accentText t)
      \<and> isHexColor (border t) \<and> isHexColor (divider t) \<and> isHexColor (focusRing t)
      \<and> buttonValid (buttonPrimary t) \<and> buttonValid (buttonSecondary t)
      \<and> semanticStatesValid (success (semantic t)) \<and> semanticStatesValid (warning (semantic t))
      \<and> semanticStatesValid (danger (semantic t)) \<and> semanticStatesValid (info (semantic t)))"

text \<open>The lightness, chroma and delta fields and the four semantic hues are numbers in
  every parameter vector the engine builds; the other four hues are numbers unless a
  \<open>NaN\<close> came from \<open>seedHex\<close> or from a \<open>pick\<close> outside its array.\<close>

definition paramsBase :: "params \<Rightarrow> bool" where
  "paramsBase p =
     (isNum (neutralC p) \<and> isNum (bgL p) \<and> isNum (surfaceDeltaL p) \<and> isNum (surface2DeltaL p)
      \<and> isNum (textPrimaryL p) \<and> isNum (textSecondaryL p) \<and> isNum (textTertiaryL p)
      \<and> isNum (secondaryC p) \<and> isNum (secondaryL p) \<and> isNum (accentC p) \<and> isNum (accentL p)
      \<and> isNum (successHue p) \<and> isNum (warningHue p) \<and> isNum (dangerHue p) \<and> isNum (infoHue p)
      \<and> isNum (semanticC p) \<and> isNum (successL p) \<and> isNum (warningL p) \<and> isNum (dangerL p)
      \<and> isNum (infoL p) \<and> isNum (borderDeltaL p) \<and> isNum (dividerDeltaL p)
      \<and> isNum (focusCBoost p) \<and> isNum (focusL p))"

definition paramsFinite :: "params \<Rightarrow> bool" where
  "paramsFinite p =
     (paramsBase p \<and> isNum (seedHue p) \<and> isNum (neutralHue p) \<and> isNum (secondaryHue p)
      \<and> isNum (accentHue p))"

text \<open>The parameter vectors the search can hold: the initial one and every mutation of a
  reachable one.\<close>

inductive reachable :: "params \<Rightarrow> bool" where
  init: "reachable (fst (initParams rng mode seedHex preferVibrant semanticConventional))"
| step: "reachable p \<Longrightarrow> reachable (fst (mutateParams rng p))"

text \<open>\<open>skip n rng\<close> is the generator after \<open>n\<close> draws.\<close>

definition skip :: "nat \<Rightarrow> RNG \<Rightarrow> RNG" where
  "skip n rng = ((\<lambda>r. snd (RNG_next r)) ^^ n) rng"

text \<open>The names of the CVD modes that \<open>applyCvd\<close> knows.\<close>

definition validCvdMode :: "string \<Rightarrow> bool" where
  "validCvdMode m = (m = ''none'' \<or> m = ''protan'' \<or> m = ''deutan'' \<or> m = ''tritan'')"

section \<open>The trace of a search\<close>

text \<open>\<open>trace se n i st\<close> lists the states of the loop after each of the \<open>n\<close> iterations
  that \<open>iterate se n i st\<close> runs, and \<open>searchTrace\<close> lists the states of a run of
  \<open>optimizeTheme\<close>: the state before the loop and the state after every iteration.\<close>

fun trace :: "setting \<Rightarrow> nat \<Rightarrow> nat \<Rightarrow> search \<Rightarrow> error + search list" where
  "trace se 0 i st = Inr []"
| "trace se (Suc n) i st =
     bindE (iteration se i st) (\<lambda>st'.
     bindE (trace se n (Suc i) st') (\<lambda>sts. Inr (st' # sts)))"

definition searchTrace ::
  "mode \<Rightarrow> string \<Rightarrow> options \<Rightarrow> RNG \<Rightarrow> number option \<Rightarrow> error + search list" where
  "searchTrace mode primaryHexFixed opts rng seedHue' =
     (let se = settingOf mode primaryHexFixed opts seedHue'
      in bindE (initialSearch se (orElse (opt_temperature opts) 1.0) (opt_seedHex opts)
                  (orElse (opt_preferVibrant opts) True)
                  (orElse (opt_semanticConventional opts) True) rng) (\<lambda>st0.
         bindE (trace se (nat (orElse (opt_iterations opts) 3500)) 0 st0) (\<lambda>sts.
           Inr (st0 # sts))))"

text \<open>A list of scores never decreases when each score is its predecessor or is greater
  than it (a \<open>NaN\<close> that stays is not a decrease).\<close>

fun nondecreasing :: "number list \<Rightarrow> bool" where
  "nondecreasing (x # y # r) = ((x = y \<or> x < y) \<and> nondecreasing (y # r))"
| "nondecreasing _ = True"

text \<open>\<open>Math.max(...xs)\<close> on a list that is not empty.\<close>

fun Math_max_list :: "number list \<Rightarrow> number" where
  "Math_max_list [] = NaN"
| "Math_max_list (x # xs) = foldl Math_max x xs"

text \<open>The two statements that end the body of the loop, as a function of the index and
  the temperature, and the temperature after \<open>n\<close> iterations from index \<open>i\<close>.\<close>

definition cool :: "number \<Rightarrow> nat \<Rightarrow> number \<Rightarrow> number" where
  "cool cooling i t =
     (let t1 = t * cooling
      in if (i + 1) mod 900 = 0 then Math_min 1.0 (t1 * 1.18) else t1)"

fun temperatureAfter :: "number \<Rightarrow> nat \<Rightarrow> nat \<Rightarrow> number \<Rightarrow> number" where
  "temperatureAfter cooling 0 i t = t"
| "temperatureAfter cooling (Suc n) i t = temperatureAfter cooling n (Suc i) (cool cooling i t)"

text \<open>The temperature of the \<open>k\<close>-th state of a trace, when the run returns and has that
  many states.\<close>

definition temperatureAt :: "nat \<Rightarrow> error + search list \<Rightarrow> number option" where
  "temperatureAt k r =
     (case r of
        Inl e \<Rightarrow> None
      | Inr sts \<Rightarrow> if k < length sts then Some (temperature (sts ! k)) else None)"



section \<open>Example inputs\<close>

text \<open>The call of the README: \<open>recommendTokensDual({ primaryHex: "#5B5FF5",
  contrastTarget: "AA", randomSeed: 42 })\<close>, and a parameter vector of a light theme.\<close>

definition readmeOptions :: options where
  "readmeOptions =
     \<lparr>opt_primaryHex = Some ''#5B5FF5'', opt_primaryDarkHex = None, opt_seedHex = None,
      opt_contrastTarget = Some ''AA'', opt_iterations = None, opt_temperature = None,
      opt_cooling = None, opt_preferVibrant = None, opt_semanticConventional = None,
      opt_cvdModes = None, opt_weights = None, opt_randomSeed = Some 42\<rparr>"


text \<open>A parameter vector whose numbers lie outside the ranges of their fields.\<close>

definition wildParams :: params where
  "wildParams =
     \<lparr>seedHue = 400, neutralHue = 400, neutralC = 5, bgL = 5, surfaceDeltaL = 5,
      surface2DeltaL = 5, textPrimaryL = 5, textSecondaryL = 5, textTertiaryL = 5,
      secondaryHue = 400, secondaryC = 5, secondaryL = 5, accentHue = 400, accentC = 5,
      accentL = 5, successHue = 400, warningHue = 400, dangerHue = 400, infoHue = 400,
      semanticC = 5, successL = 5, warningL = 5, dangerL = 5, infoL = 5,
      borderDeltaL = 5, dividerDeltaL = 5, focusFrom = Some ''primary'',
      focusCBoost = 5, focusL = 5\<rparr>"

text \<open>Variants of the call of the README: two iterations; 900 iterations from the
  temperature 0.5 without cooling; no iteration.\<close>

definition shortOptions :: options where
  "shortOptions = readmeOptions\<lparr>opt_iterations := Some 2\<rparr>"

definition reheatOptions :: options where
  "reheatOptions =
     readmeOptions\<lparr>opt_iterations := Some 900, opt_temperature := Some 0.5,
                    opt_cooling := Some 1\<rparr>"


text \<open>Two token sets in black and white: in the first every text is black on white and
  every fill is black under white text; the second is the first with the tertiary text
  in white, on the white surface. A lightness summary for them.\<close>

definition plainButton :: button where
  "plainButton =
     \<lparr>btn_bg = ''#000000'', btn_text = ''#FFFFFF'', btn_hoverBg = ''#000000'',
      btn_pressedBg = ''#000000'', btn_disabledBg = ''#FFFFFF'', btn_disabledText = ''#000000''\<rparr>"

definition plainStates :: semantic_states where
  "plainStates =
     \<lparr>sem_base = ''#000000'', sem_onBaseText = ''#FFFFFF'', sem_subtleBg = ''#FFFFFF'',
      sem_subtleText = ''#000000'', sem_border = ''#000000'', sem_hover = ''#000000'',
      sem_pressed = ''#000000''\<rparr>"

definition plainTokens :: tokens where
  "plainTokens =
     \<lparr>tk_mode = Light, background = ''#FFFFFF'', surface = ''#FFFFFF'', surface2 = ''#FFFFFF'',
      textPrimary = ''#000000'', textSecondary = ''#000000'', textTertiary = ''#000000'',
      primary = ''#000000'', primaryText = ''#FFFFFF'', secondary = ''#000000'',
      secondaryText = ''#FFFFFF'', accent = ''#000000'', accentText = ''#FFFFFF'',
      border = ''#000000'', divider = ''#000000'', focusRing = ''#000000'',
      buttonPrimary = plainButton, buttonSecondary = plainButton,
      semantic = \<lparr>success = plainStates, warning = plainStates, danger = plainStates,
                  info = plainStates\<rparr>\<rparr>"

definition faintTokens :: tokens where
  "faintTokens = plainTokens\<lparr>textTertiary := ''#FFFFFF''\<rparr>"

definition plainLinfo :: linfo where
  "plainLinfo =
     \<lparr>L_background = 1, L_surface = 1, L_surface2 = 1, L_textPrimary = 0,
      L_textSecondary = 0, L_textTertiary = 0, L_primary = 0, L_secondary = 0, L_accent = 0\<rparr>"

section \<open>Numerals and arithmetic of numbers\<close>

lemma numeral_number [simp]: "(numeral k :: number) = Num (numeral k)"
proof (induction k)
  case One
  show ?case by (simp only: numeral_One one_number_def)
next
  case (Bit0 k)
  have "(numeral (num.Bit0 k) :: number) = numeral k + numeral k"
    by (rule numeral_Bit0)
  also have "\<dots> = Num (numeral k + numeral k)"
    by (simp only: Bit0.IH plus_number.simps)
  also have "numeral k + numeral k = (numeral (num.Bit0 k) :: real)"
    by (rule numeral_Bit0 [symmetric])
  finally show ?case .
next
  case (Bit1 k)
  have "(numeral (num.Bit1 k) :: number) = numeral k + numeral k + 1"
    by (rule numeral_Bit1)
  also have "\<dots> = Num (numeral k + numeral k + 1)"
    by (simp only: Bit1.IH plus_number.simps one_number_def)
  also have "numeral k + numeral k + 1 = (numeral (num.Bit1 k) :: real)"
    by (rule numeral_Bit1 [symmetric])
  finally show ?case .
qed

lemma power_number [simp]: "Num x ^ n = Num (x ^ n)"
  by (induction n) (simp_all add: one_number_def)

lemma zero_number [simp]: "(0 :: number) = Num 0"
  by (rule zero_number_def)

lemma one_number [simp]: "(1 :: number) = Num 1"
  by (rule one_number_def)

lemma isNum_simps [simp]: "isNum (Num x)" "\<not> isNum NaN"
  by (simp_all add: isNum_def)

section \<open>Numbers stay numbers\<close>

lemma isNum_plus [simp]: "isNum (x + y) = (isNum x \<and> isNum y)"
  by (cases x; cases y) simp_all

lemma isNum_minus [simp]: "isNum (x - y) = (isNum x \<and> isNum y)"
  by (cases x; cases y) simp_all

lemma isNum_times [simp]: "isNum (x * y) = (isNum x \<and> isNum y)"
  by (cases x; cases y) simp_all

lemma isNum_uminus [simp]: "isNum (- x) = isNum x"
  by (cases x) simp_all

lemma isNum_abs [simp]: "isNum \<bar>x\<bar> = isNum x"
  by (cases x) simp_all

lemma isNum_divide [simp]: "isNum (x / Num c) = (isNum x \<and> c \<noteq> 0)"
  by (cases x) simp_all

lemma isNum_Math_min [simp]: "isNum (Math_min x y) = (isNum x \<and> isNum y)"
  by (cases x; cases y) simp_all

lemma isNum_Math_max [simp]: "isNum (Math_max x y) = (isNum x \<and> isNum y)"
  by (cases x; cases y) simp_all

lemma isNum_clamp [simp]: "isNum (clamp x lo hi) = (isNum x \<and> isNum lo \<and> isNum hi)"
  by (auto simp: clamp_def)

lemma isNum_Math_round [simp]: "isNum (Math_round x) = isNum x"
  by (cases x) simp_all

lemma isNum_Math_cbrt [simp]: "isNum (Math_cbrt x) = isNum x"
  by (cases x) simp_all

lemma isNum_Math_cos [simp]: "isNum (Math_cos x) = isNum x"
  by (cases x) simp_all

lemma isNum_Math_sin [simp]: "isNum (Math_sin x) = isNum x"
  by (cases x) simp_all

lemma isNum_Math_atan2 [simp]: "isNum (Math_atan2 y x) = (isNum y \<and> isNum x)"
  by (cases x; cases y) simp_all

lemma isNum_Math_PI [simp]: "isNum Math_PI"
  by (simp add: Math_PI_def)

lemma isNum_js_rem [simp]: "isNum (js_rem x (Num c)) = (isNum x \<and> c \<noteq> 0)"
  by (cases x) simp_all

lemma isNum_mod360 [simp]: "isNum (mod360 x) = isNum x"
  by (cases x) (simp_all add: mod360_def Let_def)

lemma isNum_sum_squares [simp]: "isNum (Math_sqrt (x * x + y * y)) = (isNum x \<and> isNum y)"
  by (cases x; cases y) (simp_all add: not_less)

lemma isNum_sum_squares3 [simp]:
  "isNum (Math_sqrt (x * x + y * y + z * z)) = (isNum x \<and> isNum y \<and> isNum z)"
  by (cases x; cases y; cases z) (simp_all add: not_less)

lemma isNum_srgbToLinear [simp]: "isNum (srgbToLinear c) = isNum c"
  by (cases c) (auto simp: srgbToLinear_def)

lemma isNum_linearToSrgb [simp]: "isNum (linearToSrgb c) = isNum c"
  by (cases c) (auto simp: linearToSrgb_def)

lemma rgbFinite_rgbToLinearRgb [simp]: "rgbFinite (rgbToLinearRgb c) = rgbFinite c"
  by (simp add: rgbFinite_def rgbToLinearRgb_def)

lemma rgbFinite_linearRgbToRgb [simp]: "rgbFinite (linearRgbToRgb c) = rgbFinite c"
  by (simp add: rgbFinite_def linearRgbToRgb_def)

lemma labFinite_linearRgbToOklab [simp]: "labFinite (linearRgbToOklab c) = rgbFinite c"
  by (auto simp: labFinite_def rgbFinite_def linearRgbToOklab_def Let_def)

lemma rgbFinite_oklabToLinearRgb [simp]: "rgbFinite (oklabToLinearRgb c) = labFinite c"
  by (auto simp: labFinite_def rgbFinite_def oklabToLinearRgb_def Let_def)

lemma lchFinite_oklabToOklch [simp]: "lchFinite (oklabToOklch c) = labFinite c"
  by (cases "Math_PI") (auto simp: labFinite_def lchFinite_def oklabToOklch_def Math_PI_def)

lemma labFinite_oklchToOklab [simp]: "labFinite (oklchToOklab c) = lchFinite c"
  by (auto simp: labFinite_def lchFinite_def oklchToOklab_def Math_PI_def)


lemma less16_cases:
  "d < 16 \<Longrightarrow> d = 0 \<or> d = 1 \<or> d = 2 \<or> d = 3 \<or> d = 4 \<or> d = 5 \<or> d = 6 \<or> d = 7
     \<or> d = 8 \<or> d = 9 \<or> d = 10 \<or> d = 11 \<or> d = 12 \<or> d = 13 \<or> d = 14 \<or> d = (15::nat)"
  by arith

lemma hexDigitVal_upper_digitChar:
  "d < 16 \<Longrightarrow> hexDigitVal (upperChar (digitChar d)) = Some d"
  by (drule less16_cases, elim disjE)
     (simp_all add: digitChar_def upperChar_def hexDigitVal_def)

lemma isHexDigit_upper_digitChar: "isHexDigit (upperChar (digitChar d))"
proof -
  have "d mod 16 < 16" by simp
  then have "hexDigitVal (upperChar (digitChar (d mod 16))) = Some (d mod 16)"
    by (rule hexDigitVal_upper_digitChar)
  moreover have "digitChar (d mod 16) = digitChar d"
    by (simp add: digitChar_def)
  ultimately show ?thesis by (simp add: isHexDigit_def)
qed

lemma isHexDigit_not_special:
  assumes "isHexDigit c"
  shows "\<not> isWhiteSpace c" "c \<noteq> CHR ''-''" "c \<noteq> CHR ''+''" "c \<noteq> CHR ''x''" "c \<noteq> CHR ''X''"
    "c \<noteq> CHR ''#''"
  using assms by (auto simp: isHexDigit_def hexDigitVal_def isWhiteSpace_def Let_def split: if_splits)


lemma byte_hex:
  assumes "n < 256"
  shows "toUpperCase (padStart2 (hexDigits n))
         = [upperChar (digitChar (n div 16)), upperChar (digitChar (n mod 16))]"
proof (cases "n < 16")
  case True
  then have "hexDigits n = [digitChar n]" by (simp add: hexDigits.simps)
  moreover have "digitChar 0 = CHR ''0''" by (simp add: digitChar_def)
  ultimately show ?thesis using True by (simp add: padStart2_def toUpperCase_def)
next
  case False
  with assms have "n div 16 < 16" by simp
  then have "hexDigits (n div 16) = [digitChar (n div 16)]" by (simp add: hexDigits.simps)
  with False have "hexDigits n = [digitChar (n div 16), digitChar (n mod 16)]"
    by (subst hexDigits.simps) simp
  then show ?thesis by (simp add: padStart2_def toUpperCase_def)
qed



lemma channelByte_less: "channelByte x < 256"
proof -
  have "min 1 (max 0 x) * 255 + 1 / 2 < real_of_int 256" by (simp add: min_def max_def)
  then have "\<lfloor>min 1 (max 0 x) * 255 + 1 / 2\<rfloor> < (256 :: int)" by (simp only: floor_less_iff)
  then show ?thesis unfolding channelByte_def by linarith
qed

lemma channel_hex_Num:
  "toUpperCase (padStart2 (toString16 (Math_round (clamp (Num x) 0 1 * 255))))
   = [upperChar (digitChar (channelByte x div 16)), upperChar (digitChar (channelByte x mod 16))]"
proof -
  have nonneg: "0 \<le> min 1 (max 0 x) * 255 + 1 / 2" by (simp add: min_def max_def)
  then have "\<not> real_of_int \<lfloor>min 1 (max 0 x) * 255 + 1 / 2\<rfloor> < 0" by simp
  then have "toString16 (Math_round (clamp (Num x) 0 1 * 255)) = hexDigits (channelByte x)"
    by (simp add: clamp_def channelByte_def)
  then show ?thesis
    using byte_hex [OF channelByte_less [of x]] by simp
qed

lemma channel_hex_NaN:
  "toUpperCase (padStart2 (toString16 (Math_round (clamp NaN 0 1 * 255)))) = ''NAN''"
  by (simp add: clamp_def padStart2_def toUpperCase_def upperChar_def char_of_eq_iff)



lemma rgbToHex_channels:
  "rgbToHex c = CHR ''#'' # channelHex (rgb_r c) @ channelHex (rgb_g c) @ channelHex (rgb_b c)"
  by (simp add: rgbToHex_def channelHex_def Let_def toUpperCase_def upperChar_def)

lemma channelHex_Num:
  "channelHex (Num x)
   = [upperChar (digitChar (channelByte x div 16)), upperChar (digitChar (channelByte x mod 16))]"
  unfolding channelHex_def by (rule channel_hex_Num)

lemma channelHex_NaN: "channelHex NaN = ''NAN''"
  unfolding channelHex_def by (rule channel_hex_NaN)

lemma length_channelHex: "length (channelHex x) = (if isNum x then 2 else 3)"
  by (cases x) (simp_all add: channelHex_Num channelHex_NaN)

lemma isHexColor_rgbToHex [simp]: "isHexColor (rgbToHex c) = rgbFinite c"
proof (cases "rgbFinite c")
  case True
  then obtain r g b where "rgb_r c = Num r" "rgb_g c = Num g" "rgb_b c = Num b"
    by (cases "rgb_r c"; cases "rgb_g c"; cases "rgb_b c") (simp_all add: rgbFinite_def)
  then show ?thesis
    using True
    by (simp add: isHexColor_def rgbToHex_channels channelHex_Num isHexDigit_upper_digitChar)
next
  case False
  then have "length (rgbToHex c) \<noteq> 7"
    by (auto simp: rgbToHex_channels length_channelHex rgbFinite_def)
  moreover have "isHexColor (rgbToHex c) \<Longrightarrow> length (rgbToHex c) = 7"
    by (auto simp: isHexColor_def split: list.splits)
  ultimately show ?thesis using False by blast
qed

lemma trim_id:
  assumes "s \<noteq> []" "\<not> isWhiteSpace (hd s)" "\<not> isWhiteSpace (last s)"
  shows "trim s = s"
proof -
  have "dropWhile isWhiteSpace s = s"
    using assms(1,2) by (cases s) simp_all
  moreover have "dropWhile isWhiteSpace (rev s) = rev s"
    using assms(1,3) by (cases "rev s") (simp_all add: last_rev [symmetric] del: last_rev)
  ultimately show ?thesis by (simp add: trim_def)
qed

lemma last_channelHex_not_ws: "\<not> isWhiteSpace (last (channelHex x))"
proof (cases x)
  case NaN
  then show ?thesis by (simp add: channelHex_NaN isWhiteSpace_def)
next
  case (Num v)
  then show ?thesis
    using isHexDigit_not_special(1) [OF isHexDigit_upper_digitChar]
    by (simp add: channelHex_Num)
qed

lemma channelHex_not_Nil: "channelHex x \<noteq> []"
  using length_channelHex [of x] by (auto split: if_splits)

lemma trim_rgbToHex [simp]: "trim (rgbToHex c) = rgbToHex c"
proof (rule trim_id)
  show "rgbToHex c \<noteq> []" by (simp add: rgbToHex_channels)
  show "\<not> isWhiteSpace (hd (rgbToHex c))" by (simp add: rgbToHex_channels isWhiteSpace_def)
  show "\<not> isWhiteSpace (last (rgbToHex c))"
    using last_channelHex_not_ws [of "rgb_b c"] channelHex_not_Nil [of "rgb_b c"]
    by (simp add: rgbToHex_channels)
qed

lemma parseInt16_two_digits:
  assumes "hexDigitVal c1 = Some v1" "hexDigitVal c2 = Some v2"
  shows "parseInt16 [c1, c2] = Num (real (16 * v1 + v2))"
proof -
  have d: "isHexDigit c1" "isHexDigit c2" using assms by (simp_all add: isHexDigit_def)
  note n1 = isHexDigit_not_special [OF d(1)]
  note n2 = isHexDigit_not_special [OF d(2)]
  show ?thesis
    using d n1 n2 assms by (simp add: parseInt16_def Let_def digitsValue_def)
qed

lemma parseInt16_channelHex:
  "parseInt16 (channelHex (Num x)) = Num (real (channelByte x))"
proof -
  have lt: "channelByte x div 16 < 16" "channelByte x mod 16 < 16"
    using channelByte_less [of x] by simp_all
  show ?thesis
    unfolding channelHex_Num
    using parseInt16_two_digits [OF hexDigitVal_upper_digitChar [OF lt(1)]
        hexDigitVal_upper_digitChar [OF lt(2)]]
    by simp
qed

lemma hexToRgb_rgbToHex_Num:
  "hexToRgb (rgbToHex \<lparr>rgb_r = Num r, rgb_g = Num g, rgb_b = Num b\<rparr>)
   = Inr \<lparr>rgb_r = Num (real (channelByte r) / 255),
          rgb_g = Num (real (channelByte g) / 255),
          rgb_b = Num (real (channelByte b) / 255)\<rparr>"
proof -
  let ?c = "\<lparr>rgb_r = Num r, rgb_g = Num g, rgb_b = Num b\<rparr>"
  have strip: "stripHash (rgbToHex ?c) = channelHex (Num r) @ channelHex (Num g) @ channelHex (Num b)"
    by (simp add: rgbToHex_channels stripHash_def startsWithHash_def)
  have len: "length (channelHex (Num r)) = 2" "length (channelHex (Num g)) = 2"
    "length (channelHex (Num b)) = 2"
    by (simp_all add: length_channelHex)
  have s1: "slice 0 2 (stripHash (rgbToHex ?c)) = channelHex (Num r)"
    and s2: "slice 2 4 (stripHash (rgbToHex ?c)) = channelHex (Num g)"
    and s3: "slice 4 6 (stripHash (rgbToHex ?c)) = channelHex (Num b)"
    using len by (simp_all add: strip slice_def)
  show ?thesis
    using len by (simp add: hexToRgb_def Let_def s1 s2 s3 parseInt16_channelHex) (simp add: strip)
qed

lemma hexToRgb_rgbToHex_NaN:
  assumes "\<not> rgbFinite c"
  shows "hexToRgb (rgbToHex c) = Inl (InvalidHex (rgbToHex c))"
proof -
  have "length (stripHash (rgbToHex c)) \<noteq> 6"
    using assms
    by (auto simp: rgbToHex_channels stripHash_def startsWithHash_def length_channelHex rgbFinite_def)
  then show ?thesis by (simp add: hexToRgb_def Let_def)
qed


section \<open>Properties of the RNG\<close>

lemma u32_real_nonneg: "0 \<le> (unsigned (w :: 32 word) :: real)"
proof -
  have "0 \<le> real (unat w)" by (rule of_nat_0_le_iff)
  then show ?thesis by (simp only: of_nat_unat)
qed

lemma u32_real_le: "(unsigned (w :: 32 word) :: real) \<le> 4294967295"
proof -
  have "unat w \<le> 4294967295"
    using unsigned_less [of w, where 'a = nat] by simp
  then have "real (unat w) \<le> real 4294967295"
    by (simp only: of_nat_le_iff)
  then show ?thesis by simp
qed

lemma u32_real_max_iff: "(unsigned (w :: 32 word) :: real) = 4294967295 \<longleftrightarrow> w = 4294967295"
proof -
  have "real (unat w) = real 4294967295 \<longleftrightarrow> unat w = 4294967295"
    by (simp only: of_nat_eq_iff)
  also have "\<dots> \<longleftrightarrow> unat w = unat (4294967295 :: 32 word)"
    by simp
  also have "\<dots> \<longleftrightarrow> w = 4294967295"
    by (simp only: word_unat_eq_iff)
  finally show ?thesis by simp
qed

lemma RNG_next_range: "0 \<le> fst (RNG_next rng) \<and> fst (RNG_next rng) \<le> 1"
  using u32_real_nonneg [of "xorshift (state rng)"] u32_real_le [of "xorshift (state rng)"]
  by (simp add: RNG_next_def Let_def)

lemma RNG_next_one_iff:
  "fst (RNG_next rng) = 1 \<longleftrightarrow> xorshift (state rng) = 4294967295"
  using u32_real_max_iff [of "xorshift (state rng)"]
  by (simp add: RNG_next_def Let_def)


text \<open>The three steps of \<open>xorshift\<close> can be undone, so it is injective, and the state
  \<open>0xffffffff\<close> has the single predecessor 1584200935.\<close>

lemma push_bit_32: "32 \<le> n \<Longrightarrow> push_bit n (x :: 32 word) = 0"
  by (rule bit_word_eqI) (simp add: bit_push_bit_iff)

lemma drop_bit_32: "32 \<le> n \<Longrightarrow> drop_bit n (x :: 32 word) = 0"
  by (rule bit_word_eqI) (simp add: bit_drop_bit_eq bit_imp_le_length)

lemma undo_left_13:
  fixes x :: "32 word"
  shows "(let y = x XOR push_bit 13 x in y XOR push_bit 13 y XOR push_bit 26 y) = x"
  by (simp add: Let_def push_bit_xor push_bit_push_bit push_bit_32 ac_simps)

lemma undo_left_5:
  fixes x :: "32 word"
  shows "(let y = x XOR push_bit 5 x
          in y XOR push_bit 5 y XOR push_bit 10 y XOR push_bit 15 y XOR push_bit 20 y
               XOR push_bit 25 y XOR push_bit 30 y) = x"
  by (simp add: Let_def push_bit_xor push_bit_push_bit push_bit_32 ac_simps)

lemma undo_right_17:
  fixes x :: "32 word"
  shows "(let y = x XOR drop_bit 17 x in y XOR drop_bit 17 y) = x"
  by (simp add: Let_def drop_bit_xor drop_bit_drop_bit drop_bit_32 ac_simps)

lemma xorshift_inject:
  assumes "xorshift x = xorshift y"
  shows "x = y"
proof -
  define a :: "32 word \<Rightarrow> 32 word" where "a z = z XOR push_bit 13 z" for z
  define b :: "32 word \<Rightarrow> 32 word" where "b z = z XOR drop_bit 17 z" for z
  define c :: "32 word \<Rightarrow> 32 word" where "c z = z XOR push_bit 5 z" for z
  define a' :: "32 word \<Rightarrow> 32 word"
    where "a' z = z XOR push_bit 13 z XOR push_bit 26 z" for z
  define b' :: "32 word \<Rightarrow> 32 word" where "b' z = z XOR drop_bit 17 z" for z
  define c' :: "32 word \<Rightarrow> 32 word" where
    "c' z = z XOR push_bit 5 z XOR push_bit 10 z XOR push_bit 15 z XOR push_bit 20 z
              XOR push_bit 25 z XOR push_bit 30 z" for z
  have a: "a' (a z) = z" for z
    using undo_left_13 [of z] by (simp add: a_def a'_def Let_def)
  have b: "b' (b z) = z" for z
    using undo_right_17 [of z] by (simp add: b_def b'_def Let_def)
  have c: "c' (c z) = z" for z
    using undo_left_5 [of z] by (simp add: c_def c'_def Let_def)
  have xs: "xorshift z = c (b (a z))" for z
    by (simp add: xorshift_def a_def b_def c_def Let_def)
  from assms have "c (b (a x)) = c (b (a y))" by (simp only: xs)
  then have "c' (c (b (a x))) = c' (c (b (a y)))" by (rule arg_cong)
  then have "b (a x) = b (a y)" by (simp only: c)
  then have "b' (b (a x)) = b' (b (a y))" by (rule arg_cong)
  then have "a x = a y" by (simp only: b)
  then have "a' (a x) = a' (a y)" by (rule arg_cong)
  then show ?thesis by (simp only: a)
qed

lemma xorshift_max_iff: "xorshift x = 4294967295 \<longleftrightarrow> x = 1584200935"
proof
  assume "xorshift x = 4294967295"
  moreover have "xorshift 1584200935 = 4294967295"
    by (simp add: xorshift_def Let_def)
  ultimately have "xorshift x = xorshift 1584200935" by simp
  then show "x = 1584200935" by (rule xorshift_inject)
next
  assume "x = 1584200935"
  then show "xorshift x = 4294967295" by (simp add: xorshift_def Let_def)
qed

lemma RNG_next_one_state: "fst (RNG_next rng) = 1 \<longleftrightarrow> state rng = 1584200935"
  by (simp only: RNG_next_one_iff xorshift_max_iff)


text \<open>
  Claim C10. For every seed and every number of preceding draws \<open>next()\<close> is in \<open>[0, 1]\<close>
  (lemma \<open>RNG_next_range\<close>), and \<open>pick\<close> reads inside the array. The second half fails:
  \<open>next()\<close> divides by \<open>0xffffffff\<close>, so it is 1 when the state becomes \<open>0xffffffff\<close>, and
  then \<open>int(lo, hi)\<close> is \<open>hi + 1\<close>. With the seed 1584200935 the first draw is 1, the index
  computed for a two-element array is 2, and \<open>pick\<close> reads \<open>undefined\<close>.
\<close>

theorem RNG_pick_out_of_bounds:
  "fst (RNG_next (RNG_new 1584200935)) = 1
   \<and> fst (RNG_int 0 1 (RNG_new 1584200935)) = 2
   \<and> fst (RNG_pick [150, 210 :: int] (RNG_new 1584200935)) = None"
  by (simp add: RNG_pick_def RNG_int_def RNG_next_def RNG_new_def xorshift_def Let_def)

section \<open>Parsing a hex color\<close>

lemma hexToRgb_wrong_length:
  "length (stripHash (trim h)) \<noteq> 6 \<Longrightarrow> hexToRgb h = Inl (InvalidHex h)"
  by (simp add: hexToRgb_def Let_def)

lemma hexToOklch_wrong_length:
  "length (stripHash (trim h)) \<noteq> 6 \<Longrightarrow> hexToOklch h = Inl (InvalidHex h)"
  by (simp add: hexToOklch_def hexToRgb_wrong_length bindE_def)

lemma hexToOklch_too_short: "hexToOklch ''#12'' = Inl (InvalidHex ''#12'')"
  by (rule hexToOklch_wrong_length)
     (simp add: stripHash_def startsWithHash_def trim_def isWhiteSpace_def)

text \<open>
  Claim C3. An input that, trimmed and without its leading \<open>#\<close>, is not exactly six
  hexadecimal digits makes \<open>hexToRgb\<close> and \<open>hexToOklch\<close> fail. The source checks the
  length only (lemmas \<open>hexToRgb_wrong_length\<close>, \<open>hexToOklch_wrong_length\<close>, and
  \<open>hexToOklch_too_short\<close> for \<open>"#12"\<close>). Six characters that are not hexadecimal digits
  pass the check: \<open>parseInt\<close> gives \<open>NaN\<close>, and both functions return \<open>NaN\<close> coordinates
  without an error.
\<close>

theorem hexToRgb_six_non_digits:
  "hexToRgb ''#GGGGGG'' = Inr \<lparr>rgb_r = NaN, rgb_g = NaN, rgb_b = NaN\<rparr>
   \<and> hexToOklch ''#GGGGGG'' = Inr \<lparr>lch_L = NaN, lch_C = NaN, lch_H = NaN\<rparr>"
proof -
  have rgb: "hexToRgb ''#GGGGGG'' = Inr \<lparr>rgb_r = NaN, rgb_g = NaN, rgb_b = NaN\<rparr>"
    by (simp add: hexToRgb_def Let_def stripHash_def startsWithHash_def trim_def
        isWhiteSpace_def slice_def parseInt16_def isHexDigit_def hexDigitVal_def)
  have "hexToOklch ''#GGGGGG'' = Inr \<lparr>lch_L = NaN, lch_C = NaN, lch_H = NaN\<rparr>"
    by (simp add: hexToOklch_def rgb bindE_def rgbToLinearRgb_def srgbToLinear_def
        linearRgbToOklab_def oklabToOklch_def Let_def mod360_def)
  with rgb show ?thesis by simp
qed

section \<open>Mutation changes one parameter group\<close>





lemma RNG_int_0_9_max_iff: "fst (RNG_int 0 9 rng) = 10 \<longleftrightarrow> state rng = 1584200935"
proof -
  define u where "u = fst (RNG_next rng)"
  have u: "0 \<le> u" "u \<le> 1"
    using RNG_next_range [of rng] by (simp_all add: u_def)
  have eq: "fst (RNG_int 0 9 rng) = \<lfloor>u * 10\<rfloor>"
    by (simp add: RNG_int_def u_def case_prod_beta)
  have "\<lfloor>u * 10\<rfloor> = 10 \<longleftrightarrow> u = 1"
  proof
    assume "\<lfloor>u * 10\<rfloor> = 10"
    then have "10 \<le> u * 10" by (simp add: floor_eq_iff)
    with u show "u = 1" by simp
  next
    assume "u = 1"
    then show "\<lfloor>u * 10\<rfloor> = 10" by simp
  qed
  then show ?thesis
    unfolding eq by (simp add: u_def RNG_next_one_state)
qed




lemma mutateParams_no_group:
  assumes "fst (RNG_int 0 9 rng) = 10"
  shows "fst (mutateParams rng p) = p"
  using assms by (simp add: mutateParams_def case_prod_beta)

text \<open>A jittered field lies in the range of its clamp, and a jittered hue in
  \<open>[0, 360)\<close>, whatever the field was.\<close>

lemma clamp_range:
  assumes "clamp x (Num lo) (Num hi) = Num y" and "lo \<le> hi"
  shows "lo \<le> y \<and> y \<le> hi"
  using assms by (cases x) (auto simp: clamp_def)

lemma jittered_range:
  assumes "jittered amt (Num lo) (Num hi) x (Num y)" and "lo \<le> hi"
  shows "lo \<le> y \<and> y \<le> hi"
proof -
  from assms(1) obtain j where "Num y = clamp (x + Num j) (Num lo) (Num hi)"
    unfolding jittered_def by blast
  then have "clamp (x + Num j) (Num lo) (Num hi) = Num y" by simp
  then show ?thesis using assms(2) by (rule clamp_range)
qed

lemma mod360_range:
  assumes "mod360 (Num x) = Num y"
  shows "0 \<le> y \<and> y < 360"
proof -
  define r where "r = x - 360 * of_int (trunc (x / 360))"
  have r: "- 360 < r \<and> r < 360 \<and> (0 \<le> x \<longrightarrow> 0 \<le> r)"
  proof (cases "x < 0")
    case True
    then have t: "trunc (x / 360) = \<lceil>x / 360\<rceil>" by (simp add: trunc_def)
    have "x / 360 \<le> of_int \<lceil>x / 360\<rceil>" "of_int \<lceil>x / 360\<rceil> < x / 360 + 1"
      by linarith+
    then show ?thesis using True unfolding r_def t by (intro conjI impI) linarith+
  next
    case False
    then have t: "trunc (x / 360) = \<lfloor>x / 360\<rfloor>" by (simp add: trunc_def)
    have "of_int \<lfloor>x / 360\<rfloor> \<le> x / 360" "x / 360 < of_int \<lfloor>x / 360\<rfloor> + 1"
      by linarith+
    then show ?thesis using False unfolding r_def t by (intro conjI impI) linarith+
  qed
  have "mod360 (Num x) = Num (if r < 0 then r + 360 else r)"
    by (simp add: mod360_def Let_def r_def)
  with assms have "y = (if r < 0 then r + 360 else r)" by simp
  with r show ?thesis by (simp split: if_splits)
qed

lemma hueJittered_range:
  assumes "hueJittered amt (Num x) (Num y)"
  shows "0 \<le> y \<and> y < 360"
proof -
  from assms obtain j where "Num y = mod360 (Num x + Num j)"
    unfolding hueJittered_def by blast
  then have "mod360 (Num (x + j)) = Num y" by simp
  then show ?thesis by (rule mod360_range)
qed

text \<open>With the state 1584200935 the draw is 1 and \<open>rng.int(0, 9)\<close> is 10: no case of
  the switch applies and the vector is returned as it is, none of its fields jittered,
  clamped or wrapped. For a vector whose fields lie outside their ranges the result is
  the mutation of no group.\<close>

lemma mutateParams_none_selected:
  "fst (RNG_int 0 9 (RNG_new 1584200935)) = 10
   \<and> fst (mutateParams (RNG_new 1584200935) wildParams) = wildParams
   \<and> \<not> mutated 0 wildParams wildParams \<and> \<not> mutated 1 wildParams wildParams
   \<and> \<not> mutated 2 wildParams wildParams \<and> \<not> mutated 3 wildParams wildParams
   \<and> \<not> mutated 4 wildParams wildParams \<and> \<not> mutated 5 wildParams wildParams
   \<and> \<not> mutated 6 wildParams wildParams \<and> \<not> mutated 7 wildParams wildParams
   \<and> \<not> mutated 8 wildParams wildParams \<and> \<not> mutated 9 wildParams wildParams"
proof -
  have draw: "fst (RNG_int 0 9 (RNG_new 1584200935)) = 10"
    by (simp add: RNG_int_0_9_max_iff RNG_new_def)
  then have same: "fst (mutateParams (RNG_new 1584200935) wildParams) = wildParams"
    by (rule mutateParams_no_group)
  have clamped: "\<not> jittered amt (Num lo) (Num hi) (Num 5) (Num 5)"
    if "lo \<le> hi" "hi < 5" for amt lo hi
    using jittered_range [of amt lo hi "Num 5" 5] that by auto
  have wrapped: "\<not> hueJittered amt (Num 400) (Num 400)" for amt
    using hueJittered_range [of amt 400 400] by auto
  have "\<not> mutated 0 wildParams wildParams"
    using clamped [of 0 1 "3 / 100"] by (simp add: mutated_def wildParams_def)
  moreover have "\<not> mutated 1 wildParams wildParams"
    using clamped [of 0 1 "1 / 25"] by (simp add: mutated_def wildParams_def)
  moreover have "\<not> mutated 2 wildParams wildParams"
    using wrapped [of 25] by (simp add: mutated_def wildParams_def)
  moreover have "\<not> mutated 3 wildParams wildParams"
    using wrapped [of 30] by (simp add: mutated_def wildParams_def)
  moreover have "\<not> mutated 4 wildParams wildParams"
    using wrapped [of 15] by (simp add: mutated_def wildParams_def)
  moreover have "\<not> mutated 5 wildParams wildParams"
    using clamped [of "3 / 50" "13 / 50" "3 / 100"] by (simp add: mutated_def wildParams_def)
  moreover have "\<not> mutated 6 wildParams wildParams"
    using wrapped [of 15] by (simp add: mutated_def wildParams_def)
  moreover have "\<not> mutated 7 wildParams wildParams"
    using clamped [of "1 / 100" "1 / 10" "1 / 50"] by (simp add: mutated_def wildParams_def)
  moreover have "\<not> mutated 8 wildParams wildParams"
    using clamped [of "1 / 50" "4 / 25" "3 / 100"] by (simp add: mutated_def wildParams_def)
  moreover have "\<not> mutated 9 wildParams wildParams"
    using wrapped [of 15] by (simp add: mutated_def wildParams_def)
  ultimately show ?thesis using draw same by simp
qed



section \<open>Determinism of the entry point\<close>

text \<open>
  Claim C1. With an explicit \<open>randomSeed\<close> the result of \<open>recommendTokensDual\<close> (both
  token sets, both scores, both reports and the meta data, or the error) is a function
  of the options alone: it is the same for every value that \<open>Math.random()\<close>, the only
  other input of the entry point, could return.
\<close>

theorem recommendTokensDual_deterministic:
  "opt_randomSeed opts = Some s \<Longrightarrow> recommendTokensDual r1 opts = recommendTokensDual r2 opts"
  by (simp add: recommendTokensDual_def orElse_def)

theorem recommendTokensDual_deterministic_witness:
  "opt_randomSeed readmeOptions = Some 42
   \<and> recommendTokensDual 0 readmeOptions = recommendTokensDual (1 / 2) readmeOptions"
proof -
  have seed: "opt_randomSeed readmeOptions = Some 42"
    by (simp add: readmeOptions_def)
  show ?thesis
    using seed recommendTokensDual_deterministic [OF seed, of 0 "1 / 2"] by simp
qed

section \<open>Well-formed hex colors\<close>

lemma upperChar_idem [simp]: "upperChar (upperChar c) = upperChar c"
proof (cases "97 \<le> (of_char c :: nat) \<and> (of_char c :: nat) \<le> 122")
  case True
  then have "(of_char c - 32 :: nat) < 256" by arith
  then have "(of_char c - 32 :: nat) mod 256 = of_char c - 32" by (rule mod_less)
  then have "(of_char (char_of (of_char c - 32 :: nat)) :: nat) = of_char c - 32" by simp
  moreover have "\<not> (97 \<le> (of_char c - 32 :: nat) \<and> (of_char c - 32 :: nat) \<le> 122)"
    using True by arith
  ultimately show ?thesis using True by (auto simp add: upperChar_def Let_def)
next
  case False
  then have "upperChar c = c" by (auto simp add: upperChar_def Let_def)
  then show ?thesis by simp
qed

lemma toUpperCase_idem [simp]: "toUpperCase (toUpperCase s) = toUpperCase s"
  by (simp add: toUpperCase_def)

lemma isHexDigit_upperChar: "isHexDigit c \<Longrightarrow> isHexDigit (upperChar c)"
  by (auto simp: isHexDigit_def hexDigitVal_def upperChar_def Let_def split: if_splits)

lemma upperChar_hash [simp]: "upperChar CHR ''#'' = CHR ''#''"
  by (simp add: upperChar_def)

lemma list_all_isHexDigit_toUpperCase:
  "list_all isHexDigit s \<Longrightarrow> list_all isHexDigit (toUpperCase s)"
  by (induction s) (simp_all add: toUpperCase_def isHexDigit_upperChar)

lemma isHexColor_toUpperCase: "isHexColor s \<Longrightarrow> isHexColor (toUpperCase s)"
  using list_all_isHexDigit_toUpperCase
  by (cases s) (auto simp: isHexColor_def toUpperCase_def)

lemma isHexColor_normalizeHex:
  assumes "validHexInput h"
  shows "isHexColor (normalizeHex h)"
proof (cases "startsWithHash (trim h)")
  case True
  then obtain t where t: "trim h = CHR ''#'' # t"
    by (cases "trim h") (simp_all add: startsWithHash_def)
  with assms have "length t = 6" "list_all isHexDigit t"
    by (simp_all add: validHexInput_def Let_def stripHash_def startsWithHash_def)
  then have "isHexColor (CHR ''#'' # toUpperCase t)"
    using list_all_isHexDigit_toUpperCase [of t] by (simp add: isHexColor_def toUpperCase_def)
  then show ?thesis
    using t by (simp add: normalizeHex_def Let_def startsWithHash_def toUpperCase_def)
next
  case False
  with assms have d: "length (trim h) = 6" "list_all isHexDigit (trim h)"
    by (simp_all add: validHexInput_def Let_def stripHash_def)
  have "\<not> startsWithHash (toUpperCase (trim h))"
  proof (cases "trim h")
    case Nil
    then show ?thesis by (simp add: startsWithHash_def toUpperCase_def)
  next
    case (Cons c t)
    with d(2) have "isHexDigit (upperChar c)" by (simp add: isHexDigit_upperChar)
    then have "upperChar c \<noteq> CHR ''#''" by (rule isHexDigit_not_special)
    then show ?thesis using Cons by (simp add: startsWithHash_def toUpperCase_def)
  qed
  moreover have "isHexColor (CHR ''#'' # toUpperCase (trim h))"
    using d list_all_isHexDigit_toUpperCase [of "trim h"]
    by (simp add: isHexColor_def toUpperCase_def)
  moreover have "toUpperCase (CHR ''#'' # toUpperCase (trim h)) = CHR ''#'' # toUpperCase (trim h)"
    by (simp add: toUpperCase_def)
  ultimately show ?thesis
    by (simp add: normalizeHex_def Let_def)
qed

lemma normalizeHex_rgbToHex [simp]: "normalizeHex (rgbToHex c) = rgbToHex c"
proof -
  have "toUpperCase (rgbToHex c) = rgbToHex c"
    by (simp add: rgbToHex_def Let_def)
  moreover have "startsWithHash (rgbToHex c)"
    by (simp add: rgbToHex_channels startsWithHash_def)
  ultimately show ?thesis by (simp add: normalizeHex_def Let_def)
qed

lemma list6:
  assumes "length t = 6"
  obtains c1 c2 c3 c4 c5 c6 where "t = [c1, c2, c3, c4, c5, c6]"
  using assms by (auto simp: numeral_eq_Suc length_Suc_conv)

lemma isHexDigit_val: "isHexDigit c \<Longrightarrow> \<exists>v. hexDigitVal c = Some v"
  by (simp add: isHexDigit_def)

lemma hexToRgb_isHexColor:
  assumes "isHexColor s"
  shows "\<exists>c. hexToRgb s = Inr c \<and> rgbFinite c"
proof -
  from assms obtain t where s: "s = CHR ''#'' # t" and len: "length t = 6"
    and dig: "list_all isHexDigit t"
    by (cases s) (auto simp: isHexColor_def)
  from len obtain c1 c2 c3 c4 c5 c6 where t: "t = [c1, c2, c3, c4, c5, c6]"
    by (rule list6)
  from dig t obtain v1 v2 v3 v4 v5 v6 where v:
    "hexDigitVal c1 = Some v1" "hexDigitVal c2 = Some v2" "hexDigitVal c3 = Some v3"
    "hexDigitVal c4 = Some v4" "hexDigitVal c5 = Some v5" "hexDigitVal c6 = Some v6"
    by (auto simp: isHexDigit_def)
  have "isHexDigit c6" using dig t by simp
  then have "\<not> isWhiteSpace c6" by (rule isHexDigit_not_special)
  then have tr: "trim s = s"
    by (intro trim_id) (simp_all add: s t isWhiteSpace_def)
  have "hexToRgb s = Inr \<lparr>rgb_r = Num (real (16 * v1 + v2)) / 255,
      rgb_g = Num (real (16 * v3 + v4)) / 255, rgb_b = Num (real (16 * v5 + v6)) / 255\<rparr>"
    using parseInt16_two_digits [OF v(1,2)] parseInt16_two_digits [OF v(3,4)]
      parseInt16_two_digits [OF v(5,6)]
    by (simp add: hexToRgb_def Let_def tr) (simp add: s t stripHash_def startsWithHash_def slice_def)
  then show ?thesis by (simp add: rgbFinite_def)
qed

lemma bindE_Inr [simp]: "bindE (Inr x) f = f x"
  by (simp add: bindE_def)

lemma bindE_Inl [simp]: "bindE (Inl e) f = Inl e"
  by (simp add: bindE_def)

lemma bindE_eq_Inr: "bindE m f = Inr y \<longleftrightarrow> (\<exists>x. m = Inr x \<and> f x = Inr y)"
  by (cases m) simp_all

lemma hexToOklch_isHexColor:
  assumes "isHexColor s"
  shows "\<exists>c. hexToOklch s = Inr c \<and> lchFinite c"
proof -
  from hexToRgb_isHexColor [OF assms] obtain c where "hexToRgb s = Inr c" "rgbFinite c"
    by blast
  then show ?thesis by (simp add: hexToOklch_def)
qed

lemma hexToRgb_rgbToHex_Inr: "hexToRgb (rgbToHex c) = Inr x \<Longrightarrow> rgbFinite c"
  using hexToRgb_rgbToHex_NaN [of c] by (cases "rgbFinite c") simp_all

lemma hexToOklch_rgbToHex_Inr: "hexToOklch (rgbToHex c) = Inr x \<Longrightarrow> rgbFinite c"
  by (auto simp: hexToOklch_def bindE_eq_Inr dest: hexToRgb_rgbToHex_Inr)

lemma hex_oklchToHex: "hex (oklchToHex c) = rgbToHex (linearRgbToRgb (oklabToLinearRgb (oklchToOklab c)))"
  by (simp add: oklchToHex_def Let_def)

lemma isHexColor_oklchToHex [simp]: "isHexColor (hex (oklchToHex c)) = lchFinite c"
  by (simp add: hex_oklchToHex)

lemma lchFinite_lch [simp]: "lchFinite (lch L C H) = (isNum L \<and> isNum C \<and> isNum H)"
  by (simp add: lchFinite_def lch_def)

lemma hexToRgb_oklchToHex_Inr: "hexToRgb (hex (oklchToHex c)) = Inr x \<Longrightarrow> lchFinite c"
  by (auto simp: hex_oklchToHex dest: hexToRgb_rgbToHex_Inr)

lemma hexToOklch_oklchToHex_Inr: "hexToOklch (hex (oklchToHex c)) = Inr x \<Longrightarrow> lchFinite c"
  by (auto simp: hex_oklchToHex dest: hexToOklch_rgbToHex_Inr)

section \<open>Derived colors are well formed\<close>

lemma validHexInput_isHexColor: "isHexColor h \<Longrightarrow> validHexInput h"
proof -
  assume a: "isHexColor h"
  then obtain t where h: "h = CHR ''#'' # t" and len: "length t = 6"
    and dig: "list_all isHexDigit t"
    by (cases h) (auto simp: isHexColor_def)
  from len obtain c1 c2 c3 c4 c5 c6 where t: "t = [c1, c2, c3, c4, c5, c6]"
    by (rule list6)
  have "isHexDigit c6" using dig t by simp
  then have "\<not> isWhiteSpace c6" by (rule isHexDigit_not_special)
  then have "trim h = h"
    by (intro trim_id) (simp_all add: h t isWhiteSpace_def)
  then show ?thesis
    using len dig by (simp add: validHexInput_def Let_def h stripHash_def startsWithHash_def)
qed

lemma isHexColor_normalizeHex_color: "isHexColor h \<Longrightarrow> isHexColor (normalizeHex h)"
  by (intro isHexColor_normalizeHex validHexInput_isHexColor)

lemma isHexColor_literals [simp]:
  "isHexColor ''#000000''" "isHexColor ''#FFFFFF''" "isHexColor ''#9AA0A6''" "isHexColor ''#6B7280''"
  by (simp_all add: isHexColor_def isHexDigit_def hexDigitVal_def)

lemma lchFiniteD: "lchFinite c \<Longrightarrow> isNum (lch_L c) \<and> isNum (lch_C c) \<and> isNum (lch_H c)"
  by (simp add: lchFinite_def)

lemma pickTextOn_valid: "pickTextOn h = Inr s \<Longrightarrow> isHexColor s"
  by (auto simp: pickTextOn_def bindE_eq_Inr Let_def split: if_splits)

lemma pickTextOn_parses: "pickTextOn h = Inr s \<Longrightarrow> \<exists>c. hexToRgb h = Inr c"
  by (auto simp: pickTextOn_def bindE_eq_Inr)

lemma pickTextOn_total: "isHexColor h \<Longrightarrow> \<exists>s. pickTextOn h = Inr s"
  using hexToRgb_isHexColor [of h] by (auto simp: pickTextOn_def Let_def)

lemma deriveFillStates_valid:
  assumes "deriveFillStates h m = Inr fs" "isHexColor h"
  shows "isHexColor (fs_hover fs) \<and> isHexColor (fs_pressed fs) \<and> isHexColor (fs_disabled fs)"
proof -
  from hexToOklch_isHexColor [OF assms(2)] obtain c where c: "hexToOklch h = Inr c" "lchFinite c"
    by blast
  with assms(1) lchFiniteD [OF c(2)] show ?thesis
    by (auto simp: deriveFillStates_def Let_def)
qed

lemma deriveFillStates_parses: "deriveFillStates h m = Inr fs \<Longrightarrow> \<exists>c. hexToOklch h = Inr c"
  by (auto simp: deriveFillStates_def bindE_eq_Inr)

lemma deriveFillStates_total: "isHexColor h \<Longrightarrow> \<exists>fs. deriveFillStates h m = Inr fs"
  using hexToOklch_isHexColor [of h] by (auto simp: deriveFillStates_def Let_def)

lemma deriveSubtleBg_valid:
  assumes "deriveSubtleBg h bgHex m = Inr s" "isHexColor h" "isHexColor bgHex"
  shows "isHexColor s"
proof -
  from hexToOklch_isHexColor [OF assms(2)] obtain c where c: "hexToOklch h = Inr c" "lchFinite c"
    by blast
  from hexToOklch_isHexColor [OF assms(3)] obtain d where d: "hexToOklch bgHex = Inr d" "lchFinite d"
    by blast
  from assms(1) c d lchFiniteD [OF c(2)] lchFiniteD [OF d(2)] show ?thesis
    by (auto simp: deriveSubtleBg_def Let_def)
qed

lemma deriveSubtleBg_total:
  "isHexColor h \<Longrightarrow> isHexColor bgHex \<Longrightarrow> \<exists>s. deriveSubtleBg h bgHex m = Inr s"
  using hexToOklch_isHexColor [of h] hexToOklch_isHexColor [of bgHex]
  by (auto simp: deriveSubtleBg_def Let_def)

lemma deriveBorderFrom_valid:
  assumes "deriveBorderFrom h m d hue = Inr s" "isHexColor h" "isNum d" "isNum hue"
  shows "isHexColor s"
proof -
  from hexToOklch_isHexColor [OF assms(2)] obtain c where c: "hexToOklch h = Inr c" "lchFinite c"
    by blast
  with assms lchFiniteD [OF c(2)] show ?thesis
    by (auto simp: deriveBorderFrom_def Let_def)
qed

lemma deriveBorderFrom_parses:
  "deriveBorderFrom h m d hue = Inr s \<Longrightarrow> \<exists>c. hexToOklch h = Inr c"
  by (auto simp: deriveBorderFrom_def bindE_eq_Inr)

lemma deriveBorderFrom_total: "isHexColor h \<Longrightarrow> \<exists>s. deriveBorderFrom h m d hue = Inr s"
  using hexToOklch_isHexColor [of h] by (auto simp: deriveBorderFrom_def Let_def)

lemma deriveFocusRing_valid:
  assumes "deriveFocusRing h m cBoost targetL = Inr s" "isHexColor h" "isNum cBoost" "isNum targetL"
  shows "isHexColor s"
proof -
  from hexToOklch_isHexColor [OF assms(2)] obtain c where c: "hexToOklch h = Inr c" "lchFinite c"
    by blast
  with assms lchFiniteD [OF c(2)] show ?thesis
    by (auto simp: deriveFocusRing_def Let_def)
qed

lemma deriveFocusRing_total: "isHexColor h \<Longrightarrow> \<exists>s. deriveFocusRing h m cBoost targetL = Inr s"
  using hexToOklch_isHexColor [of h] by (auto simp: deriveFocusRing_def Let_def)

lemma buildSemanticStates_valid:
  assumes "buildSemanticStates baseHex bgHex m = Inr s" "isHexColor baseHex" "isHexColor bgHex"
  shows "semanticStatesValid s"
proof -
  let ?base = "normalizeHex baseHex"
  have base: "isHexColor ?base"
    using assms(2) by (rule isHexColor_normalizeHex_color)
  from assms(1) obtain onBaseText subtleBg baseLch border' states' where parts:
    "pickTextOn ?base = Inr onBaseText"
    "deriveSubtleBg ?base bgHex m = Inr subtleBg"
    "hexToOklch ?base = Inr baseLch"
    "deriveBorderFrom subtleBg m 0.04 (lch_H baseLch) = Inr border'"
    "deriveFillStates ?base m = Inr states'"
    and s: "s = \<lparr>sem_base = ?base, sem_onBaseText = onBaseText, sem_subtleBg = subtleBg,
              sem_subtleText = normalizeHex ?base, sem_border = border',
              sem_hover = fs_hover states', sem_pressed = fs_pressed states'\<rparr>"
    by (auto simp: buildSemanticStates_def Let_def bindE_eq_Inr)
  have fin: "lchFinite baseLch"
    using hexToOklch_isHexColor [OF base] parts(3) by auto
  have sub: "isHexColor subtleBg"
    using parts(2) base assms(3) by (rule deriveSubtleBg_valid)
  have "isHexColor border'"
    using sub lchFiniteD [OF fin] by (intro deriveBorderFrom_valid [OF parts(4)]) simp_all
  moreover have "isHexColor onBaseText"
    using parts(1) by (rule pickTextOn_valid)
  moreover have "isHexColor (normalizeHex ?base)"
    using base by (rule isHexColor_normalizeHex_color)
  moreover note deriveFillStates_valid [OF parts(5) base]
  ultimately show ?thesis
    using base sub by (simp add: s semanticStatesValid_def)
qed

lemma buildSemanticStates_total:
  assumes "isHexColor baseHex" "isHexColor bgHex"
  shows "\<exists>s. buildSemanticStates baseHex bgHex m = Inr s"
proof -
  let ?base = "normalizeHex baseHex"
  have base: "isHexColor ?base"
    using assms(1) by (rule isHexColor_normalizeHex_color)
  from pickTextOn_total [OF base] obtain onBaseText where 1: "pickTextOn ?base = Inr onBaseText"
    by blast
  from deriveSubtleBg_total [OF base assms(2)] obtain subtleBg where
    2: "deriveSubtleBg ?base bgHex m = Inr subtleBg" by blast
  have sub: "isHexColor subtleBg"
    using 2 base assms(2) by (rule deriveSubtleBg_valid)
  from hexToOklch_isHexColor [OF base] obtain baseLch where 3: "hexToOklch ?base = Inr baseLch"
    by blast
  from deriveBorderFrom_total [OF sub] obtain border' where
    4: "deriveBorderFrom subtleBg m 0.04 (lch_H baseLch) = Inr border'" by blast
  from deriveFillStates_total [OF base] obtain states' where
    5: "deriveFillStates ?base m = Inr states'" by blast
  show ?thesis
    using 1 2 3 4 5 by (simp add: buildSemanticStates_def Let_def)
qed

section \<open>Token sets are well formed\<close>

lemma paramsBaseD:
  assumes "paramsBase p"
  shows "isNum (neutralC p)" "isNum (bgL p)" "isNum (surfaceDeltaL p)" "isNum (surface2DeltaL p)"
    "isNum (textPrimaryL p)" "isNum (textSecondaryL p)" "isNum (textTertiaryL p)"
    "isNum (secondaryC p)" "isNum (secondaryL p)" "isNum (accentC p)" "isNum (accentL p)"
    "isNum (successHue p)" "isNum (warningHue p)" "isNum (dangerHue p)" "isNum (infoHue p)"
    "isNum (semanticC p)" "isNum (successL p)" "isNum (warningL p)" "isNum (dangerL p)"
    "isNum (infoL p)" "isNum (borderDeltaL p)" "isNum (dividerDeltaL p)"
    "isNum (focusCBoost p)" "isNum (focusL p)"
  using assms by (simp_all add: paramsBase_def)

lemma buildTokens_valid:
  assumes base: "paramsBase p" and prim: "validHexInput primaryHexFixed"
    and build: "buildTokens p m primaryHexFixed = Inr b"
  shows "tokensValid (b_tokens b)"
proof -
  note pb = paramsBaseD [OF base]
  let ?bg = "oklchToHex (lch (bgL p) (neutralC p) (neutralHue p))"
  let ?surface = "oklchToHex
      (lch (clamp (bgL p + (if m = Light then - surfaceDeltaL p else surfaceDeltaL p)) 0 1)
           (neutralC p * 1.05) (neutralHue p))"
  let ?surface2 = "oklchToHex
      (lch (clamp (bgL p + (if m = Light then - surface2DeltaL p else surface2DeltaL p)) 0 1)
           (neutralC p * 1.1) (neutralHue p))"
  let ?textPrimary = "oklchToHex (lch (textPrimaryL p) (neutralC p * 0.12) (neutralHue p))"
  let ?textSecondary = "oklchToHex (lch (textSecondaryL p) (neutralC p * 0.14) (neutralHue p))"
  let ?textTertiary = "oklchToHex (lch (textTertiaryL p) (neutralC p * 0.16) (neutralHue p))"
  let ?secondary = "oklchToHex (lch (secondaryL p) (secondaryC p) (secondaryHue p))"
  let ?accent = "oklchToHex (lch (accentL p) (accentC p) (accentHue p))"
  let ?primaryHex = "normalizeHex primaryHexFixed"
  let ?focusSource = "if focusFrom p = Some ''primary'' then ?primaryHex else hex ?accent"
  let ?disabledText = "if m = Light then ''#9AA0A6'' else ''#6B7280''"
  let ?successBase = "oklchToHex (lch (successL p) (semanticC p) (successHue p))"
  let ?warningBase = "oklchToHex (lch (warningL p) (semanticC p) (warningHue p))"
  let ?dangerBase = "oklchToHex (lch (dangerL p) (semanticC p) (dangerHue p))"
  let ?infoBase = "oklchToHex (lch (infoL p) (semanticC p) (infoHue p))"
  from build obtain primaryLch border' divider' focusRing' primaryText' primaryStates
    secondaryTextOn secondaryStates semSuccess semWarning semDanger semInfo accentText'
    where parts:
      "hexToOklch ?primaryHex = Inr primaryLch"
      "deriveBorderFrom (hex ?surface) m (borderDeltaL p) (neutralHue p) = Inr border'"
      "deriveBorderFrom (hex ?surface2) m (dividerDeltaL p) (neutralHue p) = Inr divider'"
      "deriveFocusRing ?focusSource m (focusCBoost p) (focusL p) = Inr focusRing'"
      "pickTextOn ?primaryHex = Inr primaryText'"
      "deriveFillStates ?primaryHex m = Inr primaryStates"
      "pickTextOn (hex ?secondary) = Inr secondaryTextOn"
      "deriveFillStates (hex ?secondary) m = Inr secondaryStates"
      "buildSemanticStates (hex ?successBase) (hex ?bg) m = Inr semSuccess"
      "buildSemanticStates (hex ?warningBase) (hex ?bg) m = Inr semWarning"
      "buildSemanticStates (hex ?dangerBase) (hex ?bg) m = Inr semDanger"
      "buildSemanticStates (hex ?infoBase) (hex ?bg) m = Inr semInfo"
      "pickTextOn (hex ?accent) = Inr accentText'"
    and tokens:
      "b_tokens b =
         \<lparr>tk_mode = m, background = hex ?bg, surface = hex ?surface, surface2 = hex ?surface2,
          textPrimary = hex ?textPrimary, textSecondary = hex ?textSecondary,
          textTertiary = hex ?textTertiary, primary = ?primaryHex, primaryText = primaryText',
          secondary = hex ?secondary, secondaryText = secondaryTextOn, accent = hex ?accent,
          accentText = accentText', border = border', divider = divider',
          focusRing = focusRing',
          buttonPrimary =
            \<lparr>btn_bg = ?primaryHex, btn_text = primaryText',
             btn_hoverBg = fs_hover primaryStates, btn_pressedBg = fs_pressed primaryStates,
             btn_disabledBg = fs_disabled primaryStates, btn_disabledText = ?disabledText\<rparr>,
          buttonSecondary =
            \<lparr>btn_bg = hex ?secondary, btn_text = secondaryTextOn,
             btn_hoverBg = fs_hover secondaryStates, btn_pressedBg = fs_pressed secondaryStates,
             btn_disabledBg = fs_disabled secondaryStates, btn_disabledText = ?disabledText\<rparr>,
          semantic = \<lparr>success = semSuccess, warning = semWarning, danger = semDanger,
                      info = semInfo\<rparr>\<rparr>"
    unfolding buildTokens_def Let_def bindE_eq_Inr by auto
  \<comment> \<open>the hues that may be NaN are numbers, since the colors built from them were parsed\<close>
  from deriveBorderFrom_parses [OF parts(2)] obtain c1 where "hexToOklch (hex ?surface) = Inr c1"
    by blast
  then have "lchFinite
      (lch (clamp (bgL p + (if m = Light then - surfaceDeltaL p else surfaceDeltaL p)) 0 1)
           (neutralC p * 1.05) (neutralHue p))"
    by (rule hexToOklch_oklchToHex_Inr)
  then have neutral: "isNum (neutralHue p)" by simp
  from pickTextOn_parses [OF parts(7)] obtain c2 where "hexToRgb (hex ?secondary) = Inr c2"
    by blast
  then have "lchFinite (lch (secondaryL p) (secondaryC p) (secondaryHue p))"
    by (rule hexToRgb_oklchToHex_Inr)
  then have sec: "isNum (secondaryHue p)" by simp
  from pickTextOn_parses [OF parts(13)] obtain c3 where "hexToRgb (hex ?accent) = Inr c3"
    by blast
  then have "lchFinite (lch (accentL p) (accentC p) (accentHue p))"
    by (rule hexToRgb_oklchToHex_Inr)
  then have acc: "isNum (accentHue p)" by simp
  have primary: "isHexColor ?primaryHex"
    using prim by (rule isHexColor_normalizeHex)
  have layers: "isHexColor (hex ?bg)" "isHexColor (hex ?surface)" "isHexColor (hex ?surface2)"
    "isHexColor (hex ?textPrimary)" "isHexColor (hex ?textSecondary)" "isHexColor (hex ?textTertiary)"
    "isHexColor (hex ?secondary)" "isHexColor (hex ?accent)"
    using pb neutral sec acc by simp_all
  have bases: "isHexColor (hex ?successBase)" "isHexColor (hex ?warningBase)"
    "isHexColor (hex ?dangerBase)" "isHexColor (hex ?infoBase)"
    using pb by simp_all
  have focusSource: "isHexColor ?focusSource"
    using primary layers(8) by simp
  have disabledText: "isHexColor ?disabledText" by simp
  have derived: "isHexColor border'" "isHexColor divider'" "isHexColor focusRing'"
    "isHexColor primaryText'" "isHexColor secondaryTextOn" "isHexColor accentText'"
    using deriveBorderFrom_valid [OF parts(2) layers(2) pb(21) neutral]
      deriveBorderFrom_valid [OF parts(3) layers(3) pb(22) neutral]
      deriveFocusRing_valid [OF parts(4) focusSource pb(23) pb(24)]
      pickTextOn_valid [OF parts(5)] pickTextOn_valid [OF parts(7)] pickTextOn_valid [OF parts(13)]
    by simp_all
  have buttons: "buttonValid (buttonPrimary (b_tokens b))" "buttonValid (buttonSecondary (b_tokens b))"
    using deriveFillStates_valid [OF parts(6) primary] deriveFillStates_valid [OF parts(8) layers(7)]
      primary layers(7) derived disabledText
    by (simp_all add: tokens buttonValid_def)
  have sems: "semanticStatesValid semSuccess" "semanticStatesValid semWarning"
    "semanticStatesValid semDanger" "semanticStatesValid semInfo"
    using buildSemanticStates_valid [OF parts(9) bases(1) layers(1)]
      buildSemanticStates_valid [OF parts(10) bases(2) layers(1)]
      buildSemanticStates_valid [OF parts(11) bases(3) layers(1)]
      buildSemanticStates_valid [OF parts(12) bases(4) layers(1)]
    by simp_all
  show ?thesis
    using layers primary derived buttons sems
    by (simp add: tokensValid_def tokens)
qed

section \<open>Parameter vectors of the search\<close>

lemma isNum_semanticHue [simp]: "isNum (fst (semanticHue c base d rng))"
  by (simp add: semanticHue_def case_prod_beta)

lemma initParams_paramsBase: "paramsBase (fst (initParams rng m seedHex pv sc))"
  by (simp add: initParams_def case_prod_beta Let_def paramsBase_def)

lemma isNum_jitter [simp]: "isNum (fst (jitter x amt rng)) = isNum x"
  by (simp add: jitter_def case_prod_beta)

lemma mutateParams_paramsBase: "paramsBase p \<Longrightarrow> paramsBase (fst (mutateParams rng p))"
  by (simp add: mutateParams_def case_prod_beta Let_def paramsBase_def)

lemma mutateParams_paramsFinite: "paramsFinite p \<Longrightarrow> paramsFinite (fst (mutateParams rng p))"
  by (simp add: mutateParams_def case_prod_beta Let_def paramsFinite_def paramsBase_def)

lemma reachable_paramsBase: "reachable p \<Longrightarrow> paramsBase p"
  by (induction rule: reachable.induct) (simp_all add: initParams_paramsBase mutateParams_paramsBase)


lemma buildTokens_total:
  assumes fin: "paramsFinite p" and prim: "validHexInput primaryHexFixed"
  shows "\<exists>b. buildTokens p m primaryHexFixed = Inr b"
proof -
  have base: "paramsBase p" and hues: "isNum (neutralHue p)" "isNum (secondaryHue p)"
    "isNum (accentHue p)"
    using fin by (simp_all add: paramsFinite_def)
  note pb = paramsBaseD [OF base]
  let ?bg = "oklchToHex (lch (bgL p) (neutralC p) (neutralHue p))"
  let ?surface = "oklchToHex
      (lch (clamp (bgL p + (if m = Light then - surfaceDeltaL p else surfaceDeltaL p)) 0 1)
           (neutralC p * 1.05) (neutralHue p))"
  let ?surface2 = "oklchToHex
      (lch (clamp (bgL p + (if m = Light then - surface2DeltaL p else surface2DeltaL p)) 0 1)
           (neutralC p * 1.1) (neutralHue p))"
  let ?secondary = "oklchToHex (lch (secondaryL p) (secondaryC p) (secondaryHue p))"
  let ?accent = "oklchToHex (lch (accentL p) (accentC p) (accentHue p))"
  let ?primaryHex = "normalizeHex primaryHexFixed"
  let ?focusSource = "if focusFrom p = Some ''primary'' then ?primaryHex else hex ?accent"
  let ?successBase = "oklchToHex (lch (successL p) (semanticC p) (successHue p))"
  let ?warningBase = "oklchToHex (lch (warningL p) (semanticC p) (warningHue p))"
  let ?dangerBase = "oklchToHex (lch (dangerL p) (semanticC p) (dangerHue p))"
  let ?infoBase = "oklchToHex (lch (infoL p) (semanticC p) (infoHue p))"
  have primary: "isHexColor ?primaryHex"
    using prim by (rule isHexColor_normalizeHex)
  have colors: "isHexColor (hex ?bg)" "isHexColor (hex ?surface)" "isHexColor (hex ?surface2)"
    "isHexColor (hex ?secondary)" "isHexColor (hex ?accent)"
    "isHexColor (hex ?successBase)" "isHexColor (hex ?warningBase)"
    "isHexColor (hex ?dangerBase)" "isHexColor (hex ?infoBase)"
    using pb hues by simp_all
  have focusSource: "isHexColor ?focusSource"
    using primary colors(5) by simp
  from hexToOklch_isHexColor [OF primary] obtain primaryLch where
    1: "hexToOklch ?primaryHex = Inr primaryLch" by blast
  from deriveBorderFrom_total [OF colors(2)] obtain border' where
    2: "deriveBorderFrom (hex ?surface) m (borderDeltaL p) (neutralHue p) = Inr border'" by blast
  from deriveBorderFrom_total [OF colors(3)] obtain divider' where
    3: "deriveBorderFrom (hex ?surface2) m (dividerDeltaL p) (neutralHue p) = Inr divider'" by blast
  from deriveFocusRing_total [OF focusSource] obtain focusRing' where
    4: "deriveFocusRing ?focusSource m (focusCBoost p) (focusL p) = Inr focusRing'" by blast
  from pickTextOn_total [OF primary] obtain primaryText' where
    5: "pickTextOn ?primaryHex = Inr primaryText'" by blast
  from deriveFillStates_total [OF primary] obtain primaryStates where
    6: "deriveFillStates ?primaryHex m = Inr primaryStates" by blast
  from pickTextOn_total [OF colors(4)] obtain secondaryTextOn where
    7: "pickTextOn (hex ?secondary) = Inr secondaryTextOn" by blast
  from deriveFillStates_total [OF colors(4)] obtain secondaryStates where
    8: "deriveFillStates (hex ?secondary) m = Inr secondaryStates" by blast
  from buildSemanticStates_total [OF colors(6) colors(1)] obtain semSuccess where
    9: "buildSemanticStates (hex ?successBase) (hex ?bg) m = Inr semSuccess" by blast
  from buildSemanticStates_total [OF colors(7) colors(1)] obtain semWarning where
    10: "buildSemanticStates (hex ?warningBase) (hex ?bg) m = Inr semWarning" by blast
  from buildSemanticStates_total [OF colors(8) colors(1)] obtain semDanger where
    11: "buildSemanticStates (hex ?dangerBase) (hex ?bg) m = Inr semDanger" by blast
  from buildSemanticStates_total [OF colors(9) colors(1)] obtain semInfo where
    12: "buildSemanticStates (hex ?infoBase) (hex ?bg) m = Inr semInfo" by blast
  from pickTextOn_total [OF colors(5)] obtain accentText' where
    13: "pickTextOn (hex ?accent) = Inr accentText'" by blast
  show ?thesis
    using 1 2 3 4 5 6 7 8 9 10 11 12 13
    by (simp add: buildTokens_def Let_def)
qed

lemma state_RNG_new [simp]: "state (RNG_new seed) = word_of_int seed"
  by (simp add: RNG_new_def)

lemma state_snd_RNG_next [simp]: "state (snd (RNG_next rng)) = xorshift (state rng)"
  by (simp add: RNG_next_def Let_def)

lemma snd_RNG_float [simp]: "snd (RNG_float lo hi rng) = snd (RNG_next rng)"
  by (simp add: RNG_float_def case_prod_beta)

lemma snd_RNG_int [simp]: "snd (RNG_int lo hi rng) = snd (RNG_next rng)"
  by (simp add: RNG_int_def case_prod_beta)

lemma snd_floatByMode [simp]: "snd (floatByMode c a b a' b' rng) = snd (RNG_next rng)"
  by (simp add: floatByMode_def)

lemma snd_semanticHue [simp]: "snd (semanticHue c base d rng) = snd (RNG_next rng)"
  by (simp add: semanticHue_def case_prod_beta)

lemma snd_RNG_pick [simp]: "snd (RNG_pick arr rng) = snd (RNG_next rng)"
  by (simp add: RNG_pick_def case_prod_beta)

lemma fst_RNG_int:
  "fst (RNG_int lo hi rng)
   = \<lfloor>real (unat (xorshift (state rng))) / 4294967295 * real_of_int (hi - lo + 1)\<rfloor> + lo"
  by (simp add: RNG_int_def RNG_next_def case_prod_beta Let_def)

lemma xorshift_numeral [simp]:
  "xorshift (numeral k) =
     (let x1 = numeral k XOR push_bit 13 (numeral k);
          x2 = x1 XOR drop_bit 17 x1;
          x3 = x2 XOR push_bit 5 x2
      in x3)"
  by (rule xorshift_def)

lemma skip_0 [simp]: "skip 0 rng = rng"
  by (simp add: skip_def)

lemma skip_Suc: "skip (Suc n) rng = snd (RNG_next (skip n rng))"
  by (simp add: skip_def)

lemma skip_next: "snd (RNG_next (skip n rng)) = skip (Suc n) rng"
  by (simp add: skip_def)

lemma skip_next0: "snd (RNG_next rng) = skip 1 rng"
  by (simp add: skip_def)

lemma state_skip: "state (skip n rng) = (xorshift ^^ n) (state rng)"
  by (induction n) (simp_all add: skip_Suc)

lemma funpow_numeral_unfold: "(f ^^ numeral k) x = f ((f ^^ pred_numeral k) x)"
  by (simp add: numeral_eq_Suc)

lemma funpow_12_42: "(xorshift ^^ 12) 42 = 3379058227"
  by (simp add: funpow_numeral_unfold)

lemma skip_numeral_eval:
  "fst (RNG_int 0 3 (skip 12 (RNG_new 42))) = 2"
  by (simp add: fst_RNG_int state_skip funpow_12_42)

lemma initParams_accentStrategy:
  assumes "fst (RNG_int 0 3 (skip 12 rng)) \<noteq> 3"
  shows "paramsFinite (fst (initParams rng m None pv sc))"
proof -
  have "isNum (accentHue (fst (initParams rng m None pv sc)))"
    using assms
    by (simp add: initParams_def case_prod_beta Let_def truthy_def skip_def eval_nat_numeral)
  moreover have "isNum (seedHue (fst (initParams rng m None pv sc)))"
    "isNum (neutralHue (fst (initParams rng m None pv sc)))"
    "isNum (secondaryHue (fst (initParams rng m None pv sc)))"
    by (simp_all add: initParams_def case_prod_beta Let_def truthy_def)
  ultimately show ?thesis
    using initParams_paramsBase [of rng m None pv sc] by (simp add: paramsFinite_def)
qed

lemma validHexInput_readme: "validHexInput ''#5B5FF5''"
  by (simp add: validHexInput_def Let_def trim_def isWhiteSpace_def stripHash_def
      startsWithHash_def isHexDigit_def hexDigitVal_def)

text \<open>
  Claim C6. For every parameter vector reachable through \<open>initParams\<close> and
  \<open>mutateParams\<close>, either mode, and every primary input that is six hexadecimal digits
  with an optional leading \<open>#\<close>, every color-valued field of the token set that
  \<open>buildTokens\<close> returns (the two button groups and the four semantic groups included)
  is \<open>#\<close> followed by six hexadecimal digits.
\<close>

theorem buildTokens_fields_valid:
  assumes "reachable p" and "validHexInput primaryHexFixed"
    and "buildTokens p m primaryHexFixed = Inr b"
  shows "tokensValid (b_tokens b)"
  using reachable_paramsBase [OF assms(1)] assms(2,3) by (rule buildTokens_valid)

theorem buildTokens_fields_valid_witness:
  "\<exists>b. buildTokens (fst (initParams (RNG_new 42) Light None True True)) Light ''#5B5FF5'' = Inr b
       \<and> tokensValid (b_tokens b)"
proof -
  let ?p = "fst (initParams (RNG_new 42) Light None True True)"
  have reach: "reachable ?p" by (rule reachable.init)
  have fin: "paramsFinite ?p"
    by (rule initParams_accentStrategy) (simp add: skip_numeral_eval)
  from buildTokens_total [OF fin validHexInput_readme]
  obtain b where b: "buildTokens ?p Light ''#5B5FF5'' = Inr b" by blast
  from buildTokens_fields_valid [OF reach validHexInput_readme b] b show ?thesis by blast
qed

section \<open>Scoring a well-formed token set returns\<close>

lemma mapE_total:
  assumes "\<And>x. x \<in> set xs \<Longrightarrow> \<exists>y. f x = Inr y"
  shows "\<exists>ys. mapE f xs = Inr ys"
  using assms
proof (induction xs)
  case Nil
  show ?case by simp
next
  case (Cons x xs)
  from Cons.prems obtain y where "f x = Inr y" by auto
  moreover from Cons obtain ys where "mapE f xs = Inr ys" by auto
  ultimately show ?case by simp
qed

lemma mapE_all:
  assumes "mapE f xs = Inr ys" and "\<And>x y. x \<in> set xs \<Longrightarrow> f x = Inr y \<Longrightarrow> P y"
  shows "list_all P ys \<and> length ys = length xs"
  using assms
proof (induction xs arbitrary: ys)
  case Nil
  then show ?case by simp
next
  case (Cons x xs)
  from Cons.prems(1) obtain y ys' where parts: "f x = Inr y" "mapE f xs = Inr ys'" "ys = y # ys'"
    by (auto simp: bindE_eq_Inr)
  have "P y" using Cons.prems(2) [of x y] parts(1) by simp
  moreover have "list_all P ys' \<and> length ys' = length xs"
    using parts(2) Cons.prems(2) by (intro Cons.IH) auto
  ultimately show ?case using parts(3) by simp
qed

lemma applyCvd_valid:
  assumes "isHexColor h" "validCvdMode m"
  shows "\<exists>s. applyCvd h m = Inr s \<and> isHexColor s"
proof (cases "m = ''none''")
  case True
  then show ?thesis using assms(1) by (simp add: applyCvd_def isHexColor_toUpperCase)
next
  case False
  from hexToRgb_isHexColor [OF assms(1)] obtain c where c: "hexToRgb h = Inr c" "rgbFinite c"
    by blast
  from False assms(2) have "m = ''protan'' \<or> m = ''deutan'' \<or> m = ''tritan''"
    by (simp add: validCvdMode_def)
  then show ?thesis
    using c by (auto simp: applyCvd_def CVD_MATS_def Let_def rgbFinite_def)
qed

lemma contrastRatio_total:
  assumes "isHexColor a" "isHexColor b"
  shows "\<exists>r. contrastRatio a b = Inr r"
  using hexToRgb_isHexColor [OF assms(1)] hexToRgb_isHexColor [OF assms(2)]
  by (auto simp: contrastRatio_def Let_def)

lemma addCheck_total:
  assumes "isHexColor fg" "isHexColor bg" "validCvdMode m"
  shows "\<exists>c. addCheck m (pair, fg, bg, minRatio) = Inr c"
proof -
  from applyCvd_valid [OF assms(1,3)] obtain fg' where 1: "applyCvd fg m = Inr fg'" "isHexColor fg'"
    by blast
  from applyCvd_valid [OF assms(2,3)] obtain bg' where 2: "applyCvd bg m = Inr bg'" "isHexColor bg'"
    by blast
  from contrastRatio_total [OF 1(2) 2(2)] obtain r where "contrastRatio fg' bg' = Inr r" by blast
  with 1 2 show ?thesis by (simp add: addCheck_def)
qed

lemma tokensValidD:
  assumes "tokensValid t"
  shows "isHexColor (background t)" "isHexColor (surface t)" "isHexColor (surface2 t)"
    "isHexColor (textPrimary t)" "isHexColor (textSecondary t)" "isHexColor (textTertiary t)"
    "isHexColor (primary t)" "isHexColor (primaryText t)"
    "isHexColor (secondary t)" "isHexColor (secondaryText t)"
    "isHexColor (accent t)" "isHexColor (accentText t)"
    "isHexColor (btn_text (buttonPrimary t))" "isHexColor (btn_hoverBg (buttonPrimary t))"
    "isHexColor (btn_pressedBg (buttonPrimary t))"
    "isHexColor (btn_text (buttonSecondary t))" "isHexColor (btn_hoverBg (buttonSecondary t))"
    "isHexColor (btn_pressedBg (buttonSecondary t))"
    "isHexColor (sem_subtleText (success (semantic t)))" "isHexColor (sem_subtleBg (success (semantic t)))"
    "isHexColor (sem_subtleText (warning (semantic t)))" "isHexColor (sem_subtleBg (warning (semantic t)))"
    "isHexColor (sem_subtleText (danger (semantic t)))" "isHexColor (sem_subtleBg (danger (semantic t)))"
    "isHexColor (sem_subtleText (info (semantic t)))" "isHexColor (sem_subtleBg (info (semantic t)))"
    "isHexColor (sem_base (success (semantic t)))" "isHexColor (sem_base (warning (semantic t)))"
    "isHexColor (sem_base (danger (semantic t)))" "isHexColor (sem_base (info (semantic t)))"
  using assms by (simp_all add: tokensValid_def buttonValid_def semanticStatesValid_def)

lemma scoreContrastBase_total:
  assumes "tokensValid t" "validCvdMode m"
  shows "\<exists>r. scoreContrastBase t target m = Inr r"
proof -
  note tv = tokensValidD [OF assms(1)]
  let ?normal = "tc_normal (targetContrast target)"
  let ?large = "tc_large (targetContrast target)"
  let ?checks = "[(''textPrimary/background (normal)'', textPrimary t, background t, ?normal),
            (''textPrimary/surface (normal)'', textPrimary t, surface t, ?normal),
            (''textSecondary/background (normal)'', textSecondary t, background t, ?normal),
            (''textSecondary/surface (normal)'', textSecondary t, surface t, ?normal),
            (''textTertiary/surface (normal)'', textTertiary t, surface t, ?large),
            (''primaryText/primary (normal)'', primaryText t, primary t, ?normal),
            (''secondaryText/secondary (normal)'', secondaryText t, secondary t, ?normal),
            (''accentText/accent (normal)'', accentText t, accent t, ?normal),
            (''textPrimary/background (large)'', textPrimary t, background t, ?large)]"
  have "\<exists>ys. mapE (addCheck m) ?checks = Inr ys"
    by (rule mapE_total) (use tv assms(2) in \<open>auto intro!: addCheck_total\<close>)
  then show ?thesis
    by (auto simp: scoreContrastBase_def Let_def)
qed

lemma scoreContrastStates_total:
  assumes "tokensValid t" "validCvdMode m"
  shows "\<exists>r. scoreContrastStates t target m = Inr r"
proof -
  note tv = tokensValidD [OF assms(1)]
  let ?normal = "tc_normal (targetContrast target)"
  let ?checks = "[(''btnPrimary/text:hoverBg'', btn_text (buttonPrimary t), btn_hoverBg (buttonPrimary t), ?normal),
            (''btnPrimary/text:pressedBg'', btn_text (buttonPrimary t), btn_pressedBg (buttonPrimary t), ?normal),
            (''btnSecondary/text:hoverBg'', btn_text (buttonSecondary t), btn_hoverBg (buttonSecondary t), ?normal),
            (''btnSecondary/text:pressedBg'', btn_text (buttonSecondary t), btn_pressedBg (buttonSecondary t), ?normal),
            (''semantic.success/subtleText:subtleBg'', sem_subtleText (success (semantic t)),
               sem_subtleBg (success (semantic t)), ?normal),
            (''semantic.warning/subtleText:subtleBg'', sem_subtleText (warning (semantic t)),
               sem_subtleBg (warning (semantic t)), ?normal),
            (''semantic.danger/subtleText:subtleBg'', sem_subtleText (danger (semantic t)),
               sem_subtleBg (danger (semantic t)), ?normal),
            (''semantic.info/subtleText:subtleBg'', sem_subtleText (info (semantic t)),
               sem_subtleBg (info (semantic t)), ?normal)]"
  have "\<exists>ys. mapE (addCheck m) ?checks = Inr ys"
    by (rule mapE_total) (use tv assms(2) in \<open>auto intro!: addCheck_total\<close>)
  then show ?thesis
    by (auto simp: scoreContrastStates_def Let_def)
qed

lemma scoreEmphasis_total:
  assumes "tokensValid t"
  shows "\<exists>r. scoreEmphasis t = Inr r"
  using hexToOklch_isHexColor [OF tokensValidD(7) [OF assms]]
    hexToOklch_isHexColor [OF tokensValidD(2) [OF assms]]
  by (auto simp: scoreEmphasis_def Let_def)

lemma scoreHarmony_total:
  assumes "tokensValid t"
  shows "\<exists>r. scoreHarmony sh t = Inr r"
  using hexToOklch_isHexColor [OF tokensValidD(7) [OF assms]]
    hexToOklch_isHexColor [OF tokensValidD(11) [OF assms]]
  by (auto simp: scoreHarmony_def Let_def)

lemma deltaEoklab_total:
  assumes "isHexColor a" "isHexColor b"
  shows "\<exists>d. deltaEoklab a b = Inr d \<and> isNum d"
proof -
  from hexToOklch_isHexColor [OF assms(1)] obtain c1 where 1: "hexToOklch a = Inr c1" "lchFinite c1"
    by blast
  from hexToOklch_isHexColor [OF assms(2)] obtain c2 where 2: "hexToOklch b = Inr c2" "lchFinite c2"
    by blast
  have "labFinite (oklchToOklab c1)" "labFinite (oklchToOklab c2)"
    using 1 2 by simp_all
  then show ?thesis
    using 1 2 by (simp add: deltaEoklab_def Let_def labFinite_def)
qed

lemma primaryDistOf_total:
  assumes "tokensValid t" "validCvdMode m"
  shows "\<exists>r. primaryDistOf t m = Inr r"
proof -
  note tv = tokensValidD [OF assms(1)]
  from applyCvd_valid [OF tv(7) assms(2)] obtain p where 1: "applyCvd (primary t) m = Inr p" "isHexColor p"
    by blast
  from applyCvd_valid [OF tv(2) assms(2)] obtain s where 2: "applyCvd (surface t) m = Inr s" "isHexColor s"
    by blast
  from deltaEoklab_total [OF 1(2) 2(2)] obtain d where "deltaEoklab p s = Inr d" by blast
  with 1 2 show ?thesis by (simp add: primaryDistOf_def)
qed


lemma scoreSemanticSeparation_total:
  assumes "tokensValid t" "validCvdMode m"
  shows "\<exists>r. scoreSemanticSeparation t m = Inr r \<and> ss_pairs r \<noteq> []
             \<and> list_all (\<lambda>p. isNum (pd_dE p)) (ss_pairs r)"
proof -
  note tv = tokensValidD [OF assms(1)]
  let ?roles = "[(''success'', sem_base (success (semantic t))),
                 (''warning'', sem_base (warning (semantic t))),
                 (''danger'', sem_base (danger (semantic t))),
                 (''info'', sem_base (info (semantic t)))]"
  let ?f = "\<lambda>((n1, h1), (n2, h2)).
              bindE (applyCvd h1 m) (\<lambda>c1.
              bindE (applyCvd h2 m) (\<lambda>c2.
              bindE (deltaEoklab c1 c2) (\<lambda>dE.
                Inr \<lparr>pd_pair = n1 @ ''-'' @ n2, pd_dE = dE, pd_mode = m\<rparr>)))"
  have one: "\<exists>y. ?f ((n1, h1), (n2, h2)) = Inr y \<and> isNum (pd_dE y)"
    if "isHexColor h1" "isHexColor h2" for n1 h1 n2 h2
  proof -
    from applyCvd_valid [OF that(1) assms(2)] obtain c1 where 1: "applyCvd h1 m = Inr c1" "isHexColor c1"
      by blast
    from applyCvd_valid [OF that(2) assms(2)] obtain c2 where 2: "applyCvd h2 m = Inr c2" "isHexColor c2"
      by blast
    from deltaEoklab_total [OF 1(2) 2(2)] obtain d where "deltaEoklab c1 c2 = Inr d" "isNum d"
      by blast
    with 1 2 show ?thesis by simp
  qed
  have valid: "isHexColor h1 \<and> isHexColor h2" if "((n1, h1), (n2, h2)) \<in> set (rolePairs ?roles)"
    for n1 h1 n2 h2
    using that tv(27-30) by auto
  have "\<exists>ys. mapE ?f (rolePairs ?roles) = Inr ys"
  proof (rule mapE_total)
    fix x assume x: "x \<in> set (rolePairs ?roles)"
    obtain n1 h1 n2 h2 where xe: "x = ((n1, h1), (n2, h2))" by (metis prod.collapse)
    from valid [of n1 h1 n2 h2] x xe one [of h1 h2 n1 n2] show "\<exists>y. ?f x = Inr y" by blast
  qed
  then obtain ys where ys: "mapE ?f (rolePairs ?roles) = Inr ys" by blast
  have "list_all (\<lambda>p. isNum (pd_dE p)) ys \<and> length ys = length (rolePairs ?roles)"
  proof (rule mapE_all [OF ys])
    fix x y assume x: "x \<in> set (rolePairs ?roles)" and y: "?f x = Inr y"
    obtain n1 h1 n2 h2 where xe: "x = ((n1, h1), (n2, h2))" by (metis prod.collapse)
    from valid [of n1 h1 n2 h2] x xe one [of h1 h2 n1 n2] y show "isNum (pd_dE y)" by auto
  qed
  then have "list_all (\<lambda>p. isNum (pd_dE p)) ys" "ys \<noteq> []" by auto
  then show ?thesis
    using ys by (simp add: scoreSemanticSeparation_def Let_def)
qed

lemma minPairLoop_Some: "\<exists>s d. minPairLoop (s0, Some d0) ps = (s, Some d)"
  by (induction ps arbitrary: s0 d0) auto

lemma minPairLoop_None:
  assumes "ps \<noteq> []" "list_all (\<lambda>p. isNum (pd_dE p)) ps"
  shows "\<exists>s d. minPairLoop (s0, None) ps = (s, Some d)"
proof -
  from assms obtain p ps' where "ps = p # ps'" "isNum (pd_dE p)"
    by (cases ps) auto
  then show ?thesis
    using minPairLoop_Some [of "pd_pair p" "pd_dE p" ps'] by simp
qed

lemma semanticDistOf_total:
  assumes "tokensValid t" "validCvdMode m"
  shows "\<exists>r. semanticDistOf t m = Inr r"
proof -
  from scoreSemanticSeparation_total [OF assms] obtain sem where
    sem: "scoreSemanticSeparation t m = Inr sem" "ss_pairs sem \<noteq> []"
      "list_all (\<lambda>p. isNum (pd_dE p)) (ss_pairs sem)"
    by blast
  from minPairLoop_None [OF sem(2,3)] obtain s d where
    "minPairLoop ([], None) (ss_pairs sem) = (s, Some d)" by blast
  with sem(1) show ?thesis by (simp add: semanticDistOf_def)
qed

lemma validCvdMode_none [simp]: "validCvdMode ''none''"
  by (simp add: validCvdMode_def)

lemma aggregateScore_total:
  assumes "tokensValid t" "cvdModes \<noteq> []" "list_all validCvdMode cvdModes"
  shows "\<exists>r. aggregateScore t mode target w g Li cvdModes sh = Inr r"
proof -
  have modes: "validCvdMode m" if "m \<in> set cvdModes" for m
    using that assms(3) by (simp add: list_all_iff)
  from mapE_total [of cvdModes "scoreContrastBase t target"] obtain contrastReports where
    1: "mapE (scoreContrastBase t target) cvdModes = Inr contrastReports"
    using scoreContrastBase_total [OF assms(1) modes] by blast
  from mapE_total [of cvdModes "scoreContrastStates t target"] obtain stateReports where
    2: "mapE (scoreContrastStates t target) cvdModes = Inr stateReports"
    using scoreContrastStates_total [OF assms(1) modes] by blast
  from scoreEmphasis_total [OF assms(1)] obtain emphasis' where 3: "scoreEmphasis t = Inr emphasis'"
    by blast
  from scoreHarmony_total [OF assms(1)] obtain harmony' where 4: "scoreHarmony sh t = Inr harmony'"
    by blast
  from mapE_total [of cvdModes "primaryDistOf t"] obtain primaryDist' where
    5: "mapE (primaryDistOf t) cvdModes = Inr primaryDist'"
    using primaryDistOf_total [OF assms(1) modes] by blast
  from mapE_total [of cvdModes "semanticDistOf t"] obtain semanticDist' where
    6: "mapE (semanticDistOf t) cvdModes = Inr semanticDist'"
    using semanticDistOf_total [OF assms(1) modes] by blast
  from scoreSemanticSeparation_total [OF assms(1) validCvdMode_none] obtain semanticNone where
    7: "scoreSemanticSeparation t ''none'' = Inr semanticNone" by blast
  show ?thesis
    using assms(2) 1 2 3 4 5 6 7 by (simp add: aggregateScore_def Let_def)
qed

section \<open>The loop of the search\<close>

lemma accept_True_isNum: "fst (accept delta t rng) \<Longrightarrow> isNum delta"
  by (cases delta) (simp_all add: accept_def Let_def case_prod_beta)

text \<open>What one iteration does to the state, given the candidate it built and scored.\<close>

lemma iteration_Inr:
  assumes "iteration se i st = Inr st'"
  obtains nextBuilt nextReport where
    "buildTokens (fst (mutateParams (st_rng st) (curParams st))) (se_mode se)
       (se_primaryHexFixed se) = Inr nextBuilt"
    "aggregateScore (b_tokens nextBuilt) (se_mode se) (se_contrastTarget se) (se_weights se)
       (gamutCount nextBuilt) (Linfo nextBuilt) (se_cvdModes se) (se_seedHue se) = Inr nextReport"
    "curScore st' =
       (if fst (accept (total nextReport - curScore st) (temperature st)
                  (snd (mutateParams (st_rng st) (curParams st))))
        then total nextReport else curScore st)"
    "curParams st' =
       (if fst (accept (total nextReport - curScore st) (temperature st)
                  (snd (mutateParams (st_rng st) (curParams st))))
        then fst (mutateParams (st_rng st) (curParams st)) else curParams st)"
    "bestScore st' = (if bestScore st < curScore st' then curScore st' else bestScore st)"
    "temperature st' = cool (se_cooling se) i (temperature st)"
    "st_rng st' = snd (accept (total nextReport - curScore st) (temperature st)
                         (snd (mutateParams (st_rng st) (curParams st))))"
proof -
  from assms obtain nextBuilt nextReport where
    b: "buildTokens (fst (mutateParams (st_rng st) (curParams st))) (se_mode se)
       (se_primaryHexFixed se) = Inr nextBuilt"
    and r: "aggregateScore (b_tokens nextBuilt) (se_mode se) (se_contrastTarget se) (se_weights se)
       (gamutCount nextBuilt) (Linfo nextBuilt) (se_cvdModes se) (se_seedHue se) = Inr nextReport"
    and st': "st' =
      (let nextParams = fst (mutateParams (st_rng st) (curParams st));
           rng1 = snd (mutateParams (st_rng st) (curParams st));
           nextScore = total nextReport;
           delta = nextScore - curScore st;
           acc = fst (accept delta (temperature st) rng1);
           rng2 = snd (accept delta (temperature st) rng1);
           st1 = (if acc
                  then st\<lparr>st_rng := rng2, curParams := nextParams, st_built := nextBuilt,
                          curReport := nextReport, curScore := nextScore\<rparr>
                  else st\<lparr>st_rng := rng2\<rparr>);
           st2 = (if bestScore st1 < curScore st1
                  then st1\<lparr>bestScore := curScore st1, bestParams := curParams st1,
                           bestTokens := b_tokens (st_built st1), bestReport := curReport st1\<rparr>
                  else st1);
           st3 = st2\<lparr>temperature := temperature st2 * se_cooling se\<rparr>;
           st4 = (if (i + 1) mod 900 = 0
                  then st3\<lparr>temperature := Math_min 1.0 (temperature st3 * 1.18)\<rparr>
                  else st3)
       in st4)"
    by (auto simp: iteration_def bindE_eq_Inr case_prod_beta Let_def)
  show ?thesis
    by (rule that [OF b r]) (simp_all add: st' Let_def cool_def)
qed


lemma iteration_total:
  assumes "paramsFinite (curParams st)" "validHexInput (se_primaryHexFixed se)"
    "se_cvdModes se \<noteq> []" "list_all validCvdMode (se_cvdModes se)"
  shows "\<exists>st'. iteration se i st = Inr st'"
proof -
  let ?next = "fst (mutateParams (st_rng st) (curParams st))"
  have fin: "paramsFinite ?next"
    using assms(1) by (rule mutateParams_paramsFinite)
  from buildTokens_total [OF fin assms(2)] obtain nextBuilt where
    b: "buildTokens ?next (se_mode se) (se_primaryHexFixed se) = Inr nextBuilt" by blast
  have "paramsBase ?next" using fin by (simp add: paramsFinite_def)
  then have "tokensValid (b_tokens nextBuilt)"
    using assms(2) b by (rule buildTokens_valid)
  from aggregateScore_total [OF this assms(3,4)] obtain nextReport where
    "aggregateScore (b_tokens nextBuilt) (se_mode se) (se_contrastTarget se) (se_weights se)
       (gamutCount nextBuilt) (Linfo nextBuilt) (se_cvdModes se) (se_seedHue se) = Inr nextReport"
    by blast
  with b show ?thesis
    by (simp add: iteration_def case_prod_beta Let_def)
qed

lemma iteration_bestScore:
  assumes "iteration se i st = Inr st'"
  shows "bestScore st' = (if bestScore st < curScore st' then curScore st' else bestScore st)"
  using assms by (rule iteration_Inr)

lemma iteration_temperature:
  assumes "iteration se i st = Inr st'"
  shows "temperature st' = cool (se_cooling se) i (temperature st)"
  using assms by (rule iteration_Inr)

lemma iteration_current:
  assumes "iteration se i st = Inr st'"
  shows "(curScore st' = curScore st \<and> curParams st' = curParams st)
         \<or> (isNum (curScore st')
             \<and> curParams st' = fst (mutateParams (st_rng st) (curParams st)))"
proof -
  from assms show ?thesis
  proof (rule iteration_Inr)
    fix nextBuilt nextReport
    assume cur: "curScore st' =
       (if fst (accept (total nextReport - curScore st) (temperature st)
                  (snd (mutateParams (st_rng st) (curParams st))))
        then total nextReport else curScore st)"
      and par: "curParams st' =
       (if fst (accept (total nextReport - curScore st) (temperature st)
                  (snd (mutateParams (st_rng st) (curParams st))))
        then fst (mutateParams (st_rng st) (curParams st)) else curParams st)"
    show ?thesis
    proof (cases "fst (accept (total nextReport - curScore st) (temperature st)
                  (snd (mutateParams (st_rng st) (curParams st))))")
      case True
      from accept_True_isNum [OF True] have "isNum (total nextReport)" by simp
      with True cur par show ?thesis by simp
    next
      case False
      with cur par show ?thesis by simp
    qed
  qed
qed

lemma iteration_paramsFinite:
  assumes "iteration se i st = Inr st'" "paramsFinite (curParams st)"
  shows "paramsFinite (curParams st')"
  using iteration_current [OF assms(1)] assms(2) mutateParams_paramsFinite [OF assms(2)]
  by auto

lemma trace_total:
  assumes "paramsFinite (curParams st)" "validHexInput (se_primaryHexFixed se)"
    "se_cvdModes se \<noteq> []" "list_all validCvdMode (se_cvdModes se)"
  shows "\<exists>sts. trace se n i st = Inr sts"
  using assms(1)
proof (induction n arbitrary: i st)
  case 0
  show ?case by simp
next
  case (Suc n)
  from iteration_total [OF Suc.prems assms(2-4)] obtain st' where
    st': "iteration se i st = Inr st'" by blast
  have "paramsFinite (curParams st')"
    using st' Suc.prems by (rule iteration_paramsFinite)
  from Suc.IH [OF this] obtain sts where "trace se n (Suc i) st' = Inr sts" by blast
  with st' show ?case by simp
qed

text \<open>The loop ends in the last state of its trace.\<close>

lemma trace_Suc_Inr:
  assumes "trace se (Suc n) i st = Inr sts"
  obtains st' sts' where "iteration se i st = Inr st'" "trace se n (Suc i) st' = Inr sts'"
    "sts = st' # sts'"
proof (cases "iteration se i st")
  case (Inl e)
  with assms show ?thesis by simp
next
  case (Inr st')
  show ?thesis
  proof (cases "trace se n (Suc i) st'")
    case (Inl e)
    with assms Inr show ?thesis by simp
  next
    case (Inr sts')
    with assms \<open>iteration se i st = Inr st'\<close> have "sts = st' # sts'" by simp
    with \<open>iteration se i st = Inr st'\<close> Inr show ?thesis by (rule that)
  qed
qed

lemma iterate_of_trace:
  "trace se n i st = Inr sts \<Longrightarrow> iterate se n i st = Inr (last (st # sts))"
proof (induction n arbitrary: i st sts)
  case 0
  then show ?case by simp
next
  case (Suc n)
  from Suc.prems obtain st' sts' where parts:
    "iteration se i st = Inr st'" "trace se n (Suc i) st' = Inr sts'" "sts = st' # sts'"
    by (rule trace_Suc_Inr)
  from Suc.IH [OF parts(2)] parts(1,3) show ?case by simp
qed

lemma trace_of_iterate:
  "iterate se n i st = Inr st' \<Longrightarrow> \<exists>sts. trace se n i st = Inr sts \<and> st' = last (st # sts)"
proof (induction n arbitrary: i st)
  case 0
  then show ?case by simp
next
  case (Suc n)
  show ?case
  proof (cases "iteration se i st")
    case (Inl e)
    with Suc.prems show ?thesis by simp
  next
    case (Inr s1)
    with Suc.prems have "iterate se n (Suc i) s1 = Inr st'" by simp
    from Suc.IH [OF this] obtain sts where
      sts: "trace se n (Suc i) s1 = Inr sts" "st' = last (s1 # sts)" by blast
    have "trace se (Suc n) i st = Inr (s1 # sts)" using Inr sts(1) by simp
    moreover have "st' = last (st # s1 # sts)" using sts(2) by simp
    ultimately show ?thesis by blast
  qed
qed

text \<open>The best score never decreases.\<close>

lemma trace_nondecreasing:
  "trace se n i st = Inr sts \<Longrightarrow> nondecreasing (map bestScore (st # sts))"
proof (induction n arbitrary: i st sts)
  case 0
  then show ?case by simp
next
  case (Suc n)
  from Suc.prems obtain st' sts' where parts:
    "iteration se i st = Inr st'" "trace se n (Suc i) st' = Inr sts'" "sts = st' # sts'"
    by (rule trace_Suc_Inr)
  have "bestScore st = bestScore st' \<or> bestScore st < bestScore st'"
    using iteration_bestScore [OF parts(1)] by (simp split: if_splits)
  with Suc.IH [OF parts(2)] parts(3) show ?case by simp
qed

text \<open>The current score is a number whenever the best score is one, and then the best
  score is the maximum of the scores held so far.\<close>

lemma iteration_best:
  assumes "iteration se i st = Inr st'" "isNum (bestScore st) \<longrightarrow> isNum (curScore st)"
  shows "(isNum (bestScore st') \<longrightarrow> isNum (curScore st'))
         \<and> bestScore st' = Math_max (bestScore st) (curScore st')"
proof (cases "bestScore st")
  case NaN
  then show ?thesis using iteration_bestScore [OF assms(1)] by simp
next
  case (Num b)
  with assms(2) have "isNum (curScore st)" by simp
  with iteration_current [OF assms(1)] have "isNum (curScore st')" by auto
  then obtain c where c: "curScore st' = Num c" by (cases "curScore st'") simp_all
  show ?thesis using iteration_bestScore [OF assms(1)] Num c by (simp add: max_def)
qed

lemma trace_best:
  assumes "trace se n i st = Inr sts" "isNum (bestScore st) \<longrightarrow> isNum (curScore st)"
  shows "bestScore (last (st # sts)) = foldl Math_max (bestScore st) (map curScore sts)"
  using assms
proof (induction n arbitrary: i st sts)
  case 0
  then show ?case by simp
next
  case (Suc n)
  from Suc.prems(1) obtain st' sts' where parts:
    "iteration se i st = Inr st'" "trace se n (Suc i) st' = Inr sts'" "sts = st' # sts'"
    by (rule trace_Suc_Inr)
  from iteration_best [OF parts(1) Suc.prems(2)] have
    inv: "isNum (bestScore st') \<longrightarrow> isNum (curScore st')"
    and best: "bestScore st' = Math_max (bestScore st) (curScore st')" by simp_all
  from Suc.IH [OF parts(2) inv] best parts(3) show ?case by simp
qed

lemma trace_temperature:
  "trace se n i st = Inr sts
   \<Longrightarrow> temperature (last (st # sts)) = temperatureAfter (se_cooling se) n i (temperature st)"
proof (induction n arbitrary: i st sts)
  case 0
  then show ?case by simp
next
  case (Suc n)
  from Suc.prems obtain st' sts' where parts:
    "iteration se i st = Inr st'" "trace se n (Suc i) st' = Inr sts'" "sts = st' # sts'"
    by (rule trace_Suc_Inr)
  from Suc.IH [OF parts(2)] iteration_temperature [OF parts(1)] parts(3) show ?case by simp
qed

section \<open>The best score of a search\<close>

lemma initialSearch_Inr:
  assumes "initialSearch se t0 seedHex pv sc rng = Inr st0"
  shows "bestScore st0 = curScore st0" "temperature st0 = t0"
    "curParams st0 = fst (initParams rng (se_mode se) seedHex pv sc)"
    "st_rng st0 = snd (initParams rng (se_mode se) seedHex pv sc)"
  using assms by (auto simp: initialSearch_def bindE_eq_Inr case_prod_beta Let_def)

lemma initialSearch_total:
  assumes "paramsFinite (fst (initParams rng (se_mode se) seedHex pv sc))"
    "validHexInput (se_primaryHexFixed se)"
    "se_cvdModes se \<noteq> []" "list_all validCvdMode (se_cvdModes se)"
  shows "\<exists>st0. initialSearch se t0 seedHex pv sc rng = Inr st0"
proof -
  let ?p = "fst (initParams rng (se_mode se) seedHex pv sc)"
  from buildTokens_total [OF assms(1,2)] obtain built0 where
    b: "buildTokens ?p (se_mode se) (se_primaryHexFixed se) = Inr built0" by blast
  have "paramsBase ?p" using assms(1) by (simp add: paramsFinite_def)
  then have "tokensValid (b_tokens built0)"
    using assms(2) b by (rule buildTokens_valid)
  from aggregateScore_total [OF this assms(3,4)] obtain report0 where
    "aggregateScore (b_tokens built0) (se_mode se) (se_contrastTarget se) (se_weights se)
       (gamutCount built0) (Linfo built0) (se_cvdModes se) (se_seedHue se) = Inr report0"
    by blast
  with b show ?thesis
    by (simp add: initialSearch_def case_prod_beta Let_def)
qed

lemma settingOf_simps [simp]:
  "se_mode (settingOf m ph opts sh) = m"
  "se_primaryHexFixed (settingOf m ph opts sh) = ph"
  "se_cvdModes (settingOf m ph opts sh) = cvdModesOf opts"
  "se_cooling (settingOf m ph opts sh) = orElse (opt_cooling opts) 0.985"
  by (simp_all add: settingOf_def)

lemma cvdModesOf_not_Nil: "cvdModesOf opts \<noteq> []"
  by (auto simp: cvdModesOf_def split: option.splits)

lemma cvdModesOf_default: "opt_cvdModes opts = None \<Longrightarrow> list_all validCvdMode (cvdModesOf opts)"
  by (simp add: cvdModesOf_def validCvdMode_def)

text \<open>A run of \<open>optimizeTheme\<close> and its trace.\<close>

lemma optimizeTheme_searchTrace:
  assumes "optimizeTheme m ph opts rng sh = Inr (out, rng')"
  obtains sts where "searchTrace m ph opts rng sh = Inr sts" "sts \<noteq> []"
    "out_score out = bestScore (last sts)" "out_tokens out = bestTokens (last sts)"
    "out_report out = bestReport (last sts)" "rng' = st_rng (last sts)"
proof -
  let ?se = "settingOf m ph opts sh"
  from assms obtain st0 st where
    init: "initialSearch ?se (orElse (opt_temperature opts) 1.0) (opt_seedHex opts)
             (orElse (opt_preferVibrant opts) True)
             (orElse (opt_semanticConventional opts) True) rng = Inr st0"
    and iter: "iterate ?se (nat (orElse (opt_iterations opts) 3500)) 0 st0 = Inr st"
    and out: "out = \<lparr>out_tokens = bestTokens st, out_score = bestScore st,
                     out_report = bestReport st\<rparr>" "rng' = st_rng st"
    by (auto simp: optimizeTheme_def Let_def bindE_eq_Inr)
  from trace_of_iterate [OF iter] obtain sts where
    sts: "trace ?se (nat (orElse (opt_iterations opts) 3500)) 0 st0 = Inr sts"
      "st = last (st0 # sts)" by blast
  have "searchTrace m ph opts rng sh = Inr (st0 # sts)"
    using init sts(1) by (simp add: searchTrace_def Let_def)
  then show ?thesis
    using out sts(2) by (intro that [of "st0 # sts"]) simp_all
qed

lemma searchTrace_Inr:
  assumes "searchTrace m ph opts rng sh = Inr sts"
  obtains st0 sts' where "sts = st0 # sts'"
    "initialSearch (settingOf m ph opts sh) (orElse (opt_temperature opts) 1.0) (opt_seedHex opts)
       (orElse (opt_preferVibrant opts) True)
       (orElse (opt_semanticConventional opts) True) rng = Inr st0"
    "trace (settingOf m ph opts sh) (nat (orElse (opt_iterations opts) 3500)) 0 st0 = Inr sts'"
  using assms by (auto simp: searchTrace_def Let_def bindE_eq_Inr)

lemma searchTrace_optimizeTheme:
  assumes "searchTrace m ph opts rng sh = Inr sts"
  shows "optimizeTheme m ph opts rng sh
         = Inr (\<lparr>out_tokens = bestTokens (last sts), out_score = bestScore (last sts),
                 out_report = bestReport (last sts)\<rparr>, st_rng (last sts))"
proof -
  from assms obtain st0 sts' where parts: "sts = st0 # sts'"
    "initialSearch (settingOf m ph opts sh) (orElse (opt_temperature opts) 1.0) (opt_seedHex opts)
       (orElse (opt_preferVibrant opts) True)
       (orElse (opt_semanticConventional opts) True) rng = Inr st0"
    "trace (settingOf m ph opts sh) (nat (orElse (opt_iterations opts) 3500)) 0 st0 = Inr sts'"
    by (rule searchTrace_Inr)
  from iterate_of_trace [OF parts(3)] parts(1,2) show ?thesis
    by (simp add: optimizeTheme_def Let_def)
qed

lemma searchTrace_total:
  assumes "opt_seedHex opts = None" "fst (RNG_int 0 3 (skip 12 rng)) \<noteq> 3"
    "validHexInput ph" "list_all validCvdMode (cvdModesOf opts)"
  shows "\<exists>sts. searchTrace m ph opts rng sh = Inr sts"
proof -
  let ?se = "settingOf m ph opts sh"
  let ?pv = "orElse (opt_preferVibrant opts) True"
  let ?sc = "orElse (opt_semanticConventional opts) True"
  have fin: "paramsFinite (fst (initParams rng (se_mode ?se) None ?pv ?sc))"
    using assms(2) by (rule initParams_accentStrategy)
  have ph: "validHexInput (se_primaryHexFixed ?se)" using assms(3) by simp
  have ms: "se_cvdModes ?se \<noteq> []" "list_all validCvdMode (se_cvdModes ?se)"
    using assms(4) cvdModesOf_not_Nil by simp_all
  from initialSearch_total [OF fin ph ms] obtain st0 where
    st0: "initialSearch ?se (orElse (opt_temperature opts) 1.0) None ?pv ?sc rng = Inr st0"
    by blast
  have "paramsFinite (curParams st0)"
    using initialSearch_Inr(3) [OF st0] fin by simp
  from trace_total [OF this ph ms] obtain sts where
    "trace ?se (nat (orElse (opt_iterations opts) 3500)) 0 st0 = Inr sts" by blast
  with st0 show ?thesis
    using assms(1) by (simp add: searchTrace_def Let_def)
qed

text \<open>
  Claim C8. Along the trace of one run of \<open>optimizeTheme\<close> (the state before the loop
  and the state after every iteration) the recorded best score never decreases: after
  every iteration it is its value before that iteration or greater. The score returned
  is the maximum of the scores of the current candidates held along the trace, the
  initial one included.
\<close>

theorem optimizeTheme_best_score:
  assumes "optimizeTheme m ph opts rng sh = Inr (out, rng')"
  shows "\<exists>sts. searchTrace m ph opts rng sh = Inr sts
           \<and> nondecreasing (map bestScore sts)
           \<and> out_score out = Math_max_list (map curScore sts)"
proof -
  from assms obtain sts where sts: "searchTrace m ph opts rng sh = Inr sts"
    and out: "out_score out = bestScore (last sts)"
    by (rule optimizeTheme_searchTrace)
  from sts obtain st0 sts' where parts: "sts = st0 # sts'"
    "initialSearch (settingOf m ph opts sh) (orElse (opt_temperature opts) 1.0) (opt_seedHex opts)
       (orElse (opt_preferVibrant opts) True)
       (orElse (opt_semanticConventional opts) True) rng = Inr st0"
    "trace (settingOf m ph opts sh) (nat (orElse (opt_iterations opts) 3500)) 0 st0 = Inr sts'"
    by (rule searchTrace_Inr)
  have start: "bestScore st0 = curScore st0"
    using parts(2) by (rule initialSearch_Inr)
  have "nondecreasing (map bestScore sts)"
    using trace_nondecreasing [OF parts(3)] parts(1) by simp
  moreover have "bestScore (last sts) = Math_max_list (map curScore sts)"
    using trace_best [OF parts(3)] start parts(1) by simp
  ultimately show ?thesis using sts out by simp
qed

lemma readme_seed_light: "fst (RNG_int 0 3 (skip 12 (RNG_new 42))) \<noteq> 3"
  by (simp add: skip_numeral_eval)

theorem optimizeTheme_best_score_witness:
  "\<exists>out rng' sts.
     optimizeTheme Light ''#5B5FF5'' shortOptions (RNG_new 42) None = Inr (out, rng')
     \<and> searchTrace Light ''#5B5FF5'' shortOptions (RNG_new 42) None = Inr sts
     \<and> nondecreasing (map bestScore sts)
     \<and> out_score out = Math_max_list (map curScore sts)"
proof -
  have "opt_seedHex shortOptions = None" "list_all validCvdMode (cvdModesOf shortOptions)"
    by (simp_all add: shortOptions_def readmeOptions_def cvdModesOf_def validCvdMode_def)
  from searchTrace_total [OF this(1) readme_seed_light validHexInput_readme this(2)]
  obtain sts0 where "searchTrace Light ''#5B5FF5'' shortOptions (RNG_new 42) None = Inr sts0"
    by blast
  from searchTrace_optimizeTheme [OF this] obtain out rng' where
    run: "optimizeTheme Light ''#5B5FF5'' shortOptions (RNG_new 42) None = Inr (out, rng')"
    by blast
  from optimizeTheme_best_score [OF run] run show ?thesis by blast
qed

section \<open>The temperature of a search\<close>

lemma trace_length: "trace se n i st = Inr sts \<Longrightarrow> length sts = n"
proof (induction n arbitrary: i st sts)
  case 0
  then show ?case by simp
next
  case (Suc n)
  from Suc.prems obtain st' sts' where parts:
    "iteration se i st = Inr st'" "trace se n (Suc i) st' = Inr sts'" "sts = st' # sts'"
    by (rule trace_Suc_Inr)
  from Suc.IH [OF parts(2)] parts(3) show ?case by simp
qed

lemma trace_nth_temperature:
  assumes "trace se n i st = Inr sts" and "k < n"
  shows "temperature ((st # sts) ! Suc k)
         = cool (se_cooling se) (i + k) (temperature ((st # sts) ! k))"
  using assms
proof (induction n arbitrary: i st sts k)
  case 0
  then show ?case by simp
next
  case (Suc n)
  from Suc.prems(1) obtain st' sts' where parts:
    "iteration se i st = Inr st'" "trace se n (Suc i) st' = Inr sts'" "sts = st' # sts'"
    by (rule trace_Suc_Inr)
  show ?case
  proof (cases k)
    case 0
    then show ?thesis
      using iteration_temperature [OF parts(1)] parts(3) by simp
  next
    case (Suc j)
    with Suc.prems(2) have "j < n" by simp
    from Suc.IH [OF parts(2) this] Suc parts(3) show ?thesis by simp
  qed
qed

lemma searchTrace_temperature:
  assumes "searchTrace m ph opts rng sh = Inr sts"
  shows "length sts = Suc (nat (orElse (opt_iterations opts) 3500))"
    and "temperature (sts ! 0) = orElse (opt_temperature opts) 1.0"
    and "k < nat (orElse (opt_iterations opts) 3500)
         \<Longrightarrow> temperature (sts ! Suc k)
             = cool (orElse (opt_cooling opts) 0.985) k (temperature (sts ! k))"
proof -
  from assms obtain st0 sts' where parts: "sts = st0 # sts'"
    "initialSearch (settingOf m ph opts sh) (orElse (opt_temperature opts) 1.0) (opt_seedHex opts)
       (orElse (opt_preferVibrant opts) True)
       (orElse (opt_semanticConventional opts) True) rng = Inr st0"
    "trace (settingOf m ph opts sh) (nat (orElse (opt_iterations opts) 3500)) 0 st0 = Inr sts'"
    by (rule searchTrace_Inr)
  show "length sts = Suc (nat (orElse (opt_iterations opts) 3500))"
    using trace_length [OF parts(3)] parts(1) by simp
  show "temperature (sts ! 0) = orElse (opt_temperature opts) 1.0"
    using initialSearch_Inr(2) [OF parts(2)] parts(1) by simp
  show "temperature (sts ! Suc k)
        = cool (orElse (opt_cooling opts) 0.985) k (temperature (sts ! k))"
    if "k < nat (orElse (opt_iterations opts) 3500)"
    using trace_nth_temperature [OF parts(3) that] parts(1) by simp
qed

lemma temperatureAfter_Suc_end:
  "temperatureAfter c (Suc n) i t = cool c (i + n) (temperatureAfter c n i t)"
  by (induction n arbitrary: i t) simp_all

lemma temperatureAfter_no_reheat:
  "i + n < 900 \<Longrightarrow> temperatureAfter (Num 1) n i (Num t) = Num t"
proof (induction n arbitrary: i)
  case 0
  show ?case by simp
next
  case (Suc n)
  then have "Suc i < 900" "Suc i + n < 900" by simp_all
  then have "cool (Num 1) i (Num t) = Num t" by (simp add: cool_def)
  with Suc.IH [OF \<open>Suc i + n < 900\<close>] show ?case by simp
qed

lemma temperatureAfter_900: "temperatureAfter (Num 1) 900 0 (Num (1 / 2)) = Num (59 / 100)"
proof -
  have "temperatureAfter (Num 1) (Suc 899) 0 (Num (1 / 2))
        = cool (Num 1) 899 (temperatureAfter (Num 1) 899 0 (Num (1 / 2)))"
    by (simp only: temperatureAfter_Suc_end add_0)
  also have "temperatureAfter (Num 1) 899 0 (Num (1 / 2)) = Num (1 / 2)"
    by (rule temperatureAfter_no_reheat) simp
  also have "cool (Num 1) 899 (Num (1 / 2)) = Num (59 / 100)"
    by (simp add: cool_def)
  finally show ?thesis by simp
qed

lemma reheatOptions_simps:
  "opt_seedHex reheatOptions = None" "list_all validCvdMode (cvdModesOf reheatOptions)"
  "opt_temperature reheatOptions = Some (Num (1 / 2))"
  "opt_cooling reheatOptions = Some (Num 1)"
  "opt_iterations reheatOptions = Some 900"
  by (simp_all add: reheatOptions_def readmeOptions_def cvdModesOf_def validCvdMode_def)

lemma reheat_run:
  "\<exists>sts. searchTrace Light ''#5B5FF5'' reheatOptions (RNG_new 42) None = Inr sts"
  using reheatOptions_simps(1) readme_seed_light validHexInput_readme reheatOptions_simps(2)
  by (rule searchTrace_total)

text \<open>
  Claim C9. In \<open>optimizeTheme\<close> every iteration multiplies the temperature by the cooling
  factor, and every 900th iteration multiplies it by the reheating bump 1.18 as well,
  the result capped at the temperature the run started with. The cap of the source is
  the constant 1.0, which is the initial temperature only when \<open>opts.temperature\<close> is
  absent or 1.0: a run of 900 iterations that starts at 0.5 with the cooling factor 1
  ends its 900th iteration at \<open>Math.min(1.0, 0.5 * 1.18) = 0.59\<close>, above the temperature it
  started with.
\<close>

theorem reheat_above_initial_temperature:
  "temperatureAt 0 (searchTrace Light ''#5B5FF5'' reheatOptions (RNG_new 42) None)
     = Some (Num 0.5)
   \<and> temperatureAt 900 (searchTrace Light ''#5B5FF5'' reheatOptions (RNG_new 42) None)
     = Some (Num 0.59)"
proof -
  from reheat_run obtain sts where
    sts: "searchTrace Light ''#5B5FF5'' reheatOptions (RNG_new 42) None = Inr sts"
    by blast
  from sts obtain st0 sts' where parts: "sts = st0 # sts'"
    "initialSearch (settingOf Light ''#5B5FF5'' reheatOptions None)
       (orElse (opt_temperature reheatOptions) 1.0) (opt_seedHex reheatOptions)
       (orElse (opt_preferVibrant reheatOptions) True)
       (orElse (opt_semanticConventional reheatOptions) True) (RNG_new 42) = Inr st0"
    "trace (settingOf Light ''#5B5FF5'' reheatOptions None)
       (nat (orElse (opt_iterations reheatOptions) 3500)) 0 st0 = Inr sts'"
    by (rule searchTrace_Inr)
  have t0: "temperature st0 = Num (1 / 2)"
    using initialSearch_Inr(2) [OF parts(2)] by (simp add: reheatOptions_simps orElse_def)
  have len: "length sts' = 900"
    using trace_length [OF parts(3)] by (simp add: reheatOptions_simps orElse_def)
  have "temperature (last (st0 # sts')) = Num (59 / 100)"
    using trace_temperature [OF parts(3)] t0
    by (simp add: reheatOptions_simps orElse_def temperatureAfter_900)
  moreover have "last (st0 # sts') = sts ! 900"
  proof -
    have "sts' \<noteq> []" using len by auto
    then have "last (st0 # sts') = sts' ! 899"
      using len by (simp add: last_conv_nth)
    moreover have "sts ! 900 = sts' ! 899"
      using parts(1) by simp
    ultimately show ?thesis by simp
  qed
  ultimately have "temperature (sts ! 900) = Num (59 / 100)" by simp
  moreover have "temperature (sts ! 0) = Num (1 / 2)"
    using t0 parts(1) by simp
  moreover have "length sts = 901"
    using len parts(1) by simp
  ultimately show ?thesis
    using sts by (simp add: temperatureAt_def)
qed

text \<open>
  Claim C9, amended. The run starts at \<open>opts.temperature ?? 1.0\<close>; every iteration
  multiplies the temperature by the cooling factor \<open>opts.cooling ?? 0.985\<close>, and every
  900th iteration then multiplies it by 1.18 and caps the result at the constant 1.0,
  whatever temperature the run started with.
\<close>

theorem optimizeTheme_temperature:
  assumes "optimizeTheme m ph opts rng sh = Inr (out, rng')"
  shows "\<exists>sts. searchTrace m ph opts rng sh = Inr sts
           \<and> length sts = Suc (nat (orElse (opt_iterations opts) 3500))
           \<and> temperature (sts ! 0) = orElse (opt_temperature opts) 1.0
           \<and> (\<forall>k < nat (orElse (opt_iterations opts) 3500).
                 temperature (sts ! Suc k)
                 = (if Suc k mod 900 = 0
                    then Math_min 1.0
                           (temperature (sts ! k) * orElse (opt_cooling opts) 0.985 * 1.18)
                    else temperature (sts ! k) * orElse (opt_cooling opts) 0.985))"
proof -
  from assms obtain sts where sts: "searchTrace m ph opts rng sh = Inr sts"
    by (rule optimizeTheme_searchTrace)
  have "temperature (sts ! Suc k)
        = (if Suc k mod 900 = 0
           then Math_min 1.0 (temperature (sts ! k) * orElse (opt_cooling opts) 0.985 * 1.18)
           else temperature (sts ! k) * orElse (opt_cooling opts) 0.985)"
    if "k < nat (orElse (opt_iterations opts) 3500)" for k
    using searchTrace_temperature(3) [OF sts that] by (simp add: cool_def Let_def)
  with searchTrace_temperature(1,2) [OF sts] sts show ?thesis by blast
qed

theorem optimizeTheme_temperature_witness:
  "\<exists>out rng' sts.
     optimizeTheme Light ''#5B5FF5'' reheatOptions (RNG_new 42) None = Inr (out, rng')
     \<and> searchTrace Light ''#5B5FF5'' reheatOptions (RNG_new 42) None = Inr sts
     \<and> length sts = Suc (nat (orElse (opt_iterations reheatOptions) 3500))
     \<and> temperature (sts ! 0) = orElse (opt_temperature reheatOptions) 1.0
     \<and> (\<forall>k < nat (orElse (opt_iterations reheatOptions) 3500).
           temperature (sts ! Suc k)
           = (if Suc k mod 900 = 0
              then Math_min 1.0
                     (temperature (sts ! k) * orElse (opt_cooling reheatOptions) 0.985 * 1.18)
              else temperature (sts ! k) * orElse (opt_cooling reheatOptions) 0.985))"
proof -
  from reheat_run obtain sts0 where
    "searchTrace Light ''#5B5FF5'' reheatOptions (RNG_new 42) None = Inr sts0"
    by blast
  from searchTrace_optimizeTheme [OF this] obtain out rng' where
    run: "optimizeTheme Light ''#5B5FF5'' reheatOptions (RNG_new 42) None = Inr (out, rng')"
    by blast
  from optimizeTheme_temperature [OF run] run show ?thesis by blast
qed

section \<open>The two searches of the entry point\<close>






lemma aggregateScore_tone:
  assumes "aggregateScore t m target w g Li ms sh = Inr rep"
  shows "tone rep = scoreToneSystem m Li"
proof -
  have ne: "ms \<noteq> []"
  proof
    assume "ms = []"
    with assms show False by (simp add: aggregateScore_def)
  qed
  with assms show ?thesis
    by (auto simp: aggregateScore_def bindE_eq_Inr Let_def)
qed















section \<open>The scores of a well-formed token set are numbers\<close>

lemma isNumE:
  assumes "isNum x"
  obtains r where "x = Num r"
  using assms by (cases x) simp_all

lemma hexToRgb_isHexColor_range:
  assumes "isHexColor s"
  shows "\<exists>r g b. hexToRgb s = Inr \<lparr>rgb_r = Num r, rgb_g = Num g, rgb_b = Num b\<rparr>
           \<and> 0 \<le> r \<and> 0 \<le> g \<and> 0 \<le> b"
proof -
  from assms obtain t where s: "s = CHR ''#'' # t" and len: "length t = 6"
    and dig: "list_all isHexDigit t"
    by (cases s) (auto simp: isHexColor_def)
  from len obtain c1 c2 c3 c4 c5 c6 where t: "t = [c1, c2, c3, c4, c5, c6]"
    by (rule list6)
  from dig t obtain v1 v2 v3 v4 v5 v6 where v:
    "hexDigitVal c1 = Some v1" "hexDigitVal c2 = Some v2" "hexDigitVal c3 = Some v3"
    "hexDigitVal c4 = Some v4" "hexDigitVal c5 = Some v5" "hexDigitVal c6 = Some v6"
    by (auto simp: isHexDigit_def)
  have "isHexDigit c6" using dig t by simp
  then have "\<not> isWhiteSpace c6" by (rule isHexDigit_not_special)
  then have tr: "trim s = s"
    by (intro trim_id) (simp_all add: s t isWhiteSpace_def)
  have "hexToRgb s = Inr \<lparr>rgb_r = Num (real (16 * v1 + v2) / 255),
      rgb_g = Num (real (16 * v3 + v4) / 255), rgb_b = Num (real (16 * v5 + v6) / 255)\<rparr>"
    using parseInt16_two_digits [OF v(1,2)] parseInt16_two_digits [OF v(3,4)]
      parseInt16_two_digits [OF v(5,6)]
    by (simp add: hexToRgb_def Let_def tr) (simp add: s t stripHash_def startsWithHash_def slice_def)
  moreover have "0 \<le> real (16 * v1 + v2) / 255" "0 \<le> real (16 * v3 + v4) / 255"
    "0 \<le> real (16 * v5 + v6) / 255"
    by simp_all
  ultimately show ?thesis by blast
qed

lemma srgbToLinear_nonneg:
  assumes "0 \<le> c"
  shows "\<exists>y. srgbToLinear (Num c) = Num y \<and> 0 \<le> y"
proof (cases "c \<le> 0.04045")
  case True
  then have "srgbToLinear (Num c) = Num (c / 12.92)"
    by (simp add: srgbToLinear_def)
  moreover have "0 \<le> c / 12.92" using assms by simp
  ultimately show ?thesis by blast
next
  case False
  have "\<not> (c + 0.055) / 1.055 < 0" using assms by simp
  with False have "srgbToLinear (Num c) = Num (((c + 0.055) / 1.055) powr 2.4)"
    by (simp add: srgbToLinear_def)
  moreover have "0 \<le> ((c + 0.055) / 1.055) powr 2.4" by simp
  ultimately show ?thesis by blast
qed

lemma relativeLuminance_nonneg:
  assumes "0 \<le> r" "0 \<le> g" "0 \<le> b"
  shows "\<exists>l. relativeLuminance \<lparr>rgb_r = Num r, rgb_g = Num g, rgb_b = Num b\<rparr> = Num l \<and> 0 \<le> l"
proof -
  from srgbToLinear_nonneg [OF assms(1)] obtain r' where
    r: "srgbToLinear (Num r) = Num r'" "0 \<le> r'" by blast
  from srgbToLinear_nonneg [OF assms(2)] obtain g' where
    g: "srgbToLinear (Num g) = Num g'" "0 \<le> g'" by blast
  from srgbToLinear_nonneg [OF assms(3)] obtain b' where
    b: "srgbToLinear (Num b) = Num b'" "0 \<le> b'" by blast
  show ?thesis
    using r g b by (simp add: relativeLuminance_def Let_def)
qed

lemma contrastRatio_isNum:
  assumes "isHexColor a" "isHexColor b"
  shows "\<exists>r. contrastRatio a b = Inr (Num r)"
proof -
  from hexToRgb_isHexColor_range [OF assms(1)] obtain r1 g1 b1 where
    a: "hexToRgb a = Inr \<lparr>rgb_r = Num r1, rgb_g = Num g1, rgb_b = Num b1\<rparr>"
       "0 \<le> r1" "0 \<le> g1" "0 \<le> b1" by blast
  from hexToRgb_isHexColor_range [OF assms(2)] obtain r2 g2 b2 where
    b: "hexToRgb b = Inr \<lparr>rgb_r = Num r2, rgb_g = Num g2, rgb_b = Num b2\<rparr>"
       "0 \<le> r2" "0 \<le> g2" "0 \<le> b2" by blast
  from relativeLuminance_nonneg [OF a(2-4)] obtain l1 where
    l1: "relativeLuminance \<lparr>rgb_r = Num r1, rgb_g = Num g1, rgb_b = Num b1\<rparr> = Num l1" "0 \<le> l1"
    by blast
  from relativeLuminance_nonneg [OF b(2-4)] obtain l2 where
    l2: "relativeLuminance \<lparr>rgb_r = Num r2, rgb_g = Num g2, rgb_b = Num b2\<rparr> = Num l2" "0 \<le> l2"
    by blast
  have "min l1 l2 + 1 / 20 \<noteq> 0" using l1(2) l2(2) by (simp add: min_def)
  then show ?thesis
    using a(1) b(1) l1(1) l2(1) by (simp add: contrastRatio_def Let_def)
qed

lemma addCheck_isNum:
  assumes "isHexColor fg" "isHexColor bg" "validCvdMode m"
    and "addCheck m (pair, fg, bg, minRatio) = Inr c"
  shows "isNum (chk_ratio c)"
proof -
  from applyCvd_valid [OF assms(1,3)] obtain fg' where 1: "applyCvd fg m = Inr fg'" "isHexColor fg'"
    by blast
  from applyCvd_valid [OF assms(2,3)] obtain bg' where 2: "applyCvd bg m = Inr bg'" "isHexColor bg'"
    by blast
  from contrastRatio_isNum [OF 1(2) 2(2)] obtain r where "contrastRatio fg' bg' = Inr (Num r)"
    by blast
  with 1 2 assms(4) show ?thesis by (auto simp: addCheck_def)
qed

lemma isNum_foldl_Math_min: "isNum (foldl Math_min x xs) = (isNum x \<and> list_all isNum xs)"
  by (induction xs arbitrary: x) auto

lemma isNum_Math_min_list: "isNum (Math_min_list xs) = (xs \<noteq> [] \<and> list_all isNum xs)"
  by (cases xs) (simp_all add: isNum_foldl_Math_min)

lemma scoreContrastBase_isNum:
  assumes "tokensValid t" "validCvdMode m" "scoreContrastBase t target m = Inr r"
  shows "isNum (cr_worstRatio r)"
proof -
  note tv = tokensValidD [OF assms(1)]
  let ?normal = "tc_normal (targetContrast target)"
  let ?large = "tc_large (targetContrast target)"
  let ?cs = "[(''textPrimary/background (normal)'', textPrimary t, background t, ?normal),
            (''textPrimary/surface (normal)'', textPrimary t, surface t, ?normal),
            (''textSecondary/background (normal)'', textSecondary t, background t, ?normal),
            (''textSecondary/surface (normal)'', textSecondary t, surface t, ?normal),
            (''textTertiary/surface (normal)'', textTertiary t, surface t, ?large),
            (''primaryText/primary (normal)'', primaryText t, primary t, ?normal),
            (''secondaryText/secondary (normal)'', secondaryText t, secondary t, ?normal),
            (''accentText/accent (normal)'', accentText t, accent t, ?normal),
            (''textPrimary/background (large)'', textPrimary t, background t, ?large)]"
  from assms(3) obtain checks where checks: "mapE (addCheck m) ?cs = Inr checks"
    and r: "cr_worstRatio r = Math_min_list (map chk_ratio checks)"
    unfolding scoreContrastBase_def Let_def bindE_eq_Inr by auto
  have "list_all (\<lambda>c. isNum (chk_ratio c)) checks \<and> length checks = length ?cs"
  proof (rule mapE_all [OF checks])
    fix x y assume x: "x \<in> set ?cs" and y: "addCheck m x = Inr y"
    from x tv obtain pair fg bg mr where "x = (pair, fg, bg, mr)" "isHexColor fg" "isHexColor bg"
      by auto
    with y assms(2) show "isNum (chk_ratio y)" by (auto intro: addCheck_isNum)
  qed
  then have "list_all (\<lambda>c. isNum (chk_ratio c)) checks" "checks \<noteq> []" by auto
  then show ?thesis
    unfolding r by (simp add: isNum_Math_min_list list_all_iff)
qed

lemma scoreContrastStates_isNum:
  assumes "tokensValid t" "validCvdMode m" "scoreContrastStates t target m = Inr r"
  shows "isNum (sr_worstRatio r)"
proof -
  note tv = tokensValidD [OF assms(1)]
  let ?normal = "tc_normal (targetContrast target)"
  let ?cs = "[(''btnPrimary/text:hoverBg'', btn_text (buttonPrimary t), btn_hoverBg (buttonPrimary t), ?normal),
            (''btnPrimary/text:pressedBg'', btn_text (buttonPrimary t), btn_pressedBg (buttonPrimary t), ?normal),
            (''btnSecondary/text:hoverBg'', btn_text (buttonSecondary t), btn_hoverBg (buttonSecondary t), ?normal),
            (''btnSecondary/text:pressedBg'', btn_text (buttonSecondary t), btn_pressedBg (buttonSecondary t), ?normal),
            (''semantic.success/subtleText:subtleBg'', sem_subtleText (success (semantic t)),
               sem_subtleBg (success (semantic t)), ?normal),
            (''semantic.warning/subtleText:subtleBg'', sem_subtleText (warning (semantic t)),
               sem_subtleBg (warning (semantic t)), ?normal),
            (''semantic.danger/subtleText:subtleBg'', sem_subtleText (danger (semantic t)),
               sem_subtleBg (danger (semantic t)), ?normal),
            (''semantic.info/subtleText:subtleBg'', sem_subtleText (info (semantic t)),
               sem_subtleBg (info (semantic t)), ?normal)]"
  from assms(3) obtain checks where checks: "mapE (addCheck m) ?cs = Inr checks"
    and r: "sr_worstRatio r = Math_min_list (map chk_ratio checks)"
    unfolding scoreContrastStates_def Let_def bindE_eq_Inr by auto
  have "list_all (\<lambda>c. isNum (chk_ratio c)) checks \<and> length checks = length ?cs"
  proof (rule mapE_all [OF checks])
    fix x y assume x: "x \<in> set ?cs" and y: "addCheck m x = Inr y"
    from x tv obtain pair fg bg mr where "x = (pair, fg, bg, mr)" "isHexColor fg" "isHexColor bg"
      by auto
    with y assms(2) show "isNum (chk_ratio y)" by (auto intro: addCheck_isNum)
  qed
  then have "list_all (\<lambda>c. isNum (chk_ratio c)) checks" "checks \<noteq> []" by auto
  then show ?thesis
    unfolding r by (simp add: isNum_Math_min_list list_all_iff)
qed

lemma scoreEmphasis_isNum:
  assumes "tokensValid t" "scoreEmphasis t = Inr r"
  shows "isNum (em_score r)"
proof -
  from hexToOklch_isHexColor [OF tokensValidD(7) [OF assms(1)]] obtain p where
    p: "hexToOklch (primary t) = Inr p" "lchFinite p" by blast
  from hexToOklch_isHexColor [OF tokensValidD(2) [OF assms(1)]] obtain s where
    s: "hexToOklch (surface t) = Inr s" "lchFinite s" by blast
  show ?thesis
    using assms(2) p(1) s(1) lchFiniteD [OF p(2)] lchFiniteD [OF s(2)]
    by (auto simp: scoreEmphasis_def Let_def hueDistance_def)
qed

lemma isNum_scoreMap [simp]: "isNum (scoreMap rel)"
  by (cases rel) simp_all

lemma scoreHarmony_isNum:
  assumes "scoreHarmony sh t = Inr r"
  shows "isNum (h_score r)"
  using assms by (auto simp: scoreHarmony_def bindE_eq_Inr Let_def)

lemma primaryDistOf_isNum:
  assumes "tokensValid t" "validCvdMode m" "primaryDistOf t m = Inr r"
  shows "isNum (prd_dE r)"
proof -
  note tv = tokensValidD [OF assms(1)]
  from applyCvd_valid [OF tv(7) assms(2)] obtain p where
    1: "applyCvd (primary t) m = Inr p" "isHexColor p" by blast
  from applyCvd_valid [OF tv(2) assms(2)] obtain s where
    2: "applyCvd (surface t) m = Inr s" "isHexColor s" by blast
  from deltaEoklab_total [OF 1(2) 2(2)] obtain d where "deltaEoklab p s = Inr d" "isNum d"
    by blast
  with 1 2 assms(3) show ?thesis by (auto simp: primaryDistOf_def)
qed

lemma less_isNum: "x < y \<Longrightarrow> isNum (x :: number)"
  by (cases x; cases y) simp_all

lemma le_isNum: "x \<le> y \<Longrightarrow> isNum (y :: number)"
  by (cases x; cases y) simp_all

lemma minPairLoop_isNum:
  assumes "minPairLoop (s0, d0) ps = (s, Some d)"
    and "\<And>d'. d0 = Some d' \<Longrightarrow> isNum d'"
  shows "isNum d"
  using assms
proof (induction ps arbitrary: s0 d0)
  case Nil
  then show ?case by simp
next
  case (Cons p ps)
  let ?c = "case d0 of None \<Rightarrow> isNum (pd_dE p) | Some m \<Rightarrow> pd_dE p < m"
  show ?case
  proof (cases ?c)
    case True
    then have num: "isNum (pd_dE p)"
      by (cases d0) (auto dest: less_isNum)
    from Cons.prems(1) True have "minPairLoop (pd_pair p, Some (pd_dE p)) ps = (s, Some d)"
      by simp
    then show ?thesis
    proof (rule Cons.IH)
      fix d' assume "Some (pd_dE p) = Some d'"
      with num show "isNum d'" by simp
    qed
  next
    case False
    with Cons.prems(1) have "minPairLoop (s0, d0) ps = (s, Some d)" by simp
    then show ?thesis
      using Cons.prems(2) by (rule Cons.IH)
  qed
qed

lemma minPairLoop_None_isNum:
  assumes "minPairLoop ([], None) ps = (s, Some d)"
  shows "isNum d"
  using assms by (rule minPairLoop_isNum) simp

lemma semanticDistOf_isNum:
  assumes "semanticDistOf t m = Inr r"
  shows "isNum (sd_minDE r)"
proof -
  from assms obtain sem where sem: "scoreSemanticSeparation t m = Inr sem"
    by (auto simp: semanticDistOf_def bindE_eq_Inr)
  obtain s d0 where loop: "minPairLoop ([], None) (ss_pairs sem) = (s, d0)"
    by (cases "minPairLoop ([], None) (ss_pairs sem)") simp
  from assms sem loop obtain d where d: "d0 = Some d" "sd_minDE r = d"
    by (cases d0) (auto simp: semanticDistOf_def)
  from loop d(1) have "minPairLoop ([], None) (ss_pairs sem) = (s, Some d)" by simp
  then have "isNum d" by (rule minPairLoop_None_isNum)
  with d(2) show ?thesis by simp
qed

text \<open>What \<open>aggregateScore\<close> returns: the reports of the scorers it calls, and a total
  that is a function of these reports, the weights and the contrast target.\<close>

lemma aggregateScore_Inr:
  assumes "aggregateScore t m target w g Li ms sh = Inr r"
  obtains crs srs pd sd where
    "ms \<noteq> []"
    "mapE (scoreContrastBase t target) ms = Inr crs"
    "mapE (scoreContrastStates t target) ms = Inr srs"
    "scoreEmphasis t = Inr (emphasis r)" "scoreHarmony sh t = Inr (harmony r)"
    "mapE (primaryDistOf t) ms = Inr pd" "mapE (semanticDistOf t) ms = Inr sd"
    "scoreSemanticSeparation t ''none'' = Inr (rep_semantic r)"
    "cr_passAll (contrast r) = list_all cr_passAll crs"
    "cr_worstRatio (contrast r) = Math_min_list (map cr_worstRatio crs)"
    "states r = \<lparr>sr_checks = concat (map sr_checks srs),
                 sr_passAll = list_all sr_passAll srs,
                 sr_worstRatio = Math_min_list (map sr_worstRatio srs)\<rparr>"
    "tone r = scoreToneSystem m Li"
    "cvd r = \<lparr>cvd_modes = ms, primaryDist = pd, semanticDist = sd\<rparr>"
    "outOfGamutCount (rep_penalties r) = g"
proof -
  have ne: "ms \<noteq> []"
  proof
    assume "ms = []"
    with assms show False by (simp add: aggregateScore_def)
  qed
  with assms show ?thesis
    by (auto simp: aggregateScore_def bindE_eq_Inr Let_def intro!: that)
qed

lemma aggregateScore_total_eq:
  assumes "aggregateScore t m target w g Li ms sh = Inr r"
  shows "total r =
           w_contrast w
             * clamp ((cr_worstRatio (contrast r) - tc_normal (targetContrast target))
                      / (tc_normal (targetContrast target) * 0.6)) 0 1
           + w_stateContrast w
             * clamp ((sr_worstRatio (states r) - tc_normal (targetContrast target))
                      / (tc_normal (targetContrast target) * 0.6)) 0 1
           + w_toneSystem w * (if tone_ok (tone r) then 1.0 else 0.65)
           + w_emphasis w * em_score (emphasis r)
           + w_harmony w * clamp (h_score (harmony r)) 0 1
           + w_cvdRobust w
             * (0.55 * clamp ((Math_min_list (map prd_dE (primaryDist (cvd r))) - 0.05) / 0.1) 0 1
                + 0.45 * clamp ((Math_min_list (map sd_minDE (semanticDist (cvd r))) - 0.05) / 0.1)
                           0 1)
           + w_semanticSeparation w
             * (if ss_ok (rep_semantic r)
                then clamp ((ss_minDE (rep_semantic r) - 0.06) / 0.08) 0 1 else 0)
           - w_gamutPenalty w
             * (if 0 < outOfGamutCount (rep_penalties r)
                then clamp (Num (real (outOfGamutCount (rep_penalties r))) / 8) 0 1 else 0)
           - 4.0 * (if cr_passAll (contrast r) then 0 else 0.85)
           - 2.8 * (if sr_passAll (states r) then 0 else 0.65)"
proof -
  have ne: "ms \<noteq> []"
  proof
    assume "ms = []"
    with assms show False by (simp add: aggregateScore_def)
  qed
  with assms show ?thesis
    by (auto simp: aggregateScore_def bindE_eq_Inr Let_def)
qed

lemma scoreSemanticSeparation_ok:
  assumes "scoreSemanticSeparation t m = Inr r" "ss_ok r"
  shows "isNum (ss_minDE r)"
proof -
  from assms(1) have "ss_ok r = (0.06 \<le> ss_minDE r)"
    unfolding scoreSemanticSeparation_def Let_def bindE_eq_Inr
    by (auto simp del: mapE.simps)
  with assms(2) show ?thesis by (auto dest: le_isNum)
qed

lemma mapE_isNum:
  assumes "mapE f xs = Inr ys" and "xs \<noteq> []"
    and "\<And>x y. x \<in> set xs \<Longrightarrow> f x = Inr y \<Longrightarrow> isNum (v y)"
  shows "isNum (Math_min_list (map v ys))"
proof -
  have "list_all (\<lambda>y. isNum (v y)) ys \<and> length ys = length xs"
    using assms(1,3) by (rule mapE_all)
  with assms(2) have "list_all (\<lambda>y. isNum (v y)) ys" "ys \<noteq> []" by auto
  then show ?thesis
    by (simp add: isNum_Math_min_list list_all_iff)
qed

lemma aggregateScore_isNum:
  assumes tv: "tokensValid t" and modes: "list_all validCvdMode ms"
    and r: "aggregateScore t m target w g Li ms sh = Inr r"
  shows "isNum (cr_worstRatio (contrast r))" "isNum (sr_worstRatio (states r))"
    "isNum (em_score (emphasis r))" "isNum (h_score (harmony r))"
    "isNum (Math_min_list (map prd_dE (primaryDist (cvd r))))"
    "isNum (Math_min_list (map sd_minDE (semanticDist (cvd r))))"
    "ss_ok (rep_semantic r) \<Longrightarrow> isNum (ss_minDE (rep_semantic r))"
proof -
  have mode: "validCvdMode x" if "x \<in> set ms" for x
    using that modes by (simp add: list_all_iff)
  from r obtain crs srs pd sd where parts:
    "ms \<noteq> []"
    "mapE (scoreContrastBase t target) ms = Inr crs"
    "mapE (scoreContrastStates t target) ms = Inr srs"
    "scoreEmphasis t = Inr (emphasis r)" "scoreHarmony sh t = Inr (harmony r)"
    "mapE (primaryDistOf t) ms = Inr pd" "mapE (semanticDistOf t) ms = Inr sd"
    "scoreSemanticSeparation t ''none'' = Inr (rep_semantic r)"
    "cr_passAll (contrast r) = list_all cr_passAll crs"
    "cr_worstRatio (contrast r) = Math_min_list (map cr_worstRatio crs)"
    "states r = \<lparr>sr_checks = concat (map sr_checks srs),
                 sr_passAll = list_all sr_passAll srs,
                 sr_worstRatio = Math_min_list (map sr_worstRatio srs)\<rparr>"
    "tone r = scoreToneSystem m Li"
    "cvd r = \<lparr>cvd_modes = ms, primaryDist = pd, semanticDist = sd\<rparr>"
    "outOfGamutCount (rep_penalties r) = g"
    by (rule aggregateScore_Inr)
  show "isNum (cr_worstRatio (contrast r))"
    unfolding parts(10) using parts(2,1)
    by (rule mapE_isNum) (use tv mode in \<open>auto intro: scoreContrastBase_isNum\<close>)
  have "isNum (Math_min_list (map sr_worstRatio srs))"
    using parts(3,1)
    by (rule mapE_isNum) (use tv mode in \<open>auto intro: scoreContrastStates_isNum\<close>)
  then show "isNum (sr_worstRatio (states r))"
    by (simp add: parts(11))
  show "isNum (em_score (emphasis r))"
    using tv parts(4) by (rule scoreEmphasis_isNum)
  show "isNum (h_score (harmony r))"
    using parts(5) by (rule scoreHarmony_isNum)
  have "isNum (Math_min_list (map prd_dE pd))"
    using parts(6,1)
    by (rule mapE_isNum) (use tv mode in \<open>auto intro: primaryDistOf_isNum\<close>)
  then show "isNum (Math_min_list (map prd_dE (primaryDist (cvd r))))"
    by (simp add: parts(13))
  have "isNum (Math_min_list (map sd_minDE sd))"
    using parts(7,1)
    by (rule mapE_isNum) (auto intro: semanticDistOf_isNum)
  then show "isNum (Math_min_list (map sd_minDE (semanticDist (cvd r))))"
    by (simp add: parts(13))
  show "isNum (ss_minDE (rep_semantic r))" if "ss_ok (rep_semantic r)"
    using parts(8) that by (rule scoreSemanticSeparation_ok)
qed

lemma clamp_unit:
  assumes "isNum x"
  obtains u where "clamp x 0 1 = Num u" "0 \<le> u" "u \<le> 1"
proof -
  from assms obtain a where "x = Num a" by (rule isNumE)
  then have "clamp x 0 1 = Num (min 1 (max 0 a))" by (simp add: clamp_def)
  moreover have "0 \<le> min 1 (max 0 a)" "min 1 (max 0 a) \<le> 1" by simp_all
  ultimately show ?thesis by (rule that)
qed

lemma dominance_arith:
  assumes "0 \<le> u1" "u1 \<le> 1" "0 \<le> u2" "0 \<le> w" "w < p"
    and "isNum b" "isNum c" "isNum d" "isNum e" "isNum f" "isNum g" "isNum h" "isNum j"
  shows "Num w * Num u1 + b + c + d + e + f + g - h - Num p - j
         < Num w * Num u2 + b + c + d + e + f + g - h - Num 0 - j"
proof -
  from assms(6-13) obtain b' c' d' e' f' g' h' j' where
    "b = Num b'" "c = Num c'" "d = Num d'" "e = Num e'" "f = Num f'" "g = Num g'"
    "h = Num h'" "j = Num j'"
    by (auto elim!: isNumE)
  moreover have "w * u1 \<le> w"
    using assms(2,4) by (simp add: mult_left_le)
  moreover have "0 \<le> w * u2"
    using assms(3,4) by simp
  ultimately show ?thesis
    using assms(5) by simp
qed

section \<open>The hard contrast penalty\<close>

lemma aggregateScore_gamut:
  assumes "aggregateScore t m target w g Li ms sh = Inr r"
  shows "outOfGamutCount (rep_penalties r) = g"
  using assms by (rule aggregateScore_Inr)

lemma targetContrast_normal:
  obtains nn where "tc_normal (targetContrast target) = Num nn" "0 < nn"
proof (cases "target = ''AAA''")
  case True
  then have "tc_normal (targetContrast target) = Num 7"
    by (simp add: targetContrast_def)
  then show ?thesis by (rule that) simp
next
  case False
  then have "tc_normal (targetContrast target) = Num (9 / 2)"
    by (simp add: targetContrast_def)
  then show ?thesis by (rule that) simp
qed

text \<open>
  Claim C2. With the default weights, let two token sets be scored for the same mode,
  contrast target, list of CVD modes, gamut count, lightness summary and seed hue, and
  let the reports agree in everything but the base contrast: the state contrast, the
  emphasis, the harmony, the CVD distances and the semantic separation are the same (the
  tone report and the gamut penalty are, by the common arguments). When one set fails a
  base contrast check in some requested CVD mode and the other passes them all, the
  total of the failing set is strictly below the total of the passing set: the hard
  penalty \<open>4.0 * 0.85 = 3.4\<close> exceeds the weight 3.2 of the contrast score, which lies
  in \<open>[0, 1]\<close>.
\<close>

theorem hard_penalty_dominates:
  assumes tv: "tokensValid t1" "tokensValid t2" and modes: "list_all validCvdMode ms"
    and r1: "aggregateScore t1 m target (defaultWeights None) g Li ms sh = Inr r1"
    and r2: "aggregateScore t2 m target (defaultWeights None) g Li ms sh = Inr r2"
    and same: "states r1 = states r2" "emphasis r1 = emphasis r2" "harmony r1 = harmony r2"
      "cvd r1 = cvd r2" "rep_semantic r1 = rep_semantic r2"
    and fail: "\<not> cr_passAll (contrast r1)" and pass: "cr_passAll (contrast r2)"
  shows "total r1 < total r2"
proof -
  let ?W = "defaultWeights None"
  let ?n = "tc_normal (targetContrast target)"
  note n1 = aggregateScore_isNum [OF tv(1) modes r1]
  note n2 = aggregateScore_isNum [OF tv(2) modes r2]
  have tone: "tone r1 = tone r2"
    using aggregateScore_tone [OF r1] aggregateScore_tone [OF r2] by simp
  have gamut: "outOfGamutCount (rep_penalties r1) = outOfGamutCount (rep_penalties r2)"
    using aggregateScore_gamut [OF r1] aggregateScore_gamut [OF r2] by simp
  obtain nn where nn: "?n = Num nn" "0 < nn"
    by (rule targetContrast_normal)
  have scaled: "isNum ((x - ?n) / (?n * 0.6)) = isNum x" for x
    using nn by simp
  have "isNum ((cr_worstRatio (contrast r1) - ?n) / (?n * 0.6))"
    using n1(1) by (simp only: scaled)
  then obtain u1 where u1:
    "clamp ((cr_worstRatio (contrast r1) - ?n) / (?n * 0.6)) 0 1 = Num u1" "0 \<le> u1" "u1 \<le> 1"
    by (rule clamp_unit)
  have "isNum ((cr_worstRatio (contrast r2) - ?n) / (?n * 0.6))"
    using n2(1) by (simp only: scaled)
  then obtain u2 where u2:
    "clamp ((cr_worstRatio (contrast r2) - ?n) / (?n * 0.6)) 0 1 = Num u2" "0 \<le> u2" "u2 \<le> 1"
    by (rule clamp_unit)
  define b where
    "b = w_stateContrast ?W * clamp ((sr_worstRatio (states r2) - ?n) / (?n * 0.6)) 0 1"
  define c where "c = w_toneSystem ?W * (if tone_ok (tone r2) then 1.0 else 0.65)"
  define d where "d = w_emphasis ?W * em_score (emphasis r2)"
  define e where "e = w_harmony ?W * clamp (h_score (harmony r2)) 0 1"
  define f where
    "f = w_cvdRobust ?W
           * (0.55 * clamp ((Math_min_list (map prd_dE (primaryDist (cvd r2))) - 0.05) / 0.1) 0 1
              + 0.45 * clamp ((Math_min_list (map sd_minDE (semanticDist (cvd r2))) - 0.05) / 0.1)
                         0 1)"
  define s where
    "s = w_semanticSeparation ?W
           * (if ss_ok (rep_semantic r2)
              then clamp ((ss_minDE (rep_semantic r2) - 0.06) / 0.08) 0 1 else 0)"
  define h where
    "h = w_gamutPenalty ?W
           * (if 0 < outOfGamutCount (rep_penalties r2)
              then clamp (Num (real (outOfGamutCount (rep_penalties r2))) / 8) 0 1 else 0)"
  define j where "j = 2.8 * (if sr_passAll (states r2) then 0 else 0.65 :: number)"
  have nums: "isNum b" "isNum c" "isNum d" "isNum e" "isNum f" "isNum s" "isNum h" "isNum j"
    using n2 nn
    by (simp_all add: b_def c_def d_def e_def f_def s_def h_def j_def defaultWeights_def
        baseWeights_def)
  have "total r1 = Num (16 / 5) * Num u1 + b + c + d + e + f + s - h - Num (17 / 5) - j"
    unfolding aggregateScore_total_eq [OF r1] same tone gamut u1(1)
      b_def c_def d_def e_def f_def s_def h_def j_def
    using fail by (simp add: defaultWeights_def baseWeights_def)
  moreover have "total r2 = Num (16 / 5) * Num u2 + b + c + d + e + f + s - h - Num 0 - j"
    unfolding aggregateScore_total_eq [OF r2] u2(1)
      b_def c_def d_def e_def f_def s_def h_def j_def
    using pass by (simp add: defaultWeights_def baseWeights_def)
  moreover have
    "Num (16 / 5) * Num u1 + b + c + d + e + f + s - h - Num (17 / 5) - j
     < Num (16 / 5) * Num u2 + b + c + d + e + f + s - h - Num 0 - j"
    using u1(2,3) u2(2) _ _ nums by (rule dominance_arith) simp_all
  ultimately show ?thesis by simp
qed

lemma hexToRgb_black: "hexToRgb ''#000000'' = Inr \<lparr>rgb_r = Num 0, rgb_g = Num 0, rgb_b = Num 0\<rparr>"
  by (simp add: hexToRgb_def Let_def stripHash_def startsWithHash_def trim_def
      isWhiteSpace_def slice_def parseInt16_def isHexDigit_def hexDigitVal_def digitsValue_def)

lemma hexToRgb_white: "hexToRgb ''#FFFFFF'' = Inr \<lparr>rgb_r = Num 1, rgb_g = Num 1, rgb_b = Num 1\<rparr>"
  by (simp add: hexToRgb_def Let_def stripHash_def startsWithHash_def trim_def
      isWhiteSpace_def slice_def parseInt16_def isHexDigit_def hexDigitVal_def digitsValue_def)

lemma relativeLuminance_black:
  "relativeLuminance \<lparr>rgb_r = Num 0, rgb_g = Num 0, rgb_b = Num 0\<rparr> = Num 0"
  by (simp add: relativeLuminance_def srgbToLinear_def Let_def)

lemma relativeLuminance_white:
  "relativeLuminance \<lparr>rgb_r = Num 1, rgb_g = Num 1, rgb_b = Num 1\<rparr> = Num 1"
  by (simp add: relativeLuminance_def srgbToLinear_def Let_def)

lemma contrastRatio_black_white:
  "contrastRatio ''#000000'' ''#FFFFFF'' = Inr (Num 21)"
  "contrastRatio ''#FFFFFF'' ''#000000'' = Inr (Num 21)"
  "contrastRatio ''#FFFFFF'' ''#FFFFFF'' = Inr (Num 1)"
  by (simp_all add: contrastRatio_def Let_def hexToRgb_black hexToRgb_white
      relativeLuminance_black relativeLuminance_white)

lemma applyCvd_none_black_white:
  "applyCvd ''#000000'' ''none'' = Inr ''#000000''"
  "applyCvd ''#FFFFFF'' ''none'' = Inr ''#FFFFFF''"
  by (simp_all add: applyCvd_def toUpperCase_def upperChar_def)

lemma tokensValid_plain: "tokensValid plainTokens" "tokensValid faintTokens"
  by (simp_all add: tokensValid_def buttonValid_def semanticStatesValid_def faintTokens_def
      plainTokens_def plainButton_def plainStates_def isHexColor_def isHexDigit_def
      hexDigitVal_def)

lemma scoreContrastBase_plain:
  "\<exists>cr. scoreContrastBase plainTokens ''AA'' ''none'' = Inr cr \<and> cr_passAll cr"
  by (simp add: scoreContrastBase_def Let_def plainTokens_def addCheck_def targetContrast_def
      applyCvd_none_black_white contrastRatio_black_white)

lemma scoreContrastBase_faint:
  "\<exists>cr. scoreContrastBase faintTokens ''AA'' ''none'' = Inr cr \<and> \<not> cr_passAll cr"
  by (simp add: scoreContrastBase_def Let_def faintTokens_def plainTokens_def addCheck_def
      targetContrast_def applyCvd_none_black_white contrastRatio_black_white)

text \<open>The tertiary text is read by the base contrast checks only.\<close>

lemma faintTokens_scores:
  "scoreContrastStates faintTokens = scoreContrastStates plainTokens"
  "scoreEmphasis faintTokens = scoreEmphasis plainTokens"
  "scoreHarmony sh faintTokens = scoreHarmony sh plainTokens"
  "primaryDistOf faintTokens = primaryDistOf plainTokens"
  "scoreSemanticSeparation faintTokens = scoreSemanticSeparation plainTokens"
  "semanticDistOf faintTokens = semanticDistOf plainTokens"
proof -
  show 1: "scoreContrastStates faintTokens = scoreContrastStates plainTokens"
    by (intro ext) (simp add: scoreContrastStates_def faintTokens_def)
  show "scoreEmphasis faintTokens = scoreEmphasis plainTokens"
    by (simp add: scoreEmphasis_def faintTokens_def)
  show "scoreHarmony sh faintTokens = scoreHarmony sh plainTokens"
    by (simp add: scoreHarmony_def faintTokens_def)
  show "primaryDistOf faintTokens = primaryDistOf plainTokens"
    by (intro ext) (simp add: primaryDistOf_def faintTokens_def)
  show 5: "scoreSemanticSeparation faintTokens = scoreSemanticSeparation plainTokens"
    by (intro ext) (simp add: scoreSemanticSeparation_def faintTokens_def)
  show "semanticDistOf faintTokens = semanticDistOf plainTokens"
    by (intro ext) (simp add: semanticDistOf_def 5)
qed

theorem hard_penalty_dominates_witness:
  "\<exists>r1 r2.
     aggregateScore faintTokens Light ''AA'' (defaultWeights None) 0 plainLinfo [''none''] None
       = Inr r1
     \<and> aggregateScore plainTokens Light ''AA'' (defaultWeights None) 0 plainLinfo [''none''] None
       = Inr r2
     \<and> \<not> cr_passAll (contrast r1) \<and> cr_passAll (contrast r2)
     \<and> total r1 < total r2"
proof -
  have modes: "list_all validCvdMode [''none'']" "[''none''] \<noteq> []" by simp_all
  from aggregateScore_total [OF tokensValid_plain(2) modes(2,1)] obtain r1 where
    r1: "aggregateScore faintTokens Light ''AA'' (defaultWeights None) 0 plainLinfo [''none''] None
         = Inr r1" by blast
  from aggregateScore_total [OF tokensValid_plain(1) modes(2,1)] obtain r2 where
    r2: "aggregateScore plainTokens Light ''AA'' (defaultWeights None) 0 plainLinfo [''none''] None
         = Inr r2" by blast
  from r1 obtain crs1 srs1 pd1 sd1 where p1:
    "mapE (scoreContrastBase faintTokens ''AA'') [''none''] = Inr crs1"
    "mapE (scoreContrastStates faintTokens ''AA'') [''none''] = Inr srs1"
    "scoreEmphasis faintTokens = Inr (emphasis r1)"
    "scoreHarmony None faintTokens = Inr (harmony r1)"
    "mapE (primaryDistOf faintTokens) [''none''] = Inr pd1"
    "mapE (semanticDistOf faintTokens) [''none''] = Inr sd1"
    "scoreSemanticSeparation faintTokens ''none'' = Inr (rep_semantic r1)"
    "cr_passAll (contrast r1) = list_all cr_passAll crs1"
    "states r1 = \<lparr>sr_checks = concat (map sr_checks srs1),
                  sr_passAll = list_all sr_passAll srs1,
                  sr_worstRatio = Math_min_list (map sr_worstRatio srs1)\<rparr>"
    "cvd r1 = \<lparr>cvd_modes = [''none''], primaryDist = pd1, semanticDist = sd1\<rparr>"
    by (rule aggregateScore_Inr)
  from r2 obtain crs2 srs2 pd2 sd2 where p2:
    "mapE (scoreContrastBase plainTokens ''AA'') [''none''] = Inr crs2"
    "mapE (scoreContrastStates plainTokens ''AA'') [''none''] = Inr srs2"
    "scoreEmphasis plainTokens = Inr (emphasis r2)"
    "scoreHarmony None plainTokens = Inr (harmony r2)"
    "mapE (primaryDistOf plainTokens) [''none''] = Inr pd2"
    "mapE (semanticDistOf plainTokens) [''none''] = Inr sd2"
    "scoreSemanticSeparation plainTokens ''none'' = Inr (rep_semantic r2)"
    "cr_passAll (contrast r2) = list_all cr_passAll crs2"
    "states r2 = \<lparr>sr_checks = concat (map sr_checks srs2),
                  sr_passAll = list_all sr_passAll srs2,
                  sr_worstRatio = Math_min_list (map sr_worstRatio srs2)\<rparr>"
    "cvd r2 = \<lparr>cvd_modes = [''none''], primaryDist = pd2, semanticDist = sd2\<rparr>"
    by (rule aggregateScore_Inr)
  have "srs1 = srs2" "pd1 = pd2" "sd1 = sd2"
    using p1(2,5,6) p2(2,5,6) by (simp_all only: faintTokens_scores sum.inject)
  then have same: "states r1 = states r2" "cvd r1 = cvd r2"
    using p1(9,10) p2(9,10) by simp_all
  have same': "emphasis r1 = emphasis r2" "harmony r1 = harmony r2"
    "rep_semantic r1 = rep_semantic r2"
    using p1(3,4,7) p2(3,4,7) by (simp_all only: faintTokens_scores sum.inject)
  have fail: "\<not> cr_passAll (contrast r1)"
    using scoreContrastBase_faint p1(1,8) by (auto simp: bindE_eq_Inr)
  have pass: "cr_passAll (contrast r2)"
    using scoreContrastBase_plain p2(1,8) by (auto simp: bindE_eq_Inr)
  from hard_penalty_dominates [OF tokensValid_plain(2,1) modes(1) r1 r2 same(1) same'(1,2)
      same(2) same'(3) fail pass] r1 r2 fail pass
  show ?thesis by blast
qed

end
